theory Spec2Isabelle
  imports Main "HOL-Library.Char_ord"
begin

section \<open>The notebook file format\<close>

text \<open>
  The repository consists of Jupyter notebooks (format 4.1) and a README. A notebook file is
  a JSON document; it is embedded as a value of the type \<open>json\<close> below, key by key and line
  by line as it stands in the file. Each element of a cell's \<open>source\<close> array is one line of
  the cell, with its terminating newline where the file has one.
\<close>

datatype json =
    JNull
  | JBool bool
  | JNum int
  | JStr string
  | JArr "json list"
  | JObj "(string \<times> json) list"

section \<open>The notebooks\<close>

text \<open>\<^verbatim>\<open>src/instructor/08-wcsaxes_instructor.ipynb\<close>\<close>

definition wcsaxes_instructor :: json where
\<open>wcsaxes_instructor = JObj [
 (''cells'', JArr [
  JObj [
   (''cell_type'', JStr ''markdown''),
   (''metadata'', JObj []),
   (''source'', JArr [
    JStr ''# Visualizing image data with astropy.visualization\<newline>'',
    JStr ''\<newline>'',
    JStr ''In the previous tutorials, when we have made plots of the image data, the axes have showed pixel coordinates. However, you may want to show the world coordinates, and optionally a coordinate grid on the image. The [astropy.visualization](http://docs.astropy.org/en/stable/visualization/index.html) sub-module provides a way to do this that integrates with Matplotlib ([astropy.visualization.wcsaxes](http://docs.astropy.org/en/stable/visualization/wcsaxes/index.html)). In addition, the [APLpy](https://aplpy.github.io/) package provides a user-friendly way of making these kinds of plots (and is now built on top of astropy.visualization.wcsaxes). In this tutorial we will take a look at both options.''
   ])
  ],
  JObj [
   (''cell_type'', JStr ''markdown''),
   (''metadata'', JObj []),
   (''source'', JArr [
    JStr ''\<newline>'',
    JStr ''<section class="objectives panel panel-warning">\<newline>'',
    JStr ''<div class="panel-heading">\<newline>'',
    JStr ''<h2><span class="fa fa-certificate"></span> Objectives</h2>\<newline>'',
    JStr ''</div>\<newline>'',
    JStr ''\<newline>'',
    JStr ''\<newline>'',
    JStr ''<div class="panel-body">\<newline>'',
    JStr ''\<newline>'',
    JStr ''<ul>\<newline>'',
    JStr ''<li>Make an image plot with Matplotlib with world coordinates shown</li>\<newline>'',
    JStr ''<li>Customize the ticks, tick labels, and axis labels</li>\<newline>'',
    JStr ''<li>Overplot data (points and contours) on top of the image</li>\<newline>'',
    JStr ''<li>Overplot different coordinate systems</li>\<newline>'',
    JStr ''<li>Normalizing and stretching image data</li>\<newline>'',
    JStr ''<li>Using APLpy for quick plots</li>\<newline>'',
    JStr ''</ul>\<newline>'',
    JStr ''\<newline>'',
    JStr ''</div>\<newline>'',
    JStr ''\<newline>'',
    JStr ''</section>\<newline>''
   ])
  ],
  JObj [
   (''cell_type'', JStr ''markdown''),
   (''metadata'', JObj []),
   (''source'', JArr [
    JStr ''## Documentation\<newline>'',
    JStr ''\<newline>'',
    JStr ''This notebook only shows a subset of the functionality in astropy.visualization and APLpy. For more information about the features presented below as well as other available features, you can read the\<newline>'',
    JStr ''[astropy.visualization](http://docs.astropy.org/en/stable/visualization/index.html) and the [APLpy](https://aplpy.github.io/) documentation.''
   ])
  ],
  JObj [
   (''cell_type'', JStr ''code''),
   (''execution_count'', JNull),
   (''metadata'', JObj []),
   (''outputs'', JArr []),
   (''source'', JArr [
    JStr ''%matplotlib inline\<newline>'',
    JStr ''import matplotlib.pyplot as plt\<newline>'',
    JStr ''plt.rc('image', origin='lower')\<newline>'',
    JStr ''plt.rc('figure', figsize=(10, 6))''
   ])
  ],
  JObj [
   (''cell_type'', JStr ''markdown''),
   (''metadata'', JObj []),
   (''source'', JArr [
    JStr ''## Making a simple plot\<newline>'',
    JStr ''\<newline>'',
    JStr ''We start off by loading in the GAIA source density image from previous tutorials:''
   ])
  ],
  JObj [
   (''cell_type'', JStr ''code''),
   (''execution_count'', JNull),
   (''metadata'', JObj []),
   (''outputs'', JArr []),
   (''source'', JArr [
    JStr ''from astropy.io import fits\<newline>'',
    JStr ''hdulist = fits.open('data/LMCDensFits1k.fits')''
   ])
  ],
  JObj [
   (''cell_type'', JStr ''markdown''),
   (''metadata'', JObj []),
   (''source'', JArr [
    JStr ''and we extract the WCS from the header:''
   ])
  ],
  JObj [
   (''cell_type'', JStr ''code''),
   (''execution_count'', JNull),
   (''metadata'', JObj []),
   (''outputs'', JArr []),
   (''source'', JArr [
    JStr ''from astropy.wcs import WCS\<newline>'',
    JStr ''wcs = WCS(hdulist[0].header)''
   ])
  ],
  JObj [
   (''cell_type'', JStr ''markdown''),
   (''metadata'', JObj []),
   (''source'', JArr [
    JStr ''We can now use Matplotlib as normal but passing the ``projection=`` keyword argument to the ``subplot`` function:''
   ])
  ],
  JObj [
   (''cell_type'', JStr ''code''),
   (''execution_count'', JNull),
   (''metadata'', JObj []),
   (''outputs'', JArr []),
   (''source'', JArr [
    JStr ''ax = plt.subplot(projection=wcs)\<newline>'',
    JStr ''ax.imshow(hdulist[0].data)\<newline>'',
    JStr ''ax.grid()''
   ])
  ],
  JObj [
   (''cell_type'', JStr ''markdown''),
   (''metadata'', JObj []),
   (''source'', JArr [
    JStr ''As you can see, this automatically shows the longitude and latitude on the axes and calling ``grid`` shows the curved grid of the celestial sphere!\<newline>'',
    JStr ''\<newline>'',
    JStr ''## Customizing ticks and labels\<newline>'',
    JStr ''\<newline>'',
    JStr ''When using a WCS projection, controlling the ticks, tick labels, and axis labels is a little different to normal Matplotlib - this is because there is now not a one to one correspondance between world coordinates and pixel axes, so talking about the 'x' or 'y' ticks does not make sense in some cases, and instead we should talk about e.g. longitude and latitude ticks.\<newline>'',
    JStr ''\<newline>'',
    JStr ''Once you have a plot initialized, you can access the ``ax.coords`` property which gives you access to ways of controlling each world coordinate. You can either index this by an integer for the index of the world coordinate:''
   ])
  ],
  JObj [
   (''cell_type'', JStr ''code''),
   (''execution_count'', JNull),
   (''metadata'', JObj []),
   (''outputs'', JArr []),
   (''source'', JArr [
    JStr ''lon = ax.coords[0]\<newline>'',
    JStr ''lat = ax.coords[1]''
   ])
  ],
  JObj [
   (''cell_type'', JStr ''markdown''),
   (''metadata'', JObj []),
   (''source'', JArr [
    JStr ''or, in the case of common coordinate systems, by their name:''
   ])
  ],
  JObj [
   (''cell_type'', JStr ''code''),
   (''execution_count'', JNull),
   (''metadata'', JObj []),
   (''outputs'', JArr []),
   (''source'', JArr [
    JStr ''lon = ax.coords['glon']\<newline>'',
    JStr ''lat = ax.coords['glat']''
   ])
  ],
  JObj [
   (''cell_type'', JStr ''markdown''),
   (''metadata'', JObj []),
   (''source'', JArr [
    JStr ''The object you have for each coordinate can then be used to customize it, for example to set the axis labels:''
   ])
  ],
  JObj [
   (''cell_type'', JStr ''code''),
   (''execution_count'', JNull),
   (''metadata'', JObj []),
   (''outputs'', JArr []),
   (''source'', JArr [
    JStr ''lon.set_axislabel('Galactic Longitude')\<newline>'',
    JStr ''lat.set_axislabel('Galactic Latitude')\<newline>'',
    JStr ''ax.figure''
   ])
  ],
  JObj [
   (''cell_type'', JStr ''markdown''),
   (''metadata'', JObj []),
   (''source'', JArr [
    JStr ''The tick label format:''
   ])
  ],
  JObj [
   (''cell_type'', JStr ''code''),
   (''execution_count'', JNull),
   (''metadata'', JObj []),
   (''outputs'', JArr []),
   (''source'', JArr [
    JStr ''lon.set_major_formatter('dd:mm:ss.s')\<newline>'',
    JStr ''lat.set_major_formatter('dd:mm')\<newline>'',
    JStr ''ax.figure''
   ])
  ],
  JObj [
   (''cell_type'', JStr ''markdown''),
   (''metadata'', JObj []),
   (''source'', JArr [
    JStr ''The tick spacing or the number of ticks:''
   ])
  ],
  JObj [
   (''cell_type'', JStr ''code''),
   (''execution_count'', JNull),
   (''metadata'', JObj []),
   (''outputs'', JArr []),
   (''source'', JArr [
    JStr ''from astropy import units as u\<newline>'',
    JStr ''lon.set_ticks(spacing=4. * u.deg)\<newline>'',
    JStr ''lat.set_ticks(number=10)\<newline>'',
    JStr ''ax.figure''
   ])
  ],
  JObj [
   (''cell_type'', JStr ''markdown''),
   (''metadata'', JObj []),
   (''source'', JArr [
    JStr ''Since the world axes are not necessarily tied to a single pixel axis, it is possible to show each coordinate on any of the axes:''
   ])
  ],
  JObj [
   (''cell_type'', JStr ''code''),
   (''execution_count'', JNull),
   (''metadata'', JObj []),
   (''outputs'', JArr []),
   (''source'', JArr [
    JStr ''lon.set_ticks_position('bt')\<newline>'',
    JStr ''lon.set_ticklabel_position('bt')\<newline>'',
    JStr ''lon.set_axislabel_position('bt')\<newline>'',
    JStr ''lat.set_ticks_position('lr')\<newline>'',
    JStr ''lat.set_ticklabel_position('lr')\<newline>'',
    JStr ''lat.set_axislabel_position('lr')\<newline>'',
    JStr ''ax.figure''
   ])
  ],
  JObj [
   (''cell_type'', JStr ''markdown''),
   (''metadata'', JObj []),
   (''source'', JArr [
    JStr ''## Overlaying markers and contours\<newline>'',
    JStr ''\<newline>'',
    JStr ''By default, the normal Matplotlib methods on axes should work, and assume pixel coordinates:''
   ])
  ],
  JObj [
   (''cell_type'', JStr ''code''),
   (''execution_count'', JNull),
   (''metadata'', JObj []),
   (''outputs'', JArr []),
   (''source'', JArr [
    JStr ''ax = plt.subplot(projection=wcs)\<newline>'',
    JStr ''ax.imshow(hdulist[0].data)''
   ])
  ],
  JObj [
   (''cell_type'', JStr ''code''),
   (''execution_count'', JNull),
   (''metadata'', JObj []),
   (''outputs'', JArr []),
   (''source'', JArr [
    JStr ''ax.plot([300, 350, 400], [200, 250, 300], 'wo')\<newline>'',
    JStr ''ax.figure''
   ])
  ],
  JObj [
   (''cell_type'', JStr ''markdown''),
   (''metadata'', JObj []),
   (''source'', JArr [
    JStr ''However, most Matplotlib methods can take a ``transform=`` option which allows us to plot data in various coordinate systems. For example, to plot markers in Galactic coordinates, we can do:''
   ])
  ],
  JObj [
   (''cell_type'', JStr ''code''),
   (''execution_count'', JNull),
   (''metadata'', JObj []),
   (''outputs'', JArr []),
   (''source'', JArr [
    JStr ''ax.plot([279, 278, 277], [-30, -31, -32], 'o', color='orange', transform=ax.get_transform('world'))\<newline>'',
    JStr ''ax.figure''
   ])
  ],
  JObj [
   (''cell_type'', JStr ''markdown''),
   (''metadata'', JObj []),
   (''source'', JArr [
    JStr ''In this case we used ``'world'`` but we could also have explicitly said ``'galactic'`` or plotted markers in e.g. ``'fk5'``. You can also pass astropy coordinate frames to this if needed.\<newline>'',
    JStr ''\<newline>'',
    JStr ''To overplot contours, you can use a similar approach, but in this case ``get_transform`` should be given the WCS object for the contour map. We can try this out by using an IRAS 100 micron map of the LMC:''
   ])
  ],
  JObj [
   (''cell_type'', JStr ''code''),
   (''execution_count'', JNull),
   (''metadata'', JObj []),
   (''outputs'', JArr []),
   (''source'', JArr [
    JStr ''hdulist_iras = fits.open('data/ISSA_100_LMC.fits')\<newline>'',
    JStr ''wcs_iras = WCS(hdulist_iras[0].header)''
   ])
  ],
  JObj [
   (''cell_type'', JStr ''code''),
   (''execution_count'', JNull),
   (''metadata'', JObj []),
   (''outputs'', JArr []),
   (''source'', JArr [
    JStr ''ax = plt.subplot(projection=wcs)\<newline>'',
    JStr ''ax.imshow(hdulist[0].data)\<newline>'',
    JStr ''ax.contour(hdulist_iras[0].data, transform=ax.get_transform(wcs_iras),\<newline>'',
    JStr ''           colors='white', levels=[50, 100, 250, 500])''
   ])
  ],
  JObj [
   (''cell_type'', JStr ''markdown''),
   (''metadata'', JObj []),
   (''source'', JArr [
    JStr ''## Overlaying a different coordinate grid\<newline>'',
    JStr ''\<newline>'',
    JStr ''Another useful feature is the ability to overplot different coordinate systems - for example in the above case we can add an RA/Dec grid and ticks for reference:''
   ])
  ],
  JObj [
   (''cell_type'', JStr ''code''),
   (''execution_count'', JNull),
   (''metadata'', JObj []),
   (''outputs'', JArr []),
   (''source'', JArr [
    JStr ''ax = plt.subplot(projection=wcs)\<newline>'',
    JStr ''ax.imshow(hdulist[0].data)\<newline>'',
    JStr ''\<newline>'',
    JStr ''lon, lat = ax.coords\<newline>'',
    JStr ''lon.set_axislabel('Galactic Longitude')\<newline>'',
    JStr ''lat.set_axislabel('Galactic Longitude')\<newline>'',
    JStr ''\<newline>'',
    JStr ''ra, dec = ax.get_coords_overlay('icrs')\<newline>'',
    JStr ''\<newline>'',
    JStr ''dec.set_axislabel('Declination')\<newline>'',
    JStr ''dec.set_ticks_position('t')\<newline>'',
    JStr ''dec.set_ticklabel_position('t')\<newline>'',
    JStr ''dec.set_axislabel_position('t')\<newline>'',
    JStr ''\<newline>'',
    JStr ''ra.set_axislabel('Right Ascension')\<newline>'',
    JStr ''ra.set_ticks_position('r')\<newline>'',
    JStr ''ra.set_ticklabel_position('r')\<newline>'',
    JStr ''ra.set_axislabel_position('r')\<newline>'',
    JStr ''\<newline>'',
    JStr ''lon.grid(color='white')\<newline>'',
    JStr ''lat.grid(color='yellow')\<newline>'',
    JStr ''ra.grid(color='green')\<newline>'',
    JStr ''dec.grid(color='cyan')''
   ])
  ],
  JObj [
   (''cell_type'', JStr ''markdown''),
   (''metadata'', JObj []),
   (''source'', JArr [
    JStr ''## Normalizing and stretching data\<newline>'',
    JStr ''\<newline>'',
    JStr ''Another set of functionality in the [astropy.visualization](http://docs.astropy.org/en/stable/visualization/) sub-package are classes and functions to help with normalizing and stretching data. The easiest way to use this is to use the [simple_norm()](http://docs.astropy.org/en/stable/api/astropy.visualization.mpl_normalize.simple_norm.html#astropy.visualization.mpl_normalize.simple_norm) function:''
   ])
  ],
  JObj [
   (''cell_type'', JStr ''code''),
   (''execution_count'', JNull),
   (''metadata'', JObj []),
   (''outputs'', JArr []),
   (''source'', JArr [
    JStr ''from astropy.visualization import simple_norm''
   ])
  ],
  JObj [
   (''cell_type'', JStr ''code''),
   (''execution_count'', JNull),
   (''metadata'', JObj []),
   (''outputs'', JArr []),
   (''source'', JArr [
    JStr ''sqrt_norm = simple_norm(hdulist[0].data, stretch='sqrt', percent=99.5)''
   ])
  ],
  JObj [
   (''cell_type'', JStr ''code''),
   (''execution_count'', JNull),
   (''metadata'', JObj []),
   (''outputs'', JArr []),
   (''source'', JArr [
    JStr ''plt.imshow(hdulist[0].data, norm=sqrt_norm)''
   ])
  ],
  JObj [
   (''cell_type'', JStr ''markdown''),
   (''metadata'', JObj []),
   (''source'', JArr [
    JStr ''\<newline>'',
    JStr ''<section class="challenge panel panel-success">\<newline>'',
    JStr ''<div class="panel-heading">\<newline>'',
    JStr ''<h2><span class="fa fa-pencil"></span> Challenge</h2>\<newline>'',
    JStr ''</div>\<newline>'',
    JStr ''\<newline>'',
    JStr ''\<newline>'',
    JStr ''<div class="panel-body">\<newline>'',
    JStr ''\<newline>'',
    JStr ''<ol>\<newline>'',
    JStr ''<li>Make a figure of the IRAS data used above, with the GAIA source density map shown as a contour (note that you might need to smooth the GAIA source density image - check the <a href="https://docs.scipy.org/doc/scipy/reference/ndimage.html">scipy.ndimage</a> module for some useful functions!)</li>\<newline>'',
    JStr ''<li>Add the positions of the GAIA sources from the table used in previous tutorials to the image</li>\<newline>'',
    JStr ''<li>If you have FITS images available, try this out with your own data!</li>\<newline>'',
    JStr ''</ol>\<newline>'',
    JStr ''\<newline>'',
    JStr ''</div>\<newline>'',
    JStr ''\<newline>'',
    JStr ''</section>\<newline>''
   ])
  ],
  JObj [
   (''cell_type'', JStr ''code''),
   (''execution_count'', JNull),
   (''metadata'', JObj []),
   (''outputs'', JArr []),
   (''source'', JArr [
    JStr ''#1\<newline>'',
    JStr ''from scipy.ndimage import gaussian_filter\<newline>'',
    JStr ''ax = plt.subplot(projection=wcs_iras)\<newline>'',
    JStr ''ax.imshow(hdulist_iras[0].data, vmax=100)\<newline>'',
    JStr ''ax.contour(gaussian_filter(hdulist[0].data, 3), transform=ax.get_transform(wcs),\<newline>'',
    JStr ''           colors='white')\<newline>'',
    JStr ''ax.set_xlim(-0.5, 499.5)\<newline>'',
    JStr ''ax.set_ylim(-0.5, 499.5)\<newline>'',
    JStr ''\<newline>'',
    JStr ''#2\<newline>'',
    JStr ''from astropy.table import Table\<newline>'',
    JStr ''psc = Table.read('data/gaia_lmc_psc.fits')\<newline>'',
    JStr ''ax.plot(psc['ra'], psc['dec'], 'w.', transform=ax.get_transform('icrs'), alpha=0.3)''
   ])
  ],
  JObj [
   (''cell_type'', JStr ''markdown''),
   (''metadata'', JObj []),
   (''source'', JArr [
    JStr ''## Using APLpy\<newline>'',
    JStr ''\<newline>'',
    JStr ''APLpy is a relatively old Python package that has recently been re-worked to be a wrapper around astropy.visualization. It makes it very easy to make simple plots, although it does not allow full customization to the extent that wcsaxes does. For example, we can make a plot similar to the one in the solution above by doing:''
   ])
  ],
  JObj [
   (''cell_type'', JStr ''code''),
   (''execution_count'', JNull),
   (''metadata'', JObj []),
   (''outputs'', JArr []),
   (''source'', JArr [
    JStr ''import aplpy\<newline>'',
    JStr ''fig = aplpy.FITSFigure('data/ISSA_100_LMC.fits')\<newline>'',
    JStr ''fig.show_colorscale()\<newline>'',
    JStr ''fig.show_contour('data/LMCDensFits1k.fits', smooth=3, colors='white')''
   ])
  ],
  JObj [
   (''cell_type'', JStr ''markdown''),
   (''metadata'', JObj []),
   (''source'', JArr [
    JStr ''Note that you can get to the underlying WCSAxes axes object by doing:''
   ])
  ],
  JObj [
   (''cell_type'', JStr ''code''),
   (''execution_count'', JNull),
   (''metadata'', JObj []),
   (''outputs'', JArr []),
   (''source'', JArr [
    JStr ''fig.ax''
   ])
  ],
  JObj [
   (''cell_type'', JStr ''markdown''),
   (''metadata'', JObj []),
   (''source'', JArr [
    JStr ''The documentation for APLpy can be found at https://aplpy.readthedocs.io/en/stable/''
   ])
  ],
  JObj [
   (''cell_type'', JStr ''markdown''),
   (''metadata'', JObj []),
   (''source'', JArr [
    JStr ''<center><i>This notebook was written by <a href="https://aperiosoftware.com/">Aperio Software Ltd.</a> &copy; 2019, and is licensed under a <a href="https://creativecommons.org/licenses/by/4.0/">Creative Commons Attribution 4.0 International License (CC BY 4.0)</a></i></center>\<newline>'',
    JStr ''\<newline>'',
    JStr ''![cc](https://mirrors.creativecommons.org/presskit/buttons/88x31/svg/by.svg)''
   ])
  ]
 ]),
 (''metadata'', JObj [
  (''kernelspec'', JObj [
   (''display_name'', JStr ''Python 3''),
   (''language'', JStr ''python''),
   (''name'', JStr ''python3'')
  ]),
  (''language_info'', JObj [
   (''codemirror_mode'', JObj [
    (''name'', JStr ''ipython''),
    (''version'', JNum 3)
   ]),
   (''file_extension'', JStr ''.py''),
   (''mimetype'', JStr ''text/x-python''),
   (''name'', JStr ''python''),
   (''nbconvert_exporter'', JStr ''python''),
   (''pygments_lexer'', JStr ''ipython3''),
   (''version'', JStr ''3.7.4'')
  ])
 ]),
 (''nbformat'', JNum 4),
 (''nbformat_minor'', JNum 1)
]\<close>

text \<open>\<^verbatim>\<open>src/instructor/14-photometry_instructor.ipynb\<close>\<close>

definition photometry_instructor :: json where
\<open>photometry_instructor = JObj [
 (''cells'', JArr [
  JObj [
   (''cell_type'', JStr ''markdown''),
   (''metadata'', JObj []),
   (''source'', JArr [
    JStr ''# Aperture and PSF photometry\<newline>'',
    JStr ''\<newline>'',
    JStr ''[Photutils](https://photutils.readthedocs.io/en/stable/) is an Astropy coordinated package that provides tools for detecting and performing photometry of astronomical sources.''
   ])
  ],
  JObj [
   (''cell_type'', JStr ''markdown''),
   (''metadata'', JObj []),
   (''source'', JArr [
    JStr ''\<newline>'',
    JStr ''<section class="objectives panel panel-warning">\<newline>'',
    JStr ''<div class="panel-heading">\<newline>'',
    JStr ''<h2><span class="fa fa-certificate"></span> Objectives</h2>\<newline>'',
    JStr ''</div>\<newline>'',
    JStr ''\<newline>'',
    JStr ''\<newline>'',
    JStr ''<div class="panel-body">\<newline>'',
    JStr ''\<newline>'',
    JStr ''<ul>\<newline>'',
    JStr ''<li>Estimate and subtract backgrounds in images</li>\<newline>'',
    JStr ''<li>Detect sources</li>\<newline>'',
    JStr ''<li>Do aperture photometry</li>\<newline>'',
    JStr ''<li>Construct a PSF</li>\<newline>'',
    JStr ''<li>Do PSF photometry</li>\<newline>'',
    JStr ''</ul>\<newline>'',
    JStr ''\<newline>'',
    JStr ''</div>\<newline>'',
    JStr ''\<newline>'',
    JStr ''</section>\<newline>''
   ])
  ],
  JObj [
   (''cell_type'', JStr ''markdown''),
   (''metadata'', JObj []),
   (''source'', JArr [
    JStr ''## Documentation\<newline>'',
    JStr ''\<newline>'',
    JStr ''This notebook only shows a subset of the functionality in photutils. For more information about the features presented below as well as other available features, you can read the\<newline>'',
    JStr ''[photutils documentation](https://photutils.readthedocs.io/en/stable/).''
   ])
  ],
  JObj [
   (''cell_type'', JStr ''code''),
   (''execution_count'', JNull),
   (''metadata'', JObj []),
   (''outputs'', JArr []),
   (''source'', JArr [
    JStr ''%matplotlib inline\<newline>'',
    JStr ''import matplotlib.pyplot as plt\<newline>'',
    JStr ''plt.rc('image', origin='lower')\<newline>'',
    JStr ''plt.rc('figure', figsize=(10, 6))''
   ])
  ],
  JObj [
   (''cell_type'', JStr ''markdown''),
   (''metadata'', JObj []),
   (''source'', JArr [
    JStr ''## Background estimation and subtraction\<newline>'',
    JStr ''\<newline>'',
    JStr ''Given a calibrated image, your first step (depending on the data) might be to subtract the background. We start off by loading one of the example datasets from photutils:''
   ])
  ],
  JObj [
   (''cell_type'', JStr ''code''),
   (''execution_count'', JNull),
   (''metadata'', JObj []),
   (''outputs'', JArr []),
   (''source'', JArr [
    JStr ''from photutils.datasets import load_star_image\<newline>'',
    JStr ''star_image = load_star_image()\<newline>'',
    JStr ''star_image''
   ])
  ],
  JObj [
   (''cell_type'', JStr ''markdown''),
   (''metadata'', JObj []),
   (''source'', JArr [
    JStr ''The ``star_image`` object is an HDU, so we need to access the data array when plotting it:''
   ])
  ],
  JObj [
   (''cell_type'', JStr ''code''),
   (''execution_count'', JNull),
   (''metadata'', JObj []),
   (''outputs'', JArr []),
   (''source'', JArr [
    JStr ''plt.imshow(star_image.data)''
   ])
  ],
  JObj [
   (''cell_type'', JStr ''markdown''),
   (''metadata'', JObj []),
   (''source'', JArr [
    JStr ''We can now make a histogram to check if the image has a significant background:''
   ])
  ],
  JObj [
   (''cell_type'', JStr ''code''),
   (''execution_count'', JNull),
   (''metadata'', JObj []),
   (''outputs'', JArr []),
   (''source'', JArr [
    JStr ''_ = plt.hist(star_image.data.ravel(), bins=100)''
   ])
  ],
  JObj [
   (''cell_type'', JStr ''markdown''),
   (''metadata'', JObj []),
   (''source'', JArr [
    JStr ''It looks like there is a background! There are many different ways of correcting for this, and one of the simplest ways would be for example to sigma clip the image and use the median of the remaining pixel values. But in some cases a more sophisticated approach is needed, so we can try and estimate the background assuming that it may be spatially varying:''
   ])
  ],
  JObj [
   (''cell_type'', JStr ''code''),
   (''execution_count'', JNull),
   (''metadata'', JObj []),
   (''outputs'', JArr []),
   (''source'', JArr [
    JStr ''from astropy.stats import SigmaClip\<newline>'',
    JStr ''from photutils import Background2D, MedianBackground''
   ])
  ],
  JObj [
   (''cell_type'', JStr ''code''),
   (''execution_count'', JNull),
   (''metadata'', JObj []),
   (''outputs'', JArr []),
   (''source'', JArr [
    JStr ''sigma_clip = SigmaClip(sigma=3.)\<newline>'',
    JStr ''bkg_estimator = MedianBackground()''
   ])
  ],
  JObj [
   (''cell_type'', JStr ''code''),
   (''execution_count'', JNull),
   (''metadata'', JObj []),
   (''outputs'', JArr []),
   (''source'', JArr [
    JStr ''bkg = Background2D(star_image.data, (265, 265),\<newline>'',
    JStr ''                   sigma_clip=sigma_clip,\<newline>'',
    JStr ''                   bkg_estimator=bkg_estimator)''
   ])
  ],
  JObj [
   (''cell_type'', JStr ''code''),
   (''execution_count'', JNull),
   (''metadata'', JObj []),
   (''outputs'', JArr []),
   (''source'', JArr [
    JStr ''plt.imshow(bkg.background)''
   ])
  ],
  JObj [
   (''cell_type'', JStr ''code''),
   (''execution_count'', JNull),
   (''metadata'', JObj []),
   (''outputs'', JArr []),
   (''source'', JArr [
    JStr ''star_image_nobkg = star_image.data - bkg.background''
   ])
  ],
  JObj [
   (''cell_type'', JStr ''code''),
   (''execution_count'', JNull),
   (''metadata'', JObj []),
   (''outputs'', JArr []),
   (''source'', JArr [
    JStr ''plt.imshow(star_image_nobkg, vmin=-1000, vmax=2000)''
   ])
  ],
  JObj [
   (''cell_type'', JStr ''code''),
   (''execution_count'', JNull),
   (''metadata'', JObj []),
   (''outputs'', JArr []),
   (''source'', JArr [
    JStr ''_ = plt.hist(star_image_nobkg.ravel(), bins=100)''
   ])
  ],
  JObj [
   (''cell_type'', JStr ''markdown''),
   (''metadata'', JObj []),
   (''source'', JArr [
    JStr ''## Source detection\<newline>'',
    JStr ''\<newline>'',
    JStr ''Photutils includes several algorithms for detecting sources, including for example an implementation of the [DAOFIND](https://iraf.net/irafhelp.php?val=daofind) algorithm. First, we will need an estimate of the background noise, which we can get with sigma clipping:''
   ])
  ],
  JObj [
   (''cell_type'', JStr ''code''),
   (''execution_count'', JNull),
   (''metadata'', JObj []),
   (''outputs'', JArr []),
   (''source'', JArr [
    JStr ''from astropy.stats import sigma_clipped_stats\<newline>'',
    JStr ''mean, median, std = sigma_clipped_stats(star_image_nobkg, sigma=3.0)\<newline>'',
    JStr ''print(mean, median, std)''
   ])
  ],
  JObj [
   (''cell_type'', JStr ''markdown''),
   (''metadata'', JObj []),
   (''source'', JArr [
    JStr ''We next run the source detection:''
   ])
  ],
  JObj [
   (''cell_type'', JStr ''code''),
   (''execution_count'', JNull),
   (''metadata'', JObj []),
   (''outputs'', JArr []),
   (''source'', JArr [
    JStr ''from photutils import DAOStarFinder\<newline>'',
    JStr ''daofind = DAOStarFinder(fwhm=5.0, threshold=10.*std) \<newline>'',
    JStr ''sources = daofind(star_image_nobkg) ''
   ])
  ],
  JObj [
   (''cell_type'', JStr ''markdown''),
   (''metadata'', JObj []),
   (''source'', JArr [
    JStr ''The result is an astropy Table:''
   ])
  ],
  JObj [
   (''cell_type'', JStr ''code''),
   (''execution_count'', JNull),
   (''metadata'', JObj []),
   (''outputs'', JArr []),
   (''source'', JArr [
    JStr ''sources''
   ])
  ],
  JObj [
   (''cell_type'', JStr ''code''),
   (''execution_count'', JNull),
   (''metadata'', JObj []),
   (''outputs'', JArr []),
   (''source'', JArr [
    JStr ''subset = star_image_nobkg.copy()\<newline>'',
    JStr ''subset[subset < 30 * std] = 0''
   ])
  ],
  JObj [
   (''cell_type'', JStr ''code''),
   (''execution_count'', JNull),
   (''metadata'', JObj []),
   (''outputs'', JArr []),
   (''source'', JArr [
    JStr ''plt.imshow(star_image_nobkg)\<newline>'',
    JStr ''plt.plot(sources['xcentroid'], sources['ycentroid'], 'o', mfc='none', mec='white')\<newline>'',
    JStr ''plt.xlim(200, 600)\<newline>'',
    JStr ''plt.ylim(200, 600)''
   ])
  ],
  JObj [
   (''cell_type'', JStr ''markdown''),
   (''metadata'', JObj []),
   (''source'', JArr [
    JStr ''## Aperture photometry\<newline>'',
    JStr ''\<newline>'',
    JStr ''Now that we have the position of sources, we can perform aperture photometry. The first step is to create an aperture object whcih contains all the positions for which we want to measure the fluxes:''
   ])
  ],
  JObj [
   (''cell_type'', JStr ''code''),
   (''execution_count'', JNull),
   (''metadata'', JObj []),
   (''outputs'', JArr []),
   (''source'', JArr [
    JStr ''from photutils import CircularAperture\<newline>'',
    JStr ''apertures = CircularAperture(list(zip(sources['xcentroid'], sources['ycentroid'])), r=3.)''
   ])
  ],
  JObj [
   (''cell_type'', JStr ''markdown''),
   (''metadata'', JObj []),
   (''source'', JArr [
    JStr ''For simplicity we assume apertures of constant radii (3 pixels). We can now measure the fluxes:''
   ])
  ],
  JObj [
   (''cell_type'', JStr ''code''),
   (''execution_count'', JNull),
   (''metadata'', JObj []),
   (''outputs'', JArr []),
   (''source'', JArr [
    JStr ''from photutils import aperture_photometry\<newline>'',
    JStr ''apphot_table = aperture_photometry(star_image_nobkg, apertures)\<newline>'',
    JStr ''apphot_table''
   ])
  ],
  JObj [
   (''cell_type'', JStr ''code''),
   (''execution_count'', JNull),
   (''metadata'', JObj []),
   (''outputs'', JArr []),
   (''source'', JArr [
    JStr ''plt.scatter(apphot_table['xcenter'], apphot_table['ycenter'], s=apphot_table['aperture_sum'] / 10000)''
   ])
  ],
  JObj [
   (''cell_type'', JStr ''markdown''),
   (''metadata'', JObj []),
   (''source'', JArr [
    JStr ''Note that photutils also includes functionality for PSF photometry but this is more advanced, so we do not look at it here.''
   ])
  ],
  JObj [
   (''cell_type'', JStr ''markdown''),
   (''metadata'', JObj []),
   (''source'', JArr [
    JStr ''\<newline>'',
    JStr ''<section class="challenge panel panel-success">\<newline>'',
    JStr ''<div class="panel-heading">\<newline>'',
    JStr ''<h2><span class="fa fa-pencil"></span> Challenge</h2>\<newline>'',
    JStr ''</div>\<newline>'',
    JStr ''\<newline>'',
    JStr ''\<newline>'',
    JStr ''<div class="panel-body">\<newline>'',
    JStr ''\<newline>'',
    JStr ''<ol>\<newline>'',
    JStr ''<li>Carry out aperture photometry using a radius of 5 and 10 pixels, and compare the results in a scatter plot</li>\<newline>'',
    JStr ''<li>Using this, construct a table containing just the sources where the 5 and 10 pixel fluxes agree to within a factor of 2</li>\<newline>'',
    JStr ''</ol>\<newline>'',
    JStr ''\<newline>'',
    JStr ''</div>\<newline>'',
    JStr ''\<newline>'',
    JStr ''</section>\<newline>''
   ])
  ],
  JObj [
   (''cell_type'', JStr ''code''),
   (''execution_count'', JNull),
   (''metadata'', JObj []),
   (''outputs'', JArr []),
   (''source'', JArr [
    JStr ''#1\<newline>'',
    JStr ''apertures_5 = CircularAperture(list(zip(sources['xcentroid'], sources['ycentroid'])), r=5.)\<newline>'',
    JStr ''apphot_table_5 = aperture_photometry(star_image_nobkg, apertures_5)\<newline>'',
    JStr ''apertures_10 = CircularAperture(list(zip(sources['xcentroid'], sources['ycentroid'])), r=10.)\<newline>'',
    JStr ''apphot_table_10 = aperture_photometry(star_image_nobkg, apertures_10)\<newline>'',
    JStr ''plt.loglog(apphot_table_5['aperture_sum'], apphot_table_10['aperture_sum'], '.')\<newline>'',
    JStr ''plt.plot([1e3, 1e7], [1e3, 1e7])''
   ])
  ],
  JObj [
   (''cell_type'', JStr ''code''),
   (''execution_count'', JNull),
   (''metadata'', JObj []),
   (''outputs'', JArr []),
   (''source'', JArr [
    JStr ''#2\<newline>'',
    JStr ''frac = apphot_table_5['aperture_sum'] / apphot_table_10['aperture_sum']\<newline>'',
    JStr ''agree = (frac < 2) & (frac > 0.5)\<newline>'',
    JStr ''subtable = sources[agree]\<newline>'',
    JStr ''subtable''
   ])
  ],
  JObj [
   (''cell_type'', JStr ''markdown''),
   (''metadata'', JObj []),
   (''source'', JArr [
    JStr ''<center><i>This notebook was written by <a href="https://aperiosoftware.com/">Aperio Software Ltd.</a> &copy; 2019, and is licensed under a <a href="https://creativecommons.org/licenses/by/4.0/">Creative Commons Attribution 4.0 International License (CC BY 4.0)</a></i></center>\<newline>'',
    JStr ''\<newline>'',
    JStr ''![cc](https://mirrors.creativecommons.org/presskit/buttons/88x31/svg/by.svg)''
   ])
  ]
 ]),
 (''metadata'', JObj [
  (''kernelspec'', JObj [
   (''display_name'', JStr ''Python 3''),
   (''language'', JStr ''python''),
   (''name'', JStr ''python3'')
  ]),
  (''language_info'', JObj [
   (''codemirror_mode'', JObj [
    (''name'', JStr ''ipython''),
    (''version'', JNum 3)
   ]),
   (''file_extension'', JStr ''.py''),
   (''mimetype'', JStr ''text/x-python''),
   (''name'', JStr ''python''),
   (''nbconvert_exporter'', JStr ''python''),
   (''pygments_lexer'', JStr ''ipython3''),
   (''version'', JStr ''3.7.4'')
  ])
 ]),
 (''nbformat'', JNum 4),
 (''nbformat_minor'', JNum 1)
]\<close>

text \<open>\<^verbatim>\<open>src/instructor/15-healpix_instructor.ipynb\<close>\<close>

definition healpix_instructor :: json where
\<open>healpix_instructor = JObj [
 (''cells'', JArr [
  JObj [
   (''cell_type'', JStr ''markdown''),
   (''metadata'', JObj []),
   (''source'', JArr [
    JStr ''# Working with HEALPix data\<newline>'',
    JStr ''\<newline>'',
    JStr ''[HEALPix](https://healpix.jpl.nasa.gov/) (Hierarchical Equal Area isoLatitude Pixelisation) is an algorithm that is often used to store data from all-sky surveys.\<newline>'',
    JStr ''\<newline>'',
    JStr ''There are several tools in the Astropy ecosystem for working with HEALPix data, depending on what you need to do:\<newline>'',
    JStr ''\<newline>'',
    JStr ''* The [astropy-healpix](https://astropy-healpix.readthedocs.io/en/latest/index.html) coordinated package is a BSD-licensed implementation of HEALPix which focuses on being able to convert celestial coordinates to HEALPix indices and vice-versa, as well as providing a few other low-level functions.\<newline>'',
    JStr ''\<newline>'',
    JStr ''* The [reproject](https://reproject.readthedocs.io/en/stable/) coordinated package (which we've already looked at) includes functions for converting from/to HEALPix maps.\<newline>'',
    JStr ''\<newline>'',
    JStr ''* The [HiPS](https://hips.readthedocs.io/en/latest/) affiliated package implements suport for the [HiPS](http://aladin.u-strasbg.fr/hips/) scheme for storing data that is based on HEALPix.\<newline>'',
    JStr ''\<newline>'',
    JStr ''In this tutorial, we will take a look at the two first one of these, but we encourage you to learn more about HiPS too!''
   ])
  ],
  JObj [
   (''cell_type'', JStr ''markdown''),
   (''metadata'', JObj []),
   (''source'', JArr [
    JStr ''\<newline>'',
    JStr ''<section class="objectives panel panel-warning">\<newline>'',
    JStr ''<div class="panel-heading">\<newline>'',
    JStr ''<h2><span class="fa fa-certificate"></span> Objectives</h2>\<newline>'',
    JStr ''</div>\<newline>'',
    JStr ''\<newline>'',
    JStr ''\<newline>'',
    JStr ''<div class="panel-body">\<newline>'',
    JStr ''\<newline>'',
    JStr ''<ul>\<newline>'',
    JStr ''<li>Convert between celestial coordinates and HEALPix indices</li>\<newline>'',
    JStr ''<li>Find the boundaries of HEALPix pixels</li>\<newline>'',
    JStr ''<li>Find healpix pixels close to a position</li>\<newline>'',
    JStr ''<li>Reproject a HEALPix map to a standard projection</li>\<newline>'',
    JStr ''</ul>\<newline>'',
    JStr ''\<newline>'',
    JStr ''</div>\<newline>'',
    JStr ''\<newline>'',
    JStr ''</section>\<newline>''
   ])
  ],
  JObj [
   (''cell_type'', JStr ''markdown''),
   (''metadata'', JObj []),
   (''source'', JArr [
    JStr ''## Documentation\<newline>'',
    JStr ''\<newline>'',
    JStr ''This notebook only shows a subset of the functionality in astropy-healpix and reproject. For more information about the features presented below as well as other available features, you can read the\<newline>'',
    JStr ''[astropy-healpix](https://astropy-healpix.readthedocs.io/en/latest/index.html) and the [reproject](https://reproject.readthedocs.io/en/stable/) documentation.''
   ])
  ],
  JObj [
   (''cell_type'', JStr ''code''),
   (''execution_count'', JNull),
   (''metadata'', JObj []),
   (''outputs'', JArr []),
   (''source'', JArr [
    JStr ''%matplotlib inline\<newline>'',
    JStr ''import matplotlib.pyplot as plt\<newline>'',
    JStr ''plt.rc('image', origin='lower')\<newline>'',
    JStr ''plt.rc('figure', figsize=(10, 6))''
   ])
  ],
  JObj [
   (''cell_type'', JStr ''markdown''),
   (''metadata'', JObj []),
   (''source'', JArr [
    JStr ''## Data\<newline>'',
    JStr ''\<newline>'',
    JStr ''For this tutorial, we will be using a downsampled version of the Planck HFI 857Ghz map which is stored as a HEALPix map ([data/HFI_SkyMap_857_2048_R1.10_nominal_ZodiCorrected_lowres.fits](data/HFI_SkyMap_857_2048_R1.10_nominal_ZodiCorrected_lowres.fits)).''
   ])
  ],
  JObj [
   (''cell_type'', JStr ''markdown''),
   (''metadata'', JObj []),
   (''source'', JArr [
    JStr ''## Using astropy-healpix\<newline>'',
    JStr ''\<newline>'',
    JStr ''To start off, we can open the HEALPix file (which is a FITS file) with astropy.io.fits:''
   ])
  ],
  JObj [
   (''cell_type'', JStr ''code''),
   (''execution_count'', JNull),
   (''metadata'', JObj []),
   (''outputs'', JArr []),
   (''source'', JArr [
    JStr ''from astropy.io import fits\<newline>'',
    JStr ''hdulist = fits.open('data/HFI_SkyMap_857_2048_R1.10_nominal_ZodiCorrected_lowres.fits')\<newline>'',
    JStr ''hdulist.info()''
   ])
  ],
  JObj [
   (''cell_type'', JStr ''markdown''),
   (''metadata'', JObj []),
   (''source'', JArr [
    JStr ''The HEALPix map values are stored in HDU 1. This HDU also contains useful header information that helps us understand how to interpret the HEALPix values:''
   ])
  ],
  JObj [
   (''cell_type'', JStr ''code''),
   (''execution_count'', JNull),
   (''metadata'', JObj []),
   (''outputs'', JArr []),
   (''source'', JArr [
    JStr ''hdulist[1].header['NSIDE']''
   ])
  ],
  JObj [
   (''cell_type'', JStr ''code''),
   (''execution_count'', JNull),
   (''metadata'', JObj []),
   (''outputs'', JArr []),
   (''source'', JArr [
    JStr ''hdulist[1].header['ORDERING']''
   ])
  ],
  JObj [
   (''cell_type'', JStr ''code''),
   (''execution_count'', JNull),
   (''metadata'', JObj []),
   (''outputs'', JArr []),
   (''source'', JArr [
    JStr ''hdulist[1].header['COORDSYS']''
   ])
  ],
  JObj [
   (''cell_type'', JStr ''markdown''),
   (''metadata'', JObj []),
   (''source'', JArr [
    JStr ''With this information we can now construct a ``HEALPix`` object:''
   ])
  ],
  JObj [
   (''cell_type'', JStr ''code''),
   (''execution_count'', JNull),
   (''metadata'', JObj []),
   (''outputs'', JArr []),
   (''source'', JArr [
    JStr ''from astropy_healpix import HEALPix\<newline>'',
    JStr ''from astropy.coordinates import Galactic''
   ])
  ],
  JObj [
   (''cell_type'', JStr ''code''),
   (''execution_count'', JNull),
   (''metadata'', JObj []),
   (''outputs'', JArr []),
   (''source'', JArr [
    JStr ''hp = HEALPix(nside=hdulist[1].header['NSIDE'],\<newline>'',
    JStr ''             order=hdulist[1].header['ORDERING'],\<newline>'',
    JStr ''             frame=Galactic())  ''
   ])
  ],
  JObj [
   (''cell_type'', JStr ''markdown''),
   (''metadata'', JObj []),
   (''source'', JArr [
    JStr ''We can then use this object to manipulate the HEALPix map. To start off, we can find out what the coordinates of specific pixels are:''
   ])
  ],
  JObj [
   (''cell_type'', JStr ''code''),
   (''execution_count'', JNull),
   (''metadata'', JObj []),
   (''outputs'', JArr []),
   (''source'', JArr [
    JStr ''hp.healpix_to_skycoord([13322, 2231, 66432])''
   ])
  ],
  JObj [
   (''cell_type'', JStr ''markdown''),
   (''metadata'', JObj []),
   (''source'', JArr [
    JStr ''and vice-versa:''
   ])
  ],
  JObj [
   (''cell_type'', JStr ''code''),
   (''execution_count'', JNull),
   (''metadata'', JObj []),
   (''outputs'', JArr []),
   (''source'', JArr [
    JStr ''from astropy.coordinates import SkyCoord\<newline>'',
    JStr ''hp.skycoord_to_healpix(SkyCoord.from_name('M31'))''
   ])
  ],
  JObj [
   (''cell_type'', JStr ''markdown''),
   (''metadata'', JObj []),
   (''source'', JArr [
    JStr ''You can also find out what the boundaries of a pixel are:''
   ])
  ],
  JObj [
   (''cell_type'', JStr ''code''),
   (''execution_count'', JNull),
   (''metadata'', JObj []),
   (''outputs'', JArr []),
   (''source'', JArr [
    JStr ''edge = hp.boundaries_skycoord(649476, step=100)\<newline>'',
    JStr ''edge''
   ])
  ],
  JObj [
   (''cell_type'', JStr ''markdown''),
   (''metadata'', JObj []),
   (''source'', JArr [
    JStr ''The ``step`` argument controls how many points to sample along the edge of the pixel. The result should be a polygon:''
   ])
  ],
  JObj [
   (''cell_type'', JStr ''code''),
   (''execution_count'', JNull),
   (''metadata'', JObj []),
   (''outputs'', JArr []),
   (''source'', JArr [
    JStr ''plt.plot(edge[0].l.deg, edge[0].b.deg)''
   ])
  ],
  JObj [
   (''cell_type'', JStr ''markdown''),
   (''metadata'', JObj []),
   (''source'', JArr [
    JStr ''You can find all HEALPix pixels within a certain radius of a known position:''
   ])
  ],
  JObj [
   (''cell_type'', JStr ''code''),
   (''execution_count'', JNull),
   (''metadata'', JObj []),
   (''outputs'', JArr []),
   (''source'', JArr [
    JStr ''from astropy import units as u\<newline>'',
    JStr ''hp.cone_search_skycoord(SkyCoord.from_name('M31'), radius=1 * u.deg)''
   ])
  ],
  JObj [
   (''cell_type'', JStr ''markdown''),
   (''metadata'', JObj []),
   (''source'', JArr [
    JStr ''And finally you can interpolate the map at specific coordinates:''
   ])
  ],
  JObj [
   (''cell_type'', JStr ''code''),
   (''execution_count'', JNull),
   (''metadata'', JObj []),
   (''outputs'', JArr []),
   (''source'', JArr [
    JStr ''hp.interpolate_bilinear_skycoord(SkyCoord.from_name('M31'), hdulist[1].data['I_STOKES'])''
   ])
  ],
  JObj [
   (''cell_type'', JStr ''markdown''),
   (''metadata'', JObj []),
   (''source'', JArr [
    JStr ''\<newline>'',
    JStr ''<section class="challenge panel panel-success">\<newline>'',
    JStr ''<div class="panel-heading">\<newline>'',
    JStr ''<h2><span class="fa fa-pencil"></span> Challenge</h2>\<newline>'',
    JStr ''</div>\<newline>'',
    JStr ''\<newline>'',
    JStr ''\<newline>'',
    JStr ''<div class="panel-body">\<newline>'',
    JStr ''\<newline>'',
    JStr ''<ol>\<newline>'',
    JStr ''<li>Find the mean value of I_STOKES within 2 degrees of M42</li>\<newline>'',
    JStr ''<li>Use astropy.coordinates to check that all the pixels returned by the cone search are indeed within 2 degrees of M42 (if not, why not? Hint: check the documentation of <a href="https://astropy-healpix.readthedocs.io/en/latest/api/astropy_healpix.HEALPix.html#astropy_healpix.HEALPix.cone_search_skycoord">cone_search_skycoord()</a>)</li>\<newline>'',
    JStr ''</ol>\<newline>'',
    JStr ''\<newline>'',
    JStr ''</div>\<newline>'',
    JStr ''\<newline>'',
    JStr ''</section>\<newline>''
   ])
  ],
  JObj [
   (''cell_type'', JStr ''code''),
   (''execution_count'', JNull),
   (''metadata'', JObj []),
   (''outputs'', JArr []),
   (''source'', JArr [
    JStr ''#1\<newline>'',
    JStr ''import numpy as np\<newline>'',
    JStr ''M42 = SkyCoord.from_name('M42')\<newline>'',
    JStr ''m42_pixels = hp.cone_search_skycoord(M42, radius=2 * u.deg)\<newline>'',
    JStr ''print(np.mean(hdulist[1].data['I_STOKES'][m42_pixels]))''
   ])
  ],
  JObj [
   (''cell_type'', JStr ''code''),
   (''execution_count'', JNull),
   (''metadata'', JObj []),
   (''outputs'', JArr []),
   (''source'', JArr [
    JStr ''#2\<newline>'',
    JStr ''m42_cone_search_coords = hp.healpix_to_skycoord(m42_pixels)\<newline>'',
    JStr ''separation = m42_cone_search_coords.separation(M42).degree\<newline>'',
    JStr ''_ = plt.hist(separation, bins=50)''
   ])
  ],
  JObj [
   (''cell_type'', JStr ''markdown''),
   (''metadata'', JObj []),
   (''source'', JArr [
    JStr ''## Using reproject for HEALPix data\<newline>'',
    JStr ''\<newline>'',
    JStr ''The reproject package is useful for HEALPix data to convert a HEALPix map to a regular projection, and vice-versa. For example, let's define a simple all-sky Plate-Caree WCS:''
   ])
  ],
  JObj [
   (''cell_type'', JStr ''code''),
   (''execution_count'', JNull),
   (''metadata'', JObj []),
   (''outputs'', JArr []),
   (''source'', JArr [
    JStr ''from astropy.wcs import WCS\<newline>'',
    JStr ''wcs = WCS(naxis=2)\<newline>'',
    JStr ''wcs.wcs.ctype = 'GLON-CAR', 'GLAT-CAR'\<newline>'',
    JStr ''wcs.wcs.crval = 0, 0\<newline>'',
    JStr ''wcs.wcs.crpix = 180.5, 90.5\<newline>'',
    JStr ''wcs.wcs.cdelt = -1, 1''
   ])
  ],
  JObj [
   (''cell_type'', JStr ''markdown''),
   (''metadata'', JObj []),
   (''source'', JArr [
    JStr ''We can now use [reproject_from_healpix](https://reproject.readthedocs.io/en/stable/api/reproject.reproject_from_healpix.html#reproject.reproject_from_healpix) to convert the HEALPix map to this header:''
   ])
  ],
  JObj [
   (''cell_type'', JStr ''code''),
   (''execution_count'', JNull),
   (''metadata'', JObj []),
   (''outputs'', JArr []),
   (''source'', JArr [
    JStr ''from reproject import reproject_from_healpix''
   ])
  ],
  JObj [
   (''cell_type'', JStr ''code''),
   (''execution_count'', JNull),
   (''metadata'', JObj []),
   (''outputs'', JArr []),
   (''source'', JArr [
    JStr ''array, footprint = reproject_from_healpix('data/HFI_SkyMap_857_2048_R1.10_nominal_ZodiCorrected_lowres.fits',\<newline>'',
    JStr ''                                          wcs, shape_out=(180, 360))''
   ])
  ],
  JObj [
   (''cell_type'', JStr ''code''),
   (''execution_count'', JNull),
   (''metadata'', JObj []),
   (''outputs'', JArr []),
   (''source'', JArr [
    JStr ''plt.imshow(array, vmax=100)''
   ])
  ],
  JObj [
   (''cell_type'', JStr ''markdown''),
   (''metadata'', JObj []),
   (''source'', JArr [
    JStr ''You can also use [reproject_to_healpix](https://reproject.readthedocs.io/en/stable/api/reproject.reproject_to_healpix.html#reproject.reproject_to_healpix) to convert a regular map to a HEALPix array.''
   ])
  ],
  JObj [
   (''cell_type'', JStr ''markdown''),
   (''metadata'', JObj []),
   (''source'', JArr [
    JStr ''\<newline>'',
    JStr ''<section class="challenge panel panel-success">\<newline>'',
    JStr ''<div class="panel-heading">\<newline>'',
    JStr ''<h2><span class="fa fa-pencil"></span> Challenge</h2>\<newline>'',
    JStr ''</div>\<newline>'',
    JStr ''\<newline>'',
    JStr ''\<newline>'',
    JStr ''<div class="panel-body">\<newline>'',
    JStr ''\<newline>'',
    JStr ''<ol>\<newline>'',
    JStr ''<li>Reproject the HFI HEALPix map to the projection of the GAIA point source density map as well as the IRAS map that we used in previous tutorials.</li>\<newline>'',
    JStr ''<li>Visualize the results using WCSAxes and optionally the image normalization options.</li>\<newline>'',
    JStr ''</ol>\<newline>'',
    JStr ''\<newline>'',
    JStr ''</div>\<newline>'',
    JStr ''\<newline>'',
    JStr ''</section>\<newline>''
   ])
  ],
  JObj [
   (''cell_type'', JStr ''code''),
   (''execution_count'', JNull),
   (''metadata'', JObj []),
   (''outputs'', JArr []),
   (''source'', JArr [
    JStr ''#1\<newline>'',
    JStr ''header_gaia = fits.getheader('data/LMCDensFits1k.fits')\<newline>'',
    JStr ''header_irsa = fits.getheader('data/ISSA_100_LMC.fits')\<newline>'',
    JStr ''\<newline>'',
    JStr ''array_gaia, _ = reproject_from_healpix('data/HFI_SkyMap_857_2048_R1.10_nominal_ZodiCorrected_lowres.fits',\<newline>'',
    JStr ''                                       header_gaia)\<newline>'',
    JStr ''array_irsa, _ = reproject_from_healpix('data/HFI_SkyMap_857_2048_R1.10_nominal_ZodiCorrected_lowres.fits',\<newline>'',
    JStr ''                                       header_irsa)''
   ])
  ],
  JObj [
   (''cell_type'', JStr ''code''),
   (''execution_count'', JNull),
   (''metadata'', JObj []),
   (''outputs'', JArr []),
   (''source'', JArr [
    JStr ''#2\<newline>'',
    JStr ''from astropy.visualization import simple_norm\<newline>'',
    JStr ''ax = plt.subplot(projection=WCS(header_gaia))\<newline>'',
    JStr ''im =ax.imshow(array_gaia, cmap='plasma',\<newline>'',
    JStr ''              norm=simple_norm(array_gaia, stretch='sqrt', percent=99.5))\<newline>'',
    JStr ''plt.colorbar(im)\<newline>'',
    JStr ''ax.grid()\<newline>'',
    JStr ''ax.set_xlabel('Galactic Longitude')\<newline>'',
    JStr ''ax.set_ylabel('Galactic Latitude')''
   ])
  ],
  JObj [
   (''cell_type'', JStr ''markdown''),
   (''metadata'', JObj []),
   (''source'', JArr [
    JStr ''<center><i>This notebook was written by <a href="https://aperiosoftware.com/">Aperio Software Ltd.</a> &copy; 2019, and is licensed under a <a href="https://creativecommons.org/licenses/by/4.0/">Creative Commons Attribution 4.0 International License (CC BY 4.0)</a></i></center>\<newline>'',
    JStr ''\<newline>'',
    JStr ''![cc](https://mirrors.creativecommons.org/presskit/buttons/88x31/svg/by.svg)''
   ])
  ]
 ]),
 (''metadata'', JObj [
  (''kernelspec'', JObj [
   (''display_name'', JStr ''Python 3''),
   (''language'', JStr ''python''),
   (''name'', JStr ''python3'')
  ]),
  (''language_info'', JObj [
   (''codemirror_mode'', JObj [
    (''name'', JStr ''ipython''),
    (''version'', JNum 3)
   ]),
   (''file_extension'', JStr ''.py''),
   (''mimetype'', JStr ''text/x-python''),
   (''name'', JStr ''python''),
   (''nbconvert_exporter'', JStr ''python''),
   (''pygments_lexer'', JStr ''ipython3''),
   (''version'', JStr ''3.7.4'')
  ])
 ]),
 (''nbformat'', JNum 4),
 (''nbformat_minor'', JNum 1)
]\<close>

text \<open>\<^verbatim>\<open>src/instructor/17-timeseries_instructor.ipynb\<close>\<close>

definition timeseries_instructor :: json where
\<open>timeseries_instructor = JObj [
 (''cells'', JArr [
  JObj [
   (''cell_type'', JStr ''markdown''),
   (''metadata'', JObj []),
   (''source'', JArr [
    JStr ''# Time series representation and analysis\<newline>'',
    JStr ''\<newline>'',
    JStr ''The [astropy.timeseries](http://docs.astropy.org/en/stable/timeseries/index.html) sub-package is a relatively new component of astropy which provides a framework for representing time series, and includes some initial analysis tools (but this is expected to grow over time).''
   ])
  ],
  JObj [
   (''cell_type'', JStr ''markdown''),
   (''metadata'', JObj []),
   (''source'', JArr [
    JStr ''\<newline>'',
    JStr ''<section class="objectives panel panel-warning">\<newline>'',
    JStr ''<div class="panel-heading">\<newline>'',
    JStr ''<h2><span class="fa fa-certificate"></span> Objectives</h2>\<newline>'',
    JStr ''</div>\<newline>'',
    JStr ''\<newline>'',
    JStr ''\<newline>'',
    JStr ''<div class="panel-body">\<newline>'',
    JStr ''\<newline>'',
    JStr ''<ul>\<newline>'',
    JStr ''<li>Create time series</li>\<newline>'',
    JStr ''<li>Access data and times</li>\<newline>'',
    JStr ''<li>Relative time series</li>\<newline>'',
    JStr ''<li>Combining time series</li>\<newline>'',
    JStr ''<li>Sorting time series</li>\<newline>'',
    JStr ''<li>Folding time series</li>\<newline>'',
    JStr ''<li>Periodogram analysis</li>\<newline>'',
    JStr ''<li>Reading in data</li>\<newline>'',
    JStr ''</ul>\<newline>'',
    JStr ''\<newline>'',
    JStr ''</div>\<newline>'',
    JStr ''\<newline>'',
    JStr ''</section>\<newline>''
   ])
  ],
  JObj [
   (''cell_type'', JStr ''markdown''),
   (''metadata'', JObj []),
   (''source'', JArr [
    JStr ''## Documentation\<newline>'',
    JStr ''\<newline>'',
    JStr ''This notebook only shows a subset of the functionality in astropy.timeseries. For more information about the features presented below as well as other available features, you can read the\<newline>'',
    JStr ''[astropy.timeseries documentation](https://docs.astropy.org/en/stable/timeseries/).''
   ])
  ],
  JObj [
   (''cell_type'', JStr ''code''),
   (''execution_count'', JNull),
   (''metadata'', JObj []),
   (''outputs'', JArr []),
   (''source'', JArr [
    JStr ''%matplotlib inline\<newline>'',
    JStr ''import matplotlib.pyplot as plt\<newline>'',
    JStr ''plt.rc('image', origin='lower')\<newline>'',
    JStr ''plt.rc('figure', figsize=(10, 6))''
   ])
  ],
  JObj [
   (''cell_type'', JStr ''markdown''),
   (''metadata'', JObj []),
   (''source'', JArr [
    JStr ''## Creating time series\<newline>'',
    JStr ''\<newline>'',
    JStr ''The astropy.timeseries sub-package provides two main classes for representing time series, both of which are sub-classes of [QTable](http://docs.astropy.org/en/stable/api/astropy.table.QTable.html#astropy.table.QTable):\<newline>'',
    JStr ''\<newline>'',
    JStr ''* [TimeSeries](http://docs.astropy.org/en/stable/api/astropy.timeseries.TimeSeries.html#astropy.timeseries.TimeSeries) to represent a series of measurements at different (and exact) times\<newline>'',
    JStr ''* [BinnedTimeSeries](http://docs.astropy.org/en/stable/api/astropy.timeseries.BinnedTimeSeries.html#astropy.timeseries.BinnedTimeSeries), to represent a series of measurements in different time bins.\<newline>'',
    JStr ''\<newline>'',
    JStr ''In most cases, [TimeSeries](http://docs.astropy.org/en/stable/api/astropy.timeseries.TimeSeries.html#astropy.timeseries.TimeSeries) might be enough unless you need to treat the finite bin sizes carefully (as for example in X-ray analysis). In this tutorial we will focus on TimeSeries, but if you are interested in representing binned time series, you can take a look at the [astropy.timeseries documentation](http://docs.astropy.org/en/stable/timeseries/index.html).\<newline>'',
    JStr ''\<newline>'',
    JStr ''Let's start off by creating a synthetic time series, and we will look later into how to read existing files.''
   ])
  ],
  JObj [
   (''cell_type'', JStr ''code''),
   (''execution_count'', JNull),
   (''metadata'', JObj []),
   (''outputs'', JArr []),
   (''source'', JArr [
    JStr ''from astropy.timeseries import TimeSeries''
   ])
  ],
  JObj [
   (''cell_type'', JStr ''markdown''),
   (''metadata'', JObj []),
   (''source'', JArr [
    JStr ''There are several ways to initialize a time series from scratch. One of the easiest ways if you are dealing with a regularly spaced time series is to specify the start time, the time between samples, and the number of samples:''
   ])
  ],
  JObj [
   (''cell_type'', JStr ''code''),
   (''execution_count'', JNull),
   (''metadata'', JObj []),
   (''outputs'', JArr []),
   (''source'', JArr [
    JStr ''from astropy import units as u\<newline>'',
    JStr ''ts1 = TimeSeries(time_start='2016-03-22T12:30:31',\<newline>'',
    JStr ''                 time_delta=3 * u.s,\<newline>'',
    JStr ''                 n_samples=5)\<newline>'',
    JStr ''ts1''
   ])
  ],
  JObj [
   (''cell_type'', JStr ''markdown''),
   (''metadata'', JObj []),
   (''source'', JArr [
    JStr ''Another way is to specify the times at which the measurements were made:''
   ])
  ],
  JObj [
   (''cell_type'', JStr ''code''),
   (''execution_count'', JNull),
   (''metadata'', JObj []),
   (''outputs'', JArr []),
   (''source'', JArr [
    JStr ''ts2 = TimeSeries(time=['2016-03-22T12:30:31',\<newline>'',
    JStr ''                       '2016-03-22T12:30:38',\<newline>'',
    JStr ''                       '2016-03-22T12:34:40'])\<newline>'',
    JStr ''ts2''
   ])
  ],
  JObj [
   (''cell_type'', JStr ''markdown''),
   (''metadata'', JObj []),
   (''source'', JArr [
    JStr ''In the above cases, we just passed strings to the ``time=`` option, but this is actually a shortcut - the most general way to create the time series which provides the most control is to pass a Time object (from astropy.time):''
   ])
  ],
  JObj [
   (''cell_type'', JStr ''code''),
   (''execution_count'', JNull),
   (''metadata'', JObj []),
   (''outputs'', JArr []),
   (''source'', JArr [
    JStr ''import numpy as np\<newline>'',
    JStr ''from astropy.time import Time\<newline>'',
    JStr ''time = Time(np.linspace(50000, 51000, 6), format='mjd', scale='tdb')\<newline>'',
    JStr ''ts3 = TimeSeries(time=time)\<newline>'',
    JStr ''ts3''
   ])
  ],
  JObj [
   (''cell_type'', JStr ''markdown''),
   (''metadata'', JObj []),
   (''source'', JArr [
    JStr ''Once the time series has been initialized, you can add columns to it as if it was a table:''
   ])
  ],
  JObj [
   (''cell_type'', JStr ''code''),
   (''execution_count'', JNull),
   (''metadata'', JObj []),
   (''outputs'', JArr []),
   (''source'', JArr [
    JStr ''ts3['flux'] = [1, 4, 3, 2, 1, 3] * u.mJy\<newline>'',
    JStr ''ts3['error'] = [0.1, 0.2, 0.2, 0.1, 0.1, 0.2] * u.mJy\<newline>'',
    JStr ''ts3''
   ])
  ],
  JObj [
   (''cell_type'', JStr ''markdown''),
   (''metadata'', JObj []),
   (''source'', JArr [
    JStr ''## Accessing data and times\<newline>'',
    JStr ''\<newline>'',
    JStr ''Data is accessed in the same way as for regular tables:''
   ])
  ],
  JObj [
   (''cell_type'', JStr ''code''),
   (''execution_count'', JNull),
   (''metadata'', JObj []),
   (''outputs'', JArr []),
   (''source'', JArr [
    JStr ''ts3['time']''
   ])
  ],
  JObj [
   (''cell_type'', JStr ''code''),
   (''execution_count'', JNull),
   (''metadata'', JObj []),
   (''outputs'', JArr []),
   (''source'', JArr [
    JStr ''ts3['flux']''
   ])
  ],
  JObj [
   (''cell_type'', JStr ''code''),
   (''execution_count'', JNull),
   (''metadata'', JObj []),
   (''outputs'', JArr []),
   (''source'', JArr [
    JStr ''ts3['time', 'flux']''
   ])
  ],
  JObj [
   (''cell_type'', JStr ''code''),
   (''execution_count'', JNull),
   (''metadata'', JObj []),
   (''outputs'', JArr []),
   (''source'', JArr [
    JStr ''ts3[0]''
   ])
  ],
  JObj [
   (''cell_type'', JStr ''code''),
   (''execution_count'', JNull),
   (''metadata'', JObj []),
   (''outputs'', JArr []),
   (''source'', JArr [
    JStr ''ts3[0:3]''
   ])
  ],
  JObj [
   (''cell_type'', JStr ''code''),
   (''execution_count'', JNull),
   (''metadata'', JObj []),
   (''outputs'', JArr []),
   (''source'', JArr [
    JStr ''ts3[0]['flux']''
   ])
  ],
  JObj [
   (''cell_type'', JStr ''markdown''),
   (''metadata'', JObj []),
   (''source'', JArr [
    JStr ''For the time column, it is also possible to use the following shortcut:''
   ])
  ],
  JObj [
   (''cell_type'', JStr ''code''),
   (''execution_count'', JNull),
   (''metadata'', JObj []),
   (''outputs'', JArr []),
   (''source'', JArr [
    JStr ''ts3.time''
   ])
  ],
  JObj [
   (''cell_type'', JStr ''markdown''),
   (''metadata'', JObj []),
   (''source'', JArr [
    JStr ''Since this is a regular time object, you can convert it to different time scales and formats:''
   ])
  ],
  JObj [
   (''cell_type'', JStr ''code''),
   (''execution_count'', JNull),
   (''metadata'', JObj []),
   (''outputs'', JArr []),
   (''source'', JArr [
    JStr ''ts3.time.tai''
   ])
  ],
  JObj [
   (''cell_type'', JStr ''code''),
   (''execution_count'', JNull),
   (''metadata'', JObj []),
   (''outputs'', JArr []),
   (''source'', JArr [
    JStr ''ts3.time.isot''
   ])
  ],
  JObj [
   (''cell_type'', JStr ''markdown''),
   (''metadata'', JObj []),
   (''source'', JArr [
    JStr ''Note that this doesn't change the time in the time series, it just returns a new Time object. On the other hand, you can change the default format by setting ``.format``:''
   ])
  ],
  JObj [
   (''cell_type'', JStr ''code''),
   (''execution_count'', JNull),
   (''metadata'', JObj []),
   (''outputs'', JArr []),
   (''source'', JArr [
    JStr (''ts3.time.format = 'isot'' @ [CHR 0x27])
   ])
  ],
  JObj [
   (''cell_type'', JStr ''code''),
   (''execution_count'', JNull),
   (''metadata'', JObj []),
   (''outputs'', JArr []),
   (''source'', JArr [
    JStr ''ts3''
   ])
  ],
  JObj [
   (''cell_type'', JStr ''markdown''),
   (''metadata'', JObj []),
   (''source'', JArr [
    JStr ''## Relative time series\<newline>'',
    JStr ''\<newline>'',
    JStr ''If you want to work with relative time series, you can do the following:''
   ])
  ],
  JObj [
   (''cell_type'', JStr ''code''),
   (''execution_count'', JNull),
   (''metadata'', JObj []),
   (''outputs'', JArr []),
   (''source'', JArr [
    JStr ''from astropy.time import TimeDelta\<newline>'',
    JStr ''ts4 = TimeSeries(time=TimeDelta([1, 3, 4] * u.s))\<newline>'',
    JStr ''ts4''
   ])
  ],
  JObj [
   (''cell_type'', JStr ''markdown''),
   (''metadata'', JObj []),
   (''source'', JArr [
    JStr ''and this can also be done by taking a time series in absolute times and subtracting a reference time:''
   ])
  ],
  JObj [
   (''cell_type'', JStr ''code''),
   (''execution_count'', JNull),
   (''metadata'', JObj []),
   (''outputs'', JArr []),
   (''source'', JArr [
    JStr ''ts5 = TimeSeries(time=ts3.time - ts3.time[0], data=ts3['flux', 'error'])\<newline>'',
    JStr ''ts5''
   ])
  ],
  JObj [
   (''cell_type'', JStr ''markdown''),
   (''metadata'', JObj []),
   (''source'', JArr [
    JStr ''## Combining time series\<newline>'',
    JStr ''\<newline>'',
    JStr ''Assuming that you have two time series objects with matching columns as well as another table which represents an additional column:''
   ])
  ],
  JObj [
   (''cell_type'', JStr ''code''),
   (''execution_count'', JNull),
   (''metadata'', JObj []),
   (''outputs'', JArr []),
   (''source'', JArr [
    JStr ''from astropy.table import Table\<newline>'',
    JStr ''\<newline>'',
    JStr ''ts_a = TimeSeries(time_start='2016-03-22T12:30:31',\<newline>'',
    JStr ''                  time_delta=3 * u.s,\<newline>'',
    JStr ''                  data={'flux': [1, 4, 5, 3, 2] * u.mJy})\<newline>'',
    JStr ''\<newline>'',
    JStr ''ts_b = TimeSeries(time_start='2016-03-22T12:50:31',\<newline>'',
    JStr ''                  time_delta=3 * u.s,\<newline>'',
    JStr ''                  data={'flux': [4, 3, 1, 2, 3] * u.mJy})\<newline>'',
    JStr ''\<newline>'',
    JStr ''data = Table(data={'temperature': [40., 41., 40., 39., 30.] * u.K})''
   ])
  ],
  JObj [
   (''cell_type'', JStr ''markdown''),
   (''metadata'', JObj []),
   (''source'', JArr [
    JStr ''There are different ways of combining these - for example you can stack one of the time series with the additional data 'horizontally', which means you preserve the number of rows but construct a new time series with more columns:''
   ])
  ],
  JObj [
   (''cell_type'', JStr ''code''),
   (''execution_count'', JNull),
   (''metadata'', JObj []),
   (''outputs'', JArr []),
   (''source'', JArr [
    JStr ''from astropy.table import hstack''
   ])
  ],
  JObj [
   (''cell_type'', JStr ''code''),
   (''execution_count'', JNull),
   (''metadata'', JObj []),
   (''outputs'', JArr []),
   (''source'', JArr [
    JStr ''tsh = hstack([ts_a, data])\<newline>'',
    JStr ''tsh''
   ])
  ],
  JObj [
   (''cell_type'', JStr ''markdown''),
   (''metadata'', JObj []),
   (''source'', JArr [
    JStr ''or you can stack the time series 'vertically' meaning that the columns are preserved but we make a new time series with all the rows from the original two time series:''
   ])
  ],
  JObj [
   (''cell_type'', JStr ''code''),
   (''execution_count'', JNull),
   (''metadata'', JObj []),
   (''outputs'', JArr []),
   (''source'', JArr [
    JStr ''from astropy.table import vstack''
   ])
  ],
  JObj [
   (''cell_type'', JStr ''code''),
   (''execution_count'', JNull),
   (''metadata'', JObj []),
   (''outputs'', JArr []),
   (''source'', JArr [
    JStr ''tsv = vstack([ts_a, ts_b])\<newline>'',
    JStr ''tsv''
   ])
  ],
  JObj [
   (''cell_type'', JStr ''markdown''),
   (''metadata'', JObj []),
   (''source'', JArr [
    JStr ''## Sorting\<newline>'',
    JStr ''\<newline>'',
    JStr ''Since TimeSeries objects are just tables behind the hood, you can also sort them as you would a table:''
   ])
  ],
  JObj [
   (''cell_type'', JStr ''code''),
   (''execution_count'', JNull),
   (''metadata'', JObj []),
   (''outputs'', JArr []),
   (''source'', JArr [
    JStr ''tsv.sort('flux')\<newline>'',
    JStr ''tsv''
   ])
  ],
  JObj [
   (''cell_type'', JStr ''markdown''),
   (''metadata'', JObj []),
   (''source'', JArr [
    JStr ''## Folding\<newline>'',
    JStr ''\<newline>'',
    JStr ''A common operation with time series is 'folding' by assuming a given period. Let's start off with a synthetic dataset:''
   ])
  ],
  JObj [
   (''cell_type'', JStr ''code''),
   (''execution_count'', JNull),
   (''metadata'', JObj []),
   (''outputs'', JArr []),
   (''source'', JArr [
    JStr ''ts_synth = TimeSeries(time_start='2019-01-01T00:00:00',\<newline>'',
    JStr ''                      time_delta=np.random.uniform(0, 10, 1000) * u.min)\<newline>'',
    JStr ''ts_synth['flux'] = np.cos(2 * np.pi * (ts_synth.time.mjd / 0.49822))\<newline>'',
    JStr ''ts_synth['flux'] += np.random.normal(0, 0.2, 1000)''
   ])
  ],
  JObj [
   (''cell_type'', JStr ''code''),
   (''execution_count'', JNull),
   (''metadata'', JObj []),
   (''outputs'', JArr []),
   (''source'', JArr [
    JStr ''plt.plot(ts_synth.time.mjd, ts_synth['flux'], 'o')''
   ])
  ],
  JObj [
   (''cell_type'', JStr ''markdown''),
   (''metadata'', JObj []),
   (''source'', JArr [
    JStr ''Folding is done with the [TimeSeries.fold](http://docs.astropy.org/en/stable/api/astropy.timeseries.TimeSeries.html#astropy.timeseries.TimeSeries.fold) method:''
   ])
  ],
  JObj [
   (''cell_type'', JStr ''code''),
   (''execution_count'', JNull),
   (''metadata'', JObj []),
   (''outputs'', JArr []),
   (''source'', JArr [
    JStr ''folded = ts_synth.fold(period=0.49822 * u.day)\<newline>'',
    JStr ''folded''
   ])
  ],
  JObj [
   (''cell_type'', JStr ''code''),
   (''execution_count'', JNull),
   (''metadata'', JObj []),
   (''outputs'', JArr []),
   (''source'', JArr [
    JStr ''folded.time.to(u.day).value[:10]''
   ])
  ],
  JObj [
   (''cell_type'', JStr ''code''),
   (''execution_count'', JNull),
   (''metadata'', JObj []),
   (''outputs'', JArr []),
   (''source'', JArr [
    JStr ''plt.plot(folded.time.to(u.day).value, ts_synth['flux'], 'o')''
   ])
  ],
  JObj [
   (''cell_type'', JStr ''markdown''),
   (''metadata'', JObj []),
   (''source'', JArr [
    JStr ''## Periodogram analysis\<newline>'',
    JStr ''\<newline>'',
    JStr ''In the above example it was clear what period to use since we generated the data, but how would we find the period in the first place if it wasn't known? The astropy.timeseries sub-package includes several algorithms for periodogram analysis, the most general one being the Lomb-Scargle algorithm ([Lomb 1976](http://adsabs.harvard.edu/abs/1976Ap%26SS..39..447L), [Scargle 1982](http://adsabs.harvard.edu/abs/1982ApJ...263..835S)). To use this, first create an instance of the [LombScargle](http://docs.astropy.org/en/stable/api/astropy.timeseries.LombScargle.html#astropy.timeseries.LombScargle) class:''
   ])
  ],
  JObj [
   (''cell_type'', JStr ''code''),
   (''execution_count'', JNull),
   (''metadata'', JObj []),
   (''outputs'', JArr []),
   (''source'', JArr [
    JStr ''from astropy.timeseries import LombScargle''
   ])
  ],
  JObj [
   (''cell_type'', JStr ''code''),
   (''execution_count'', JNull),
   (''metadata'', JObj []),
   (''outputs'', JArr []),
   (''source'', JArr [
    JStr ''ls = LombScargle.from_timeseries(ts_synth, 'flux')''
   ])
  ],
  JObj [
   (''cell_type'', JStr ''markdown''),
   (''metadata'', JObj []),
   (''source'', JArr [
    JStr ''To run the periodogram analysis, the easiest way is to call the [autopower](http://docs.astropy.org/en/stable/api/astropy.timeseries.LombScargle.html#astropy.timeseries.LombScargle.autopower) method:''
   ])
  ],
  JObj [
   (''cell_type'', JStr ''code''),
   (''execution_count'', JNull),
   (''metadata'', JObj []),
   (''outputs'', JArr []),
   (''source'', JArr [
    JStr ''frequency, power = ls.autopower()''
   ])
  ],
  JObj [
   (''cell_type'', JStr ''code''),
   (''execution_count'', JNull),
   (''metadata'', JObj []),
   (''outputs'', JArr []),
   (''source'', JArr [
    JStr ''frequency''
   ])
  ],
  JObj [
   (''cell_type'', JStr ''code''),
   (''execution_count'', JNull),
   (''metadata'', JObj []),
   (''outputs'', JArr []),
   (''source'', JArr [
    JStr ''power''
   ])
  ],
  JObj [
   (''cell_type'', JStr ''code''),
   (''execution_count'', JNull),
   (''metadata'', JObj []),
   (''outputs'', JArr []),
   (''source'', JArr [
    JStr ''plt.plot(frequency, power)''
   ])
  ],
  JObj [
   (''cell_type'', JStr ''markdown''),
   (''metadata'', JObj []),
   (''source'', JArr [
    JStr ''We can zoom in on the low frequency peak by doing:''
   ])
  ],
  JObj [
   (''cell_type'', JStr ''code''),
   (''execution_count'', JNull),
   (''metadata'', JObj []),
   (''outputs'', JArr []),
   (''source'', JArr [
    JStr ''frequency, power = ls.autopower(minimum_frequency=0.01 / u.day,\<newline>'',
    JStr ''                                maximum_frequency=10 / u.day)\<newline>'',
    JStr ''plt.plot(frequency, power)''
   ])
  ],
  JObj [
   (''cell_type'', JStr ''markdown''),
   (''metadata'', JObj []),
   (''source'', JArr [
    JStr ''The peak is located at:''
   ])
  ],
  JObj [
   (''cell_type'', JStr ''code''),
   (''execution_count'', JNull),
   (''metadata'', JObj []),
   (''outputs'', JArr []),
   (''source'', JArr [
    JStr ''peak = np.argmax(power)\<newline>'',
    JStr ''frequency[peak]''
   ])
  ],
  JObj [
   (''cell_type'', JStr ''code''),
   (''execution_count'', JNull),
   (''metadata'', JObj []),
   (''outputs'', JArr []),
   (''source'', JArr [
    JStr ''1 / frequency[peak]''
   ])
  ],
  JObj [
   (''cell_type'', JStr ''markdown''),
   (''metadata'', JObj []),
   (''source'', JArr [
    JStr ''## Reading in data\<newline>'',
    JStr ''\<newline>'',
    JStr ''Reading in time series can be done via the [TimeSeries.read](http://docs.astropy.org/en/stable/api/astropy.timeseries.TimeSeries.html#astropy.timeseries.TimeSeries.read) method. This accepts all the formats supported by the Table class, and requires that you specify the name of the time column, and optionally the format and scale for the time. We will take a look at this by reading a CSV file that looks like:\<newline>'',
    JStr ''\<newline>'',
    JStr ''    Date,A,B,C,D,E,F,G\<newline>'',
    JStr ''    2008-03-18,24.68,164.93,114.73,26.27,19.21,28.87,63.44\<newline>'',
    JStr ''    2008-03-19,24.18,164.89,114.75,26.22,19.07,27.76,59.98\<newline>'',
    JStr ''    ...\<newline>'',
    JStr ''    \<newline>'',
    JStr ''To read this file, you can do:''
   ])
  ],
  JObj [
   (''cell_type'', JStr ''code''),
   (''execution_count'', JNull),
   (''metadata'', JObj []),
   (''outputs'', JArr []),
   (''source'', JArr [
    JStr ''ts_file = TimeSeries.read('data/sampled.csv', format='ascii.csv',\<newline>'',
    JStr ''                          time_column='Date')\<newline>'',
    JStr ''ts_file''
   ])
  ],
  JObj [
   (''cell_type'', JStr ''markdown''),
   (''metadata'', JObj []),
   (''source'', JArr [
    JStr ''For some well defined formats (e.g. Kepler/TESS time series files), it is enough to specify the filename.''
   ])
  ],
  JObj [
   (''cell_type'', JStr ''markdown''),
   (''metadata'', JObj []),
   (''source'', JArr [
    JStr ''\<newline>'',
    JStr ''<section class="challenge panel panel-success">\<newline>'',
    JStr ''<div class="panel-heading">\<newline>'',
    JStr ''<h2><span class="fa fa-pencil"></span> The Nobel Challenge (Part 1)</h2>\<newline>'',
    JStr ''</div>\<newline>'',
    JStr ''\<newline>'',
    JStr ''\<newline>'',
    JStr ''<div class="panel-body">\<newline>'',
    JStr ''\<newline>'',
    JStr ''<p>This challenge is a little longer than previous ones, and it brings together several tutorials. The aim here is to start from a realistic dataset which consists of radial velocities of <a href="https://en.wikipedia.org/wiki/51_Pegasi">51 Peg</a> and go all the way through to finding a probability distribution for the companion mass. The starting point is a FITS binary table from <a href="http://vizier.u-strasbg.fr/viz-bin/VizieR?-source=J/AJ/153/138">Birkby+ 2017 on Vizier</a>. The file can be found at <a href="data/birkby2017.fits">data/birkby2017.fits</a>.</p>\<newline>'',
    JStr ''<ol>\<newline>'',
    JStr ''<li>Start off by reading in the data into a TimeSeries object using TimeSeries.read as shown above. Since this table is not in a standard time series format, you will need to specify the name of the time column, and you will also need to specify the time format with <code>time_format</code>. See the <a href="http://vizier.u-strasbg.fr/viz-bin/VizieR?-source=J/AJ/153/138">Vizier page</a> for more details about the available columns, and the documentation for <a href="http://docs.astropy.org/en/stable/api/astropy.timeseries.TimeSeries.html#astropy.timeseries.TimeSeries.read">TimeSeries.read</a> for details about the options to provide. If you want to be extra careful you can also try setting the time scale to the appropriate one based on what you can find on the Vizier page.</li>\<newline>'',
    JStr ''<li>Make a plot of the time series. You'll probably notice that strangely the velocities seem to cluster around two main values, and this doesn't look very much like what you would expect. Read Note 2 on the <a href="http://vizier.u-strasbg.fr/viz-bin/VizieR?-source=J/AJ/153/138">Vizier page</a> to find out what might be going on!</li>\<newline>'',
    JStr (''<li>Modify the table so that all the velocities are on the same zero point, using standard table operations. Note that you will need to be careful here because the <code>Set</code> column which identifies each dataset/instrument is <em>always</em> 6 characters long and includes trailing spaces (i.e. <code>'' @ [CHR 0x27] @ '''HIRES '</code> not <code>'HIRES'</code>). Make a plot of the updated velocities to make sure things look more sensible.</li>\<newline>''),
    JStr ''<li>Run a Lomb-Scargle periodogram analysis of the radial velocities to find whether the data has any periodicity. Note that you will probably have to zoom in a bit on the most promising peak to get a more accurate period.</li>\<newline>'',
    JStr ''<li>Fold the time series using the period you found in the previous step, and plot the resulting radial velocity curve. If you got the right period, the resulting curve should look much simpler!</li>\<newline>'',
    JStr ''</ol>\<newline>'',
    JStr ''\<newline>'',
    JStr ''</div>\<newline>'',
    JStr ''\<newline>'',
    JStr ''</section>\<newline>''
   ])
  ],
  JObj [
   (''cell_type'', JStr ''code''),
   (''execution_count'', JNull),
   (''metadata'', JObj []),
   (''outputs'', JArr []),
   (''source'', JArr [
    JStr ''#1\<newline>'',
    JStr ''ts_51peg = TimeSeries.read('data/51peg.fits', time_column='BJD',\<newline>'',
    JStr ''                           time_format='jd', time_scale='tdb')''
   ])
  ],
  JObj [
   (''cell_type'', JStr ''code''),
   (''execution_count'', JNull),
   (''metadata'', JObj []),
   (''outputs'', JArr []),
   (''source'', JArr [
    JStr ''#2\<newline>'',
    JStr ''plt.plot(ts_51peg.time.jd, ts_51peg['RV'], 'o')''
   ])
  ],
  JObj [
   (''cell_type'', JStr ''code''),
   (''execution_count'', JNull),
   (''metadata'', JObj []),
   (''outputs'', JArr []),
   (''source'', JArr [
    JStr ''#3\<newline>'',
    JStr ''ts_51peg['RV'][ts_51peg['Set'] == 'Lick13'] -= 21.70 * u.m / u.s\<newline>'',
    JStr ''ts_51peg['RV'][ts_51peg['Set'] == 'Lick8 ']-= 4.52 * u.m / u.s\<newline>'',
    JStr ''ts_51peg['RV'][ts_51peg['Set'] == 'Lick6 '] -= 14.64 * u.m / u.s\<newline>'',
    JStr ''ts_51peg['RV'][ts_51peg['Set'] == 'ELODIE'] += 33251.59 * u.m / u.s\<newline>'',
    JStr ''ts_51peg['RV'][ts_51peg['Set'] == 'HIRES '] += 2.24 * u.m / u.s\<newline>'',
    JStr ''ts_51peg['RV'][ts_51peg['Set'] == 'HARPS '] += 33152.54 * u.m / u.s\<newline>'',
    JStr ''plt.plot(ts_51peg.time.jd, ts_51peg['RV'], 'o')''
   ])
  ],
  JObj [
   (''cell_type'', JStr ''code''),
   (''execution_count'', JNull),
   (''metadata'', JObj []),
   (''outputs'', JArr []),
   (''source'', JArr [
    JStr ''#4\<newline>'',
    JStr ''ls = LombScargle.from_timeseries(ts_51peg, 'RV')\<newline>'',
    JStr ''frequency, power = ls.autopower(minimum_frequency=0.2 / u.day, maximum_frequency=0.3 / u.day)\<newline>'',
    JStr ''plt.plot(frequency, power)\<newline>'',
    JStr ''period = 1 / frequency[np.argmax(power)]\<newline>'',
    JStr ''print(period)''
   ])
  ],
  JObj [
   (''cell_type'', JStr ''code''),
   (''execution_count'', JNull),
   (''metadata'', JObj []),
   (''outputs'', JArr []),
   (''source'', JArr [
    JStr ''#5\<newline>'',
    JStr ''ts_51peg_folded = ts_51peg.fold(period=period)\<newline>'',
    JStr ''plt.plot(ts_51peg_folded.time.to(u.s), ts_51peg_folded['RV'], 'o')''
   ])
  ],
  JObj [
   (''cell_type'', JStr ''markdown''),
   (''metadata'', JObj []),
   (''source'', JArr [
    JStr ''\<newline>'',
    JStr ''<section class="challenge panel panel-success">\<newline>'',
    JStr ''<div class="panel-heading">\<newline>'',
    JStr ''<h2><span class="fa fa-pencil"></span> The Nobel Challenge (Part 2)</h2>\<newline>'',
    JStr ''</div>\<newline>'',
    JStr ''\<newline>'',
    JStr ''\<newline>'',
    JStr ''<div class="panel-body">\<newline>'',
    JStr ''\<newline>'',
    JStr ''<ol>\<newline>'',
    JStr ''<li>Now use what we learned in the modeling tutorial to fit a sinusoid to the folded radial velocity curve, plot the fit, and determine the amplitude of the velocity. Note that you may need to adjust the initial parameters of the model (in particular the frequency) to get a good fit.</li>\<newline>'',
    JStr ''<li>(optional) Try and extract the error in the amplitude from <code>fitter.fit_info</code>. The <code>param_cov</code> key gives the covariance matrix, and the parameters are in the order given by the <code>param_names</code> attribute on the model. Note also that this will not have units attached, but the units will be the same as the parameters. You can also skip this step and assume an error in the amplitude of 0.5 m/s if you prefer.</li>\<newline>'',
    JStr ''</ol>\<newline>'',
    JStr ''<p>The challenge will continue in the next tutorial!</p>\<newline>'',
    JStr ''\<newline>'',
    JStr ''</div>\<newline>'',
    JStr ''\<newline>'',
    JStr ''</section>\<newline>''
   ])
  ],
  JObj [
   (''cell_type'', JStr ''code''),
   (''execution_count'', JNull),
   (''metadata'', JObj []),
   (''outputs'', JArr []),
   (''source'', JArr [
    JStr ''#6\<newline>'',
    JStr ''from astropy.modeling import models, fitting\<newline>'',
    JStr ''fitter = fitting.LevMarLSQFitter()\<newline>'',
    JStr ''model_init = models.Sine1D(frequency=1/10 / u.day)\<newline>'',
    JStr ''x = ts_51peg_folded.time.to(u.day)\<newline>'',
    JStr ''y = ts_51peg_folded['RV']\<newline>'',
    JStr ''model_fit = fitter(model_init, x, y)\<newline>'',
    JStr ''plt.plot(x, y, 'o')\<newline>'',
    JStr ''plt.plot(x, model_fit(x), 'o')\<newline>'',
    JStr ''amplitude = model_fit.amplitude\<newline>'',
    JStr ''print(amplitude)''
   ])
  ],
  JObj [
   (''cell_type'', JStr ''code''),
   (''execution_count'', JNull),
   (''metadata'', JObj []),
   (''outputs'', JArr []),
   (''source'', JArr [
    JStr ''#7\<newline>'',
    JStr ''amplitude_err = fitter.fit_info['param_cov'][0,0] ** 0.5 * u.m / u.s\<newline>'',
    JStr ''amplitude_err''
   ])
  ],
  JObj [
   (''cell_type'', JStr ''markdown''),
   (''metadata'', JObj []),
   (''source'', JArr [
    JStr ''<center><i>This notebook was written by <a href="https://aperiosoftware.com/">Aperio Software Ltd.</a> &copy; 2019, and is licensed under a <a href="https://creativecommons.org/licenses/by/4.0/">Creative Commons Attribution 4.0 International License (CC BY 4.0)</a></i></center>\<newline>'',
    JStr ''\<newline>'',
    JStr ''![cc](https://mirrors.creativecommons.org/presskit/buttons/88x31/svg/by.svg)''
   ])
  ]
 ]),
 (''metadata'', JObj [
  (''kernelspec'', JObj [
   (''display_name'', JStr ''Python 3''),
   (''language'', JStr ''python''),
   (''name'', JStr ''python3'')
  ]),
  (''language_info'', JObj [
   (''codemirror_mode'', JObj [
    (''name'', JStr ''ipython''),
    (''version'', JNum 3)
   ]),
   (''file_extension'', JStr ''.py''),
   (''mimetype'', JStr ''text/x-python''),
   (''name'', JStr ''python''),
   (''nbconvert_exporter'', JStr ''python''),
   (''pygments_lexer'', JStr ''ipython3''),
   (''version'', JStr ''3.7.4'')
  ])
 ]),
 (''nbformat'', JNum 4),
 (''nbformat_minor'', JNum 1)
]\<close>

text \<open>\<^verbatim>\<open>src/instructor/18-distributions_instructor.ipynb\<close>\<close>

definition distributions_instructor :: json where
\<open>distributions_instructor = JObj [
 (''cells'', JArr [
  JObj [
   (''cell_type'', JStr ''markdown''),
   (''metadata'', JObj []),
   (''source'', JArr [
    JStr ''# Uncertainties and Distributions\<newline>'',
    JStr ''\<newline>'',
    JStr ''The [astropy.uncertainty](http://docs.astropy.org/en/stable/uncertainty/index.html) sub-package is a relatively new sub-package which provides a framework for doing uncertainty propagation in calculations. For now, this is focused on the more accurate but slower method of tracking uncertainties by Monte-Carlo sampling. Since it is a relatively new sub-package, it is possible that it will evolve a little over time.''
   ])
  ],
  JObj [
   (''cell_type'', JStr ''markdown''),
   (''metadata'', JObj []),
   (''source'', JArr [
    JStr ''\<newline>'',
    JStr ''<section class="objectives panel panel-warning">\<newline>'',
    JStr ''<div class="panel-heading">\<newline>'',
    JStr ''<h2><span class="fa fa-certificate"></span> Objectives</h2>\<newline>'',
    JStr ''</div>\<newline>'',
    JStr ''\<newline>'',
    JStr ''\<newline>'',
    JStr ''<div class="panel-body">\<newline>'',
    JStr ''\<newline>'',
    JStr ''<ul>\<newline>'',
    JStr ''<li>Create distributions</li>\<newline>'',
    JStr ''<li>Plot distributions</li>\<newline>'',
    JStr ''<li>Extract useful statistics</li>\<newline>'',
    JStr ''<li>Combine distributions</li>\<newline>'',
    JStr ''</ul>\<newline>'',
    JStr ''\<newline>'',
    JStr ''</div>\<newline>'',
    JStr ''\<newline>'',
    JStr ''</section>\<newline>''
   ])
  ],
  JObj [
   (''cell_type'', JStr ''markdown''),
   (''metadata'', JObj []),
   (''source'', JArr [
    JStr ''## Documentation\<newline>'',
    JStr ''\<newline>'',
    JStr ''This notebook only shows a subset of the functionality in astropy.uncertainty. For more information about the features presented below as well as other available features, you can read the\<newline>'',
    JStr ''[astropy.uncertainty documentation](https://docs.astropy.org/en/stable/uncertainty/).''
   ])
  ],
  JObj [
   (''cell_type'', JStr ''code''),
   (''execution_count'', JNull),
   (''metadata'', JObj []),
   (''outputs'', JArr []),
   (''source'', JArr [
    JStr ''%matplotlib inline\<newline>'',
    JStr ''import matplotlib.pyplot as plt\<newline>'',
    JStr ''plt.rc('image', origin='lower')\<newline>'',
    JStr ''plt.rc('figure', figsize=(10, 6))''
   ])
  ],
  JObj [
   (''cell_type'', JStr ''markdown''),
   (''metadata'', JObj []),
   (''source'', JArr [
    JStr ''## Creating distributions\<newline>'',
    JStr ''\<newline>'',
    JStr ''The central object in astropy.uncertainty is the [Distribution](http://docs.astropy.org/en/stable/api/astropy.uncertainty.Distribution.html#astropy.uncertainty.Distribution) class, which can be thought of as a quantity with an underlying distribution of values. Several helper functions are provided to create standard distributions:''
   ])
  ],
  JObj [
   (''cell_type'', JStr ''code''),
   (''execution_count'', JNull),
   (''metadata'', JObj []),
   (''outputs'', JArr []),
   (''source'', JArr [
    JStr ''from astropy import units as u\<newline>'',
    JStr ''from astropy import uncertainty as unc''
   ])
  ],
  JObj [
   (''cell_type'', JStr ''code''),
   (''execution_count'', JNull),
   (''metadata'', JObj []),
   (''outputs'', JArr []),
   (''source'', JArr [
    JStr ''distance = unc.normal(4 * u.kpc, std=0.5 * u.kpc, n_samples=10000)\<newline>'',
    JStr ''distance''
   ])
  ],
  JObj [
   (''cell_type'', JStr ''code''),
   (''execution_count'', JNull),
   (''metadata'', JObj []),
   (''outputs'', JArr []),
   (''source'', JArr [
    JStr ''velocity = unc.uniform(center=5 * u.km / u.s, width=2 * u.km / u.s, n_samples=10000) \<newline>'',
    JStr ''velocity''
   ])
  ],
  JObj [
   (''cell_type'', JStr ''markdown''),
   (''metadata'', JObj []),
   (''source'', JArr [
    JStr ''You can also create arbitrary distributions - see the [documentation](http://docs.astropy.org/en/stable/uncertainty/index.html#creating-distributions) for more details.''
   ])
  ],
  JObj [
   (''cell_type'', JStr ''markdown''),
   (''metadata'', JObj []),
   (''source'', JArr [
    JStr ''The easiest way to visualize these distributions is to use the ``.distribution`` attribute of the ``Distribution`` objects, which returns the individual Monte-Carlo samples:''
   ])
  ],
  JObj [
   (''cell_type'', JStr ''code''),
   (''execution_count'', JNull),
   (''metadata'', JObj []),
   (''outputs'', JArr []),
   (''source'', JArr [
    JStr ''from astropy.visualization import quantity_support\<newline>'',
    JStr ''quantity_support()''
   ])
  ],
  JObj [
   (''cell_type'', JStr ''code''),
   (''execution_count'', JNull),
   (''metadata'', JObj []),
   (''outputs'', JArr []),
   (''source'', JArr [
    JStr ''hist(distance.distribution, bins='knuth')''
   ])
  ],
  JObj [
   (''cell_type'', JStr ''markdown''),
   (''metadata'', JObj []),
   (''source'', JArr [
    JStr ''## Using distributions\<newline>'',
    JStr ''\<newline>'',
    JStr ''Now that we have created a couple of distributions, we can use properties on these distributions to compute useful values:''
   ])
  ],
  JObj [
   (''cell_type'', JStr ''code''),
   (''execution_count'', JNull),
   (''metadata'', JObj []),
   (''outputs'', JArr []),
   (''source'', JArr [
    JStr ''distance.unit''
   ])
  ],
  JObj [
   (''cell_type'', JStr ''code''),
   (''execution_count'', JNull),
   (''metadata'', JObj []),
   (''outputs'', JArr []),
   (''source'', JArr [
    JStr ''distance.n_samples''
   ])
  ],
  JObj [
   (''cell_type'', JStr ''code''),
   (''execution_count'', JNull),
   (''metadata'', JObj []),
   (''outputs'', JArr []),
   (''source'', JArr [
    JStr ''distance.pdf_mean''
   ])
  ],
  JObj [
   (''cell_type'', JStr ''code''),
   (''execution_count'', JNull),
   (''metadata'', JObj []),
   (''outputs'', JArr []),
   (''source'', JArr [
    JStr ''distance.pdf_std''
   ])
  ],
  JObj [
   (''cell_type'', JStr ''code''),
   (''execution_count'', JNull),
   (''metadata'', JObj []),
   (''outputs'', JArr []),
   (''source'', JArr [
    JStr ''distance.pdf_smad''
   ])
  ],
  JObj [
   (''cell_type'', JStr ''code''),
   (''execution_count'', JNull),
   (''metadata'', JObj []),
   (''outputs'', JArr []),
   (''source'', JArr [
    JStr ''distance.pdf_percentiles([10, 50, 90])''
   ])
  ],
  JObj [
   (''cell_type'', JStr ''markdown''),
   (''metadata'', JObj []),
   (''source'', JArr [
    JStr ''Distributions can be combined with quantities seamlessly:''
   ])
  ],
  JObj [
   (''cell_type'', JStr ''code''),
   (''execution_count'', JNull),
   (''metadata'', JObj []),
   (''outputs'', JArr []),
   (''source'', JArr [
    JStr ''velocity_fixed_time = distance / (2 * u.Myr)\<newline>'',
    JStr ''velocity_fixed_time''
   ])
  ],
  JObj [
   (''cell_type'', JStr ''code''),
   (''execution_count'', JNull),
   (''metadata'', JObj []),
   (''outputs'', JArr []),
   (''source'', JArr [
    JStr ''hist(velocity_fixed_time.distribution, bins='knuth')''
   ])
  ],
  JObj [
   (''cell_type'', JStr ''markdown''),
   (''metadata'', JObj []),
   (''source'', JArr [
    JStr ''and distributions can also be combined with other distributions:''
   ])
  ],
  JObj [
   (''cell_type'', JStr ''code''),
   (''execution_count'', JNull),
   (''metadata'', JObj []),
   (''outputs'', JArr []),
   (''source'', JArr [
    JStr ''time = distance / velocity\<newline>'',
    JStr ''time''
   ])
  ],
  JObj [
   (''cell_type'', JStr ''code''),
   (''execution_count'', JNull),
   (''metadata'', JObj []),
   (''outputs'', JArr []),
   (''source'', JArr [
    JStr ''hist(time.distribution, bins='knuth')''
   ])
  ],
  JObj [
   (''cell_type'', JStr ''markdown''),
   (''metadata'', JObj []),
   (''source'', JArr [
    JStr ''Provided that the distributions have samples that match one-to-one, correlations are properly taken into account - that is, if one does:''
   ])
  ],
  JObj [
   (''cell_type'', JStr ''code''),
   (''execution_count'', JNull),
   (''metadata'', JObj []),
   (''outputs'', JArr []),
   (''source'', JArr [
    JStr ''import numpy as np\<newline>'',
    JStr ''time = distance * np.sqrt(velocity) / (velocity ** 1.5)''
   ])
  ],
  JObj [
   (''cell_type'', JStr ''code''),
   (''execution_count'', JNull),
   (''metadata'', JObj []),
   (''outputs'', JArr []),
   (''source'', JArr [
    JStr ''hist(time.distribution, bins='knuth')''
   ])
  ],
  JObj [
   (''cell_type'', JStr ''markdown''),
   (''metadata'', JObj []),
   (''source'', JArr [
    JStr ''Note that this is only the case if the samples match one to one (see [this section](http://docs.astropy.org/en/stable/uncertainty/index.html#covariance-in-distributions-and-discrete-sampling-effects) in the documentation for more details about this).''
   ])
  ],
  JObj [
   (''cell_type'', JStr ''markdown''),
   (''metadata'', JObj []),
   (''source'', JArr [
    JStr ''\<newline>'',
    JStr ''<section class="challenge panel panel-success">\<newline>'',
    JStr ''<div class="panel-heading">\<newline>'',
    JStr ''<h2><span class="fa fa-pencil"></span> The Nobel Challenge (Part 3)</h2>\<newline>'',
    JStr ''</div>\<newline>'',
    JStr ''\<newline>'',
    JStr ''\<newline>'',
    JStr ''<div class="panel-body">\<newline>'',
    JStr ''\<newline>'',
    JStr ''<p>To continue on from Parts 1 and 2 you will need to copy over the value for the period, the amplitude, and the amplitude error that you found previously.</p>\<newline>'',
    JStr ''<ol>\<newline>'',
    JStr ''<li>The radius of the orbit of the companion that is causing perturbations in the star's velocity is given by:</li>\<newline>'',
    JStr ''</ol>\<newline>'',
    JStr (''<p>$$r = '' @ [CHR 0x5C] @ ''left('' @ [CHR 0x5C] @ ''frac{G M_{'' @ [CHR 0x5C] @ ''star} P_{'' @ [CHR 0x5C] @ ''star}}{4 '' @ [CHR 0x5C] @ ''pi^2}'' @ [CHR 0x5C] @ ''right)^{1/3}$$</p>\<newline>''),
    JStr (''<p>where $P_{'' @ [CHR 0x5C] @ ''star}$ is the period of the radial velocities. Assuming that the mass of the star is between 1.0 and 1.2 solar masses (with a uniform probability), and assuming that the period you found before has no error, determine and plot the distribution of orbital radii (in au) for the companion using the astropy.uncertainty sub-package.\<newline>''),
    JStr ''9. Now that we know the orbital radius, the last step is to determine the mass of the companion. This is given by:</p>\<newline>'',
    JStr (''<p>$$M_p = '' @ [CHR 0x5C] @ ''frac{V_{'' @ [CHR 0x5C] @ ''rm obs}}{'' @ [CHR 0x5C] @ ''sin{i}}'' @ [CHR 0x5C] @ ''sqrt{'' @ [CHR 0x5C] @ ''frac{r M_{'' @ [CHR 0x5C] @ ''star}}{G}}$$</p>\<newline>''),
    JStr (''<p>where $i$ is the inclination of the orbit (where 90 degrees is edge-on). Without prior information, we know that the probability distribution of $'' @ [CHR 0x5C] @ ''cos{i}$ is uniform between -1 and 1, so using this, derive the distribution for $'' @ [CHR 0x5C] @ ''sin{i}$. Then, using the amplitude of the velocity you found before and assuming a normal distribution with the error from step 7, determine the distribution of companion masses.</p>\<newline>''),
    JStr ''<ol>\<newline>'',
    JStr ''<li>What are the 68.27%, 95.45% and 99.73% upper limits for the companion mass? What can you conclude from this given that the definition of a planet is typically &lt;13 Mjup?</li>\<newline>'',
    JStr ''</ol>\<newline>'',
    JStr ''\<newline>'',
    JStr ''</div>\<newline>'',
    JStr ''\<newline>'',
    JStr ''</section>\<newline>''
   ])
  ],
  JObj [
   (''cell_type'', JStr ''code''),
   (''execution_count'', JNull),
   (''metadata'', JObj []),
   (''outputs'', JArr []),
   (''source'', JArr [
    JStr ''# Carried over from Part 1\<newline>'',
    JStr ''period = 4.230714677881777 * u.day\<newline>'',
    JStr ''amplitude = 56.51713380953932 * u.m / u.s\<newline>'',
    JStr ''amplitude_err = 0.5256065130548112 * u.m / u.s''
   ])
  ],
  JObj [
   (''cell_type'', JStr ''code''),
   (''execution_count'', JNull),
   (''metadata'', JObj []),
   (''outputs'', JArr []),
   (''source'', JArr [
    JStr ''#8\<newline>'',
    JStr ''from astropy.constants import G\<newline>'',
    JStr ''from astropy import uncertainty as unc\<newline>'',
    JStr ''from astropy.visualization import quantity_support, hist\<newline>'',
    JStr ''N = 1000000\<newline>'',
    JStr ''mstar = unc.uniform(lower=1.0 * u.M_sun, upper=1.2 * u.M_sun, n_samples=N)\<newline>'',
    JStr ''r = ((G * mstar * period ** 2 / (4 * np.pi ** 2)) ** (1/3))\<newline>'',
    JStr ''with quantity_support():\<newline>'',
    JStr ''    hist(r.distribution.to(u.au), bins='knuth')''
   ])
  ],
  JObj [
   (''cell_type'', JStr ''code''),
   (''execution_count'', JNull),
   (''metadata'', JObj []),
   (''outputs'', JArr []),
   (''source'', JArr [
    JStr ''#9\<newline>'',
    JStr ''cosi = unc.uniform(lower=-1, upper=+1, n_samples=N)\<newline>'',
    JStr ''sini = np.sqrt(1 - cosi ** 2)\<newline>'',
    JStr ''vobs = unc.normal(amplitude, std=amplitude_err, n_samples=N)\<newline>'',
    JStr ''mp = vobs / sini * np.sqrt(r * mstar / G)\<newline>'',
    JStr ''_ = hist(mp.distribution.to(u.M_jup).value, bins=100, range=[0, 10])''
   ])
  ],
  JObj [
   (''cell_type'', JStr ''code''),
   (''execution_count'', JNull),
   (''metadata'', JObj []),
   (''outputs'', JArr []),
   (''source'', JArr [
    JStr ''#10\<newline>'',
    JStr ''mp.pdf_percentiles([68.27, 95.45, 99.73]).to(u.M_jup)''
   ])
  ],
  JObj [
   (''cell_type'', JStr ''markdown''),
   (''metadata'', JObj []),
   (''source'', JArr [
    JStr ''<center><i>This notebook was written by <a href="https://aperiosoftware.com/">Aperio Software Ltd.</a> &copy; 2019, and is licensed under a <a href="https://creativecommons.org/licenses/by/4.0/">Creative Commons Attribution 4.0 International License (CC BY 4.0)</a></i></center>\<newline>'',
    JStr ''\<newline>'',
    JStr ''![cc](https://mirrors.creativecommons.org/presskit/buttons/88x31/svg/by.svg)''
   ])
  ]
 ]),
 (''metadata'', JObj [
  (''kernelspec'', JObj [
   (''display_name'', JStr ''Python 3''),
   (''language'', JStr ''python''),
   (''name'', JStr ''python3'')
  ]),
  (''language_info'', JObj [
   (''codemirror_mode'', JObj [
    (''name'', JStr ''ipython''),
    (''version'', JNum 3)
   ]),
   (''file_extension'', JStr ''.py''),
   (''mimetype'', JStr ''text/x-python''),
   (''name'', JStr ''python''),
   (''nbconvert_exporter'', JStr ''python''),
   (''pygments_lexer'', JStr ''ipython3''),
   (''version'', JStr ''3.7.4'')
  ])
 ]),
 (''nbformat'', JNum 4),
 (''nbformat_minor'', JNum 1)
]\<close>

text \<open>\<^verbatim>\<open>src/instructor/19-astroquery_instructor.ipynb\<close>\<close>

definition astroquery_instructor :: json where
\<open>astroquery_instructor = JObj [
 (''cells'', JArr [
  JObj [
   (''cell_type'', JStr ''markdown''),
   (''metadata'', JObj []),
   (''source'', JArr [
    JStr ''# Querying online data with astroquery and PyVO\<newline>'',
    JStr ''\<newline>'',
    JStr ''There are two main general packages for accessing online data from Python in the Astropy ecosystem:\<newline>'',
    JStr ''\<newline>'',
    JStr ''* The [astroquery](https://astroquery.readthedocs.io/en/latest/) coordinated package, which offers access to many services, including a number that are not VO compatible.\<newline>'',
    JStr ''* The [PyVO](https://pyvo.readthedocs.io/en/latest/) affiliated package which implements a Pythonic interface to VO-compliant services.\<newline>'',
    JStr ''\<newline>'',
    JStr ''In this tutorial, we will take a look at both of these.''
   ])
  ],
  JObj [
   (''cell_type'', JStr ''markdown''),
   (''metadata'', JObj []),
   (''source'', JArr [
    JStr ''\<newline>'',
    JStr ''<section class="objectives panel panel-warning">\<newline>'',
    JStr ''<div class="panel-heading">\<newline>'',
    JStr ''<h2><span class="fa fa-certificate"></span> Objectives</h2>\<newline>'',
    JStr ''</div>\<newline>'',
    JStr ''\<newline>'',
    JStr ''\<newline>'',
    JStr ''<div class="panel-body">\<newline>'',
    JStr ''\<newline>'',
    JStr ''<ul>\<newline>'',
    JStr ''<li>Querying services such as Simbad and ESASky</li>\<newline>'',
    JStr ''<li>Using PyVO to access data on VO-compliant servers</li>\<newline>'',
    JStr ''</ul>\<newline>'',
    JStr ''\<newline>'',
    JStr ''</div>\<newline>'',
    JStr ''\<newline>'',
    JStr ''</section>\<newline>''
   ])
  ],
  JObj [
   (''cell_type'', JStr ''markdown''),
   (''metadata'', JObj []),
   (''source'', JArr [
    JStr ''## Documentation\<newline>'',
    JStr ''\<newline>'',
    JStr ''This notebook only shows a subset of the functionality in astroquery and PyVO. For more information about the features presented below as well as other available features, you can read the\<newline>'',
    JStr ''[astroquery](https://astroquery.readthedocs.io/en/latest/) and [PyVO](https://pyvo.readthedocs.io/en/latest/) documentation.''
   ])
  ],
  JObj [
   (''cell_type'', JStr ''code''),
   (''execution_count'', JNull),
   (''metadata'', JObj []),
   (''outputs'', JArr []),
   (''source'', JArr [
    JStr ''%matplotlib inline\<newline>'',
    JStr ''import matplotlib.pyplot as plt\<newline>'',
    JStr ''plt.rc('image', origin='lower')\<newline>'',
    JStr ''plt.rc('figure', figsize=(10, 6))''
   ])
  ],
  JObj [
   (''cell_type'', JStr ''markdown''),
   (''metadata'', JObj []),
   (''source'', JArr [
    JStr ''## Using astroquery\<newline>'',
    JStr ''\<newline>'',
    JStr ''Astroquery provides a common interface to the following services:\<newline>'',
    JStr ''\<newline>'',
    JStr ''* ALMA Queries (astroquery.alma)\<newline>'',
    JStr ''* Atomic Line List (astroquery.atomic)\<newline>'',
    JStr ''* Besancon Queries (astroquery.besancon)\<newline>'',
    JStr ''* Cadc (astroquery.cadc)\<newline>'',
    JStr ''* CASDA Queries (astroquery.casda)\<newline>'',
    JStr ''* CDS MOC Service (astroquery.cds)\<newline>'',
    JStr ''* esa.hubble (astroquery.esa.hubble)\<newline>'',
    JStr ''* ESASky Queries (astroquery.esasky)\<newline>'',
    JStr ''* ESO Queries (astroquery.eso)\<newline>'',
    JStr ''* Gaia TAP+ (astroquery.gaia)\<newline>'',
    JStr ''* GAMA Queries (astroquery.gama)\<newline>'',
    JStr ''* HEASARC Queries (astroquery.heasarc)\<newline>'',
    JStr ''* HITRAN Queries (astroquery.hitran)\<newline>'',
    JStr ''* IRSA Image Server program interface (IBE) Queries (astroquery.ibe)\<newline>'',
    JStr ''* IRSA Queries (astroquery.irsa)\<newline>'',
    JStr ''* IRSA Dust Extinction Service Queries (astroquery.irsa_dust)\<newline>'',
    JStr ''* JPL Spectroscopy Queries (astroquery.jplspec)\<newline>'',
    JStr ''* MAGPIS Queries (astroquery.magpis)\<newline>'',
    JStr ''* MAST Queries (astroquery.mast)\<newline>'',
    JStr ''* Minor Planet Center Queries (astroquery.mpc/astroquery.solarsystem.MPC)\<newline>'',
    JStr ''* NASA ADS Queries (astroquery.nasa_ads)\<newline>'',
    JStr ''* NED Queries (astroquery.ned)\<newline>'',
    JStr ''* NIST Queries (astroquery.nist)\<newline>'',
    JStr ''* NRAO Queries (astroquery.nrao)\<newline>'',
    JStr ''* NVAS Queries (astroquery.nvas)\<newline>'',
    JStr ''* SIMBAD Queries (astroquery.simbad)\<newline>'',
    JStr ''* Skyview Queries (astroquery.skyview)\<newline>'',
    JStr ''* Splatalogue Queries (astroquery.splatalogue)\<newline>'',
    JStr ''* UKIDSS Queries (astroquery.ukidss)\<newline>'',
    JStr ''* Vamdc Queries (astroquery.vamdc)\<newline>'',
    JStr ''* VizieR Queries (astroquery.vizier)\<newline>'',
    JStr ''* VO Simple Cone Search (astroquery.vo_conesearch)\<newline>'',
    JStr ''* VSA Queries (astroquery.vsa)\<newline>'',
    JStr ''* xMatch Queries (astroquery.xmatch)\<newline>'',
    JStr ''\<newline>'',
    JStr ''and also provides access to other services.\<newline>'',
    JStr ''\<newline>'',
    JStr ''### Simbad\<newline>'',
    JStr ''\<newline>'',
    JStr ''To start off, we can take a look at the sub-package to query [SIMBAD](http://simbad.u-strasbg.fr/simbad/):''
   ])
  ],
  JObj [
   (''cell_type'', JStr ''code''),
   (''execution_count'', JNull),
   (''metadata'', JObj []),
   (''outputs'', JArr []),
   (''source'', JArr [
    JStr ''from astroquery.simbad import Simbad''
   ])
  ],
  JObj [
   (''cell_type'', JStr ''markdown''),
   (''metadata'', JObj []),
   (''source'', JArr [
    JStr ''We can query by identifier:''
   ])
  ],
  JObj [
   (''cell_type'', JStr ''code''),
   (''execution_count'', JNull),
   (''metadata'', JObj []),
   (''outputs'', JArr []),
   (''source'', JArr [
    JStr ''result = Simbad.query_object("m1")\<newline>'',
    JStr ''result''
   ])
  ],
  JObj [
   (''cell_type'', JStr ''markdown''),
   (''metadata'', JObj []),
   (''source'', JArr [
    JStr ''or by coordinates:''
   ])
  ],
  JObj [
   (''cell_type'', JStr ''code''),
   (''execution_count'', JNull),
   (''metadata'', JObj []),
   (''outputs'', JArr []),
   (''source'', JArr [
    JStr ''import astropy.units as u\<newline>'',
    JStr ''from astropy.coordinates import SkyCoord''
   ])
  ],
  JObj [
   (''cell_type'', JStr ''code''),
   (''execution_count'', JNull),
   (''metadata'', JObj []),
   (''outputs'', JArr []),
   (''source'', JArr [
    JStr ''c = SkyCoord(5 * u.hourangle, 30 * u.deg, frame='icrs')\<newline>'',
    JStr ''r = 15 * u.arcminute''
   ])
  ],
  JObj [
   (''cell_type'', JStr ''code''),
   (''execution_count'', JNull),
   (''metadata'', JObj []),
   (''outputs'', JArr []),
   (''source'', JArr [
    JStr ''result = Simbad.query_region(c, radius=r)\<newline>'',
    JStr ''result''
   ])
  ],
  JObj [
   (''cell_type'', JStr ''markdown''),
   (''metadata'', JObj []),
   (''source'', JArr [
    JStr ''### ESASky\<newline>'',
    JStr ''\<newline>'',
    JStr ''Another example is querying images from [ESASky](https://astroquery.readthedocs.io/en/latest/esasky/esasky.html)''
   ])
  ],
  JObj [
   (''cell_type'', JStr ''code''),
   (''execution_count'', JNull),
   (''metadata'', JObj []),
   (''outputs'', JArr []),
   (''source'', JArr [
    JStr ''from astroquery.esasky import ESASky''
   ])
  ],
  JObj [
   (''cell_type'', JStr ''markdown''),
   (''metadata'', JObj []),
   (''source'', JArr [
    JStr ''We can list the available catalogs and maps:''
   ])
  ],
  JObj [
   (''cell_type'', JStr ''code''),
   (''execution_count'', JNull),
   (''metadata'', JObj []),
   (''outputs'', JArr []),
   (''source'', JArr [
    JStr ''ESASky.list_catalogs()''
   ])
  ],
  JObj [
   (''cell_type'', JStr ''code''),
   (''execution_count'', JNull),
   (''metadata'', JObj []),
   (''outputs'', JArr []),
   (''source'', JArr [
    JStr ''ESASky.list_maps()''
   ])
  ],
  JObj [
   (''cell_type'', JStr ''markdown''),
   (''metadata'', JObj []),
   (''source'', JArr [
    JStr ''and we can query and download catalogs:''
   ])
  ],
  JObj [
   (''cell_type'', JStr ''code''),
   (''execution_count'', JNull),
   (''metadata'', JObj []),
   (''outputs'', JArr []),
   (''source'', JArr [
    JStr ''from astroquery.esasky import ESASky\<newline>'',
    JStr ''result = ESASky.query_object_catalogs("M51", "2MASS")\<newline>'',
    JStr ''result[0]''
   ])
  ],
  JObj [
   (''cell_type'', JStr ''code''),
   (''execution_count'', JNull),
   (''metadata'', JObj []),
   (''outputs'', JArr []),
   (''source'', JArr [
    JStr ''result = ESASky.query_region_catalogs("M51", 10 * u.arcmin, "2MASS")\<newline>'',
    JStr ''result[0]''
   ])
  ],
  JObj [
   (''cell_type'', JStr ''markdown''),
   (''metadata'', JObj []),
   (''source'', JArr [
    JStr ''We can also query and download images:''
   ])
  ],
  JObj [
   (''cell_type'', JStr ''code''),
   (''execution_count'', JNull),
   (''metadata'', JObj []),
   (''outputs'', JArr []),
   (''source'', JArr [
    JStr ''images = ESASky.get_images("m51", radius=5 * u.arcmin,\<newline>'',
    JStr ''                           missions=['Herschel'])''
   ])
  ],
  JObj [
   (''cell_type'', JStr ''code''),
   (''execution_count'', JNull),
   (''metadata'', JObj []),
   (''outputs'', JArr []),
   (''source'', JArr [
    JStr ''images['HERSCHEL'][0]['160'].info()''
   ])
  ],
  JObj [
   (''cell_type'', JStr ''code''),
   (''execution_count'', JNull),
   (''metadata'', JObj []),
   (''outputs'', JArr []),
   (''source'', JArr [
    JStr ''plt.imshow(images['HERSCHEL'][0]['160']['image'].data)''
   ])
  ],
  JObj [
   (''cell_type'', JStr ''markdown''),
   (''metadata'', JObj []),
   (''source'', JArr [
    JStr ''\<newline>'',
    JStr ''<section class="challenge panel panel-success">\<newline>'',
    JStr ''<div class="panel-heading">\<newline>'',
    JStr ''<h2><span class="fa fa-pencil"></span> Challenge</h2>\<newline>'',
    JStr ''</div>\<newline>'',
    JStr ''\<newline>'',
    JStr ''\<newline>'',
    JStr ''<div class="panel-body">\<newline>'',
    JStr ''\<newline>'',
    JStr ''<p>Take a look at the documntation for <a href="https://astroquery.readthedocs.io/en/latest/irsa/irsa.html">IRSA queries</a> and try and download a table from the ALLWISE Source Catalog by searching for sources within 5 arcminutes of M31.</p>\<newline>'',
    JStr ''\<newline>'',
    JStr ''</div>\<newline>'',
    JStr ''\<newline>'',
    JStr ''</section>\<newline>''
   ])
  ],
  JObj [
   (''cell_type'', JStr ''code''),
   (''execution_count'', JNull),
   (''metadata'', JObj []),
   (''outputs'', JArr []),
   (''source'', JArr [
    JStr ''from astroquery.irsa import Irsa\<newline>'',
    JStr ''Irsa.list_catalogs()  # shows that catalog name is allwise_p3as_psd\<newline>'',
    JStr ''table = Irsa.query_region("M31", catalog="allwise_p3as_psd", radius=5 * u.arcmin)\<newline>'',
    JStr ''table''
   ])
  ],
  JObj [
   (''cell_type'', JStr ''markdown''),
   (''metadata'', JObj []),
   (''source'', JArr [
    JStr ''## Using PyVO\<newline>'',
    JStr ''\<newline>'',
    JStr ''The PyVO package differs a bit from astroquery in that it does not have specialized sub-packages for different services. Instead, it implements and exposes the VO query standards. It is a lower level package that may require more knowledge about the VO, so it is not necessarily as user friendly as astroquery, but on the other hand it can work with any VO-compliant service. Astroquery is starting to use PyVO in places behind the scenes.\<newline>'',
    JStr ''\<newline>'',
    JStr ''We can take a look at an example that consists of downloading the 2MASS images for the M17 region:''
   ])
  ],
  JObj [
   (''cell_type'', JStr ''code''),
   (''execution_count'', JNull),
   (''metadata'', JObj []),
   (''outputs'', JArr []),
   (''source'', JArr [
    JStr ''from pyvo.dal import imagesearch''
   ])
  ],
  JObj [
   (''cell_type'', JStr ''code''),
   (''execution_count'', JNull),
   (''metadata'', JObj []),
   (''outputs'', JArr []),
   (''source'', JArr [
    JStr ''M17 = SkyCoord.from_name('M17')\<newline>'',
    JStr ''table = imagesearch('https://irsa.ipac.caltech.edu/cgi-bin/2MASS/IM/nph-im_sia?type=at&ds=asky&',\<newline>'',
    JStr ''                    M17, size=0.25).to_table()\<newline>'',
    JStr ''table''
   ])
  ],
  JObj [
   (''cell_type'', JStr ''code''),
   (''execution_count'', JNull),
   (''metadata'', JObj []),
   (''outputs'', JArr []),
   (''source'', JArr [
    JStr ''subtable = table[(table['band'] == b'K') & (table['format'] == b'image/fits')]\<newline>'',
    JStr ''subtable''
   ])
  ],
  JObj [
   (''cell_type'', JStr ''code''),
   (''execution_count'', JNull),
   (''metadata'', JObj []),
   (''outputs'', JArr []),
   (''source'', JArr [
    JStr ''from astropy.io import fits\<newline>'',
    JStr ''hdus = [fits.open(row['download'].decode('ascii')) for row in subtable]''
   ])
  ],
  JObj [
   (''cell_type'', JStr ''code''),
   (''execution_count'', JNull),
   (''metadata'', JObj []),
   (''outputs'', JArr []),
   (''source'', JArr [
    JStr ''plt.imshow(hdus[0][0].data, vmin=500, vmax=1000)''
   ])
  ],
  JObj [
   (''cell_type'', JStr ''markdown''),
   (''metadata'', JObj []),
   (''source'', JArr [
    JStr ''<center><i>This notebook was written by <a href="https://aperiosoftware.com/">Aperio Software Ltd.</a> &copy; 2019, and is licensed under a <a href="https://creativecommons.org/licenses/by/4.0/">Creative Commons Attribution 4.0 International License (CC BY 4.0)</a></i></center>\<newline>'',
    JStr ''\<newline>'',
    JStr ''![cc](https://mirrors.creativecommons.org/presskit/buttons/88x31/svg/by.svg)''
   ])
  ]
 ]),
 (''metadata'', JObj [
  (''kernelspec'', JObj [
   (''display_name'', JStr ''Python 3''),
   (''language'', JStr ''python''),
   (''name'', JStr ''python3'')
  ]),
  (''language_info'', JObj [
   (''codemirror_mode'', JObj [
    (''name'', JStr ''ipython''),
    (''version'', JNum 3)
   ]),
   (''file_extension'', JStr ''.py''),
   (''mimetype'', JStr ''text/x-python''),
   (''name'', JStr ''python''),
   (''nbconvert_exporter'', JStr ''python''),
   (''pygments_lexer'', JStr ''ipython3''),
   (''version'', JStr ''3.7.4'')
  ])
 ]),
 (''nbformat'', JNum 4),
 (''nbformat_minor'', JNum 1)
]\<close>

text \<open>\<^verbatim>\<open>src/unnamed/part_002\<close>\<close>

definition part_002 :: json where
\<open>part_002 = JObj [
 (''cells'', JArr [
  JObj [
   (''cell_type'', JStr ''markdown''),
   (''metadata'', JObj []),
   (''source'', JArr [
    JStr ''# A common interface for handling gridded data\<newline>'',
    JStr ''\<newline>'',
    JStr ''We've already seen that astropy has a Table class that provides a uniform way of reading, manipulating, and writing table data. Similarly, the [astropy.nddata](http://docs.astropy.org/en/stable/nddata/index.html) sub-package provides an [NDData](http://docs.astropy.org/en/stable/api/astropy.nddata.NDData.html#astropy.nddata.NDData) class that provide a common interface to datasets that consist of an n-dimensional array optionally with WCS information. In addition, this sub-package provides a set of utilities that can operate on NDData objects as well as Numpy arrays.\<newline>'',
    JStr ''\<newline>'',
    JStr ''**Note:** This sub-package is still under development, so some aspects shown here may become easier in future.''
   ])
  ],
  JObj [
   (''cell_type'', JStr ''markdown''),
   (''metadata'', JObj []),
   (''source'', JArr [
    JStr ''\<newline>'',
    JStr ''<section class="objectives panel panel-warning">\<newline>'',
    JStr ''<div class="panel-heading">\<newline>'',
    JStr ''<h2><span class="fa fa-certificate"></span> Objectives</h2>\<newline>'',
    JStr ''</div>\<newline>'',
    JStr ''\<newline>'',
    JStr ''\<newline>'',
    JStr ''<div class="panel-body">\<newline>'',
    JStr ''\<newline>'',
    JStr ''<ul>\<newline>'',
    JStr ''<li>Create an NDData object</li>\<newline>'',
    JStr ''<li>Create/read in a CCDData object</li>\<newline>'',
    JStr ''<li>Extract cutouts from image data with WCS information</li>\<newline>'',
    JStr ''<li>Resize n-dimensional data</li>\<newline>'',
    JStr ''</ul>\<newline>'',
    JStr ''\<newline>'',
    JStr ''</div>\<newline>'',
    JStr ''\<newline>'',
    JStr ''</section>\<newline>''
   ])
  ],
  JObj [
   (''cell_type'', JStr ''markdown''),
   (''metadata'', JObj []),
   (''source'', JArr [
    JStr ''## Documentation\<newline>'',
    JStr ''\<newline>'',
    JStr ''This notebook only shows a subset of the functionality in astropy.nddata. For more information about the features presented below as well as other available features, you can read the\<newline>'',
    JStr ''[astropy.nddata documentation](https://docs.astropy.org/en/stable/nddata/).''
   ])
  ],
  JObj [
   (''cell_type'', JStr ''code''),
   (''execution_count'', JNull),
   (''metadata'', JObj []),
   (''outputs'', JArr []),
   (''source'', JArr [
    JStr ''%matplotlib inline\<newline>'',
    JStr ''import matplotlib.pyplot as plt\<newline>'',
    JStr ''plt.rc('image', origin='lower')\<newline>'',
    JStr ''plt.rc('figure', figsize=(10, 6))''
   ])
  ],
  JObj [
   (''cell_type'', JStr ''markdown''),
   (''metadata'', JObj []),
   (''source'', JArr [
    JStr ''## Creating an NDData object\<newline>'',
    JStr ''\<newline>'',
    JStr ''The main class in the [astropy.nddata](http://docs.astropy.org/en/stable/nddata/index.html) sub-package is [NDData](http://docs.astropy.org/en/stable/api/astropy.nddata.NDData.html#astropy.nddata.NDData):''
   ])
  ],
  JObj [
   (''cell_type'', JStr ''code''),
   (''execution_count'', JNull),
   (''metadata'', JObj []),
   (''outputs'', JArr []),
   (''source'', JArr [
    JStr ''from astropy.nddata import NDData''
   ])
  ],
  JObj [
   (''cell_type'', JStr ''markdown''),
   (''metadata'', JObj []),
   (''source'', JArr [
    JStr ''The simplest way to initialize NDData is with a data array:''
   ])
  ],
  JObj [
   (''cell_type'', JStr ''code''),
   (''execution_count'', JNull),
   (''metadata'', JObj []),
   (''outputs'', JArr []),
   (''source'', JArr [
    JStr ''import numpy as np\<newline>'',
    JStr ''data = np.random.random((16, 16, 16))''
   ])
  ],
  JObj [
   (''cell_type'', JStr ''code''),
   (''execution_count'', JNull),
   (''metadata'', JObj []),
   (''outputs'', JArr []),
   (''source'', JArr [
    JStr ''ndd1 = NDData(data)''
   ])
  ],
  JObj [
   (''cell_type'', JStr ''code''),
   (''execution_count'', JNull),
   (''metadata'', JObj []),
   (''outputs'', JArr []),
   (''source'', JArr [
    JStr ''ndd1.data''
   ])
  ],
  JObj [
   (''cell_type'', JStr ''markdown''),
   (''metadata'', JObj []),
   (''source'', JArr [
    JStr ''The real value from NDData comes from the ability to add other meta-data, such as the unit, a mask, or WCS information:''
   ])
  ],
  JObj [
   (''cell_type'', JStr ''code''),
   (''execution_count'', JNull),
   (''metadata'', JObj []),
   (''outputs'', JArr []),
   (''source'', JArr [
    JStr ''from astropy import units as u\<newline>'',
    JStr ''from astropy.wcs import WCS\<newline>'',
    JStr ''wcs = WCS(naxis=3)\<newline>'',
    JStr ''mask = data > 0.5''
   ])
  ],
  JObj [
   (''cell_type'', JStr ''code''),
   (''execution_count'', JNull),
   (''metadata'', JObj []),
   (''outputs'', JArr []),
   (''source'', JArr [
    JStr ''ndd2 = NDData(data, mask=mask, unit=u.Jy, wcs=wcs)''
   ])
  ],
  JObj [
   (''cell_type'', JStr ''code''),
   (''execution_count'', JNull),
   (''metadata'', JObj []),
   (''outputs'', JArr []),
   (''source'', JArr [
    JStr ''ndd2.wcs''
   ])
  ],
  JObj [
   (''cell_type'', JStr ''markdown''),
   (''metadata'', JObj []),
   (''source'', JArr [
    JStr ''It is also possible to attach uncertainties:''
   ])
  ],
  JObj [
   (''cell_type'', JStr ''code''),
   (''execution_count'', JNull),
   (''metadata'', JObj []),
   (''outputs'', JArr []),
   (''source'', JArr [
    JStr ''from astropy.nddata import StdDevUncertainty\<newline>'',
    JStr ''uncertainty = StdDevUncertainty(data / 10)\<newline>'',
    JStr ''ndd3 = NDData(data, uncertainty=uncertainty)''
   ])
  ],
  JObj [
   (''cell_type'', JStr ''markdown''),
   (''metadata'', JObj []),
   (''source'', JArr [
    JStr ''## Using the CCDData class''
   ])
  ],
  JObj [
   (''cell_type'', JStr ''markdown''),
   (''metadata'', JObj []),
   (''source'', JArr [
    JStr ''For now, NDData is just a data container, so it does not have useful methods on it. A more useful class is [CCDData](http://docs.astropy.org/en/stable/api/astropy.nddata.CCDData.html#astropy.nddata.CCDData) which is a sub-class of NDData and is a good example to demonstrate NDData functionality:''
   ])
  ],
  JObj [
   (''cell_type'', JStr ''code''),
   (''execution_count'', JNull),
   (''metadata'', JObj []),
   (''outputs'', JArr []),
   (''source'', JArr [
    JStr ''from astropy.nddata import CCDData''
   ])
  ],
  JObj [
   (''cell_type'', JStr ''markdown''),
   (''metadata'', JObj []),
   (''source'', JArr [
    JStr ''The CCDData class recognizes FITS files:''
   ])
  ],
  JObj [
   (''cell_type'', JStr ''code''),
   (''execution_count'', JNull),
   (''metadata'', JObj []),
   (''outputs'', JArr []),
   (''source'', JArr [
    JStr ''ccd = CCDData.read('data/gc_2mass_k.fits', unit='count')\<newline>'',
    JStr ''ccd''
   ])
  ],
  JObj [
   (''cell_type'', JStr ''code''),
   (''execution_count'', JNull),
   (''metadata'', JObj []),
   (''outputs'', JArr []),
   (''source'', JArr [
    JStr ''plt.subplot(projection=ccd.wcs)\<newline>'',
    JStr ''plt.imshow(ccd.data, vmax=800)\<newline>'',
    JStr ''plt.grid()''
   ])
  ],
  JObj [
   (''cell_type'', JStr ''markdown''),
   (''metadata'', JObj []),
   (''source'', JArr [
    JStr ''A useful aspect of NDData classes like CCDData is that they can be sliced like Numpy arrays and this automatically slices the mask, uncertainty, and WCS (if present):''
   ])
  ],
  JObj [
   (''cell_type'', JStr ''code''),
   (''execution_count'', JNull),
   (''metadata'', JObj []),
   (''outputs'', JArr []),
   (''source'', JArr [
    JStr ''subccd = ccd[100:300, 200:400]''
   ])
  ],
  JObj [
   (''cell_type'', JStr ''code''),
   (''execution_count'', JNull),
   (''metadata'', JObj []),
   (''outputs'', JArr []),
   (''source'', JArr [
    JStr ''plt.subplot(projection=subccd.wcs)\<newline>'',
    JStr ''plt.imshow(subccd.data, vmax=800)\<newline>'',
    JStr ''plt.grid()''
   ])
  ],
  JObj [
   (''cell_type'', JStr ''markdown''),
   (''metadata'', JObj []),
   (''source'', JArr [
    JStr ''Another useful feature is the ability to do arithmetic between CCDData objects and have uncertainties propagate automatically:''
   ])
  ],
  JObj [
   (''cell_type'', JStr ''code''),
   (''execution_count'', JNull),
   (''metadata'', JObj []),
   (''outputs'', JArr []),
   (''source'', JArr [
    JStr ''ccd1 = CCDData([1, 2, 3], unit='count',\<newline>'',
    JStr ''               uncertainty=StdDevUncertainty([1, 1.2, 1.5]))\<newline>'',
    JStr ''ccd2 = CCDData([0.5, 0.5, 0.5], unit='count',\<newline>'',
    JStr ''               uncertainty=StdDevUncertainty([0.2, 0.1, 0.3]))''
   ])
  ],
  JObj [
   (''cell_type'', JStr ''code''),
   (''execution_count'', JNull),
   (''metadata'', JObj []),
   (''outputs'', JArr []),
   (''source'', JArr [
    JStr ''ccd_sub = ccd1.subtract(ccd2)''
   ])
  ],
  JObj [
   (''cell_type'', JStr ''code''),
   (''execution_count'', JNull),
   (''metadata'', JObj []),
   (''outputs'', JArr []),
   (''source'', JArr [
    JStr ''ccd_sub.data''
   ])
  ],
  JObj [
   (''cell_type'', JStr ''code''),
   (''execution_count'', JNull),
   (''metadata'', JObj []),
   (''outputs'', JArr []),
   (''source'', JArr [
    JStr ''ccd_sub.uncertainty''
   ])
  ],
  JObj [
   (''cell_type'', JStr ''markdown''),
   (''metadata'', JObj []),
   (''source'', JArr [
    JStr ''Note however that at the moment this framework does not understand correlated errors!''
   ])
  ],
  JObj [
   (''cell_type'', JStr ''code''),
   (''execution_count'', JNull),
   (''metadata'', JObj []),
   (''outputs'', JArr []),
   (''source'', JArr [
    JStr ''ccd1.divide(ccd1).uncertainty''
   ])
  ],
  JObj [
   (''cell_type'', JStr ''markdown''),
   (''metadata'', JObj []),
   (''source'', JArr [
    JStr ''## Extracting cutouts from images\<newline>'',
    JStr ''\<newline>'',
    JStr ''As seen above, we can easily extract cutouts of NDData objects by using slicing - however, the astropy.nddata sub-package also provides a [Cutout2D](http://docs.astropy.org/en/stable/api/astropy.nddata.Cutout2D.html#astropy.nddata.Cutout2D) class that can be used to generate cutouts from data, either as NDData objects or as plain arrays and WCS objects:''
   ])
  ],
  JObj [
   (''cell_type'', JStr ''code''),
   (''execution_count'', JNull),
   (''metadata'', JObj []),
   (''outputs'', JArr []),
   (''source'', JArr [
    JStr ''from astropy.nddata import Cutout2D''
   ])
  ],
  JObj [
   (''cell_type'', JStr ''markdown''),
   (''metadata'', JObj []),
   (''source'', JArr [
    JStr ''One of the main benefits of this class is that allows cutouts to be extracted by specifying celestial coordinates rather than just pixel coordinates:''
   ])
  ],
  JObj [
   (''cell_type'', JStr ''code''),
   (''execution_count'', JNull),
   (''metadata'', JObj []),
   (''outputs'', JArr []),
   (''source'', JArr [
    JStr ''from astropy.coordinates import SkyCoord\<newline>'',
    JStr ''galcen = SkyCoord(0 * u.deg, 0 * u.deg, frame='galactic')''
   ])
  ],
  JObj [
   (''cell_type'', JStr ''code''),
   (''execution_count'', JNull),
   (''metadata'', JObj []),
   (''outputs'', JArr []),
   (''source'', JArr [
    JStr ''cutout = Cutout2D(ccd.data, galcen, 20 * u.arcmin, wcs=ccd.wcs)''
   ])
  ],
  JObj [
   (''cell_type'', JStr ''code''),
   (''execution_count'', JNull),
   (''metadata'', JObj []),
   (''outputs'', JArr []),
   (''source'', JArr [
    JStr ''plt.subplot(projection=cutout.wcs)\<newline>'',
    JStr ''plt.imshow(cutout.data, vmin=300, vmax=1000) ''
   ])
  ],
  JObj [
   (''cell_type'', JStr ''markdown''),
   (''metadata'', JObj []),
   (''source'', JArr [
    JStr ''The Cutout2D object also retains information about where it was extracted from in the image:''
   ])
  ],
  JObj [
   (''cell_type'', JStr ''code''),
   (''execution_count'', JNull),
   (''metadata'', JObj []),
   (''outputs'', JArr []),
   (''source'', JArr [
    JStr ''plt.subplot(projection=cutout.wcs)\<newline>'',
    JStr ''plt.imshow(ccd.data, vmin=300, vmax=1000) \<newline>'',
    JStr ''cutout.plot_on_original(color='white') ''
   ])
  ],
  JObj [
   (''cell_type'', JStr ''markdown''),
   (''metadata'', JObj []),
   (''source'', JArr [
    JStr ''and we can therefore also convert positions in the cutout back to positions in the original image:''
   ])
  ],
  JObj [
   (''cell_type'', JStr ''code''),
   (''execution_count'', JNull),
   (''metadata'', JObj []),
   (''outputs'', JArr []),
   (''source'', JArr [
    JStr ''cutout.to_original_position((20, 30))''
   ])
  ],
  JObj [
   (''cell_type'', JStr ''markdown''),
   (''metadata'', JObj []),
   (''source'', JArr [
    JStr ''## Resizing images\<newline>'',
    JStr ''\<newline>'',
    JStr ''Another set of useful functions in astropy.nddata are [block_reduce](http://docs.astropy.org/en/stable/api/astropy.nddata.block_reduce.html#astropy.nddata.block_reduce) and [block_replicate](http://docs.astropy.org/en/stable/api/astropy.nddata.block_replicate.html#astropy.nddata.block_replicate) which can be used to downsample and upsample data by integer factors:''
   ])
  ],
  JObj [
   (''cell_type'', JStr ''code''),
   (''execution_count'', JNull),
   (''metadata'', JObj []),
   (''outputs'', JArr []),
   (''source'', JArr [
    JStr ''from astropy.nddata import block_reduce, block_replicate''
   ])
  ],
  JObj [
   (''cell_type'', JStr ''code''),
   (''execution_count'', JNull),
   (''metadata'', JObj []),
   (''outputs'', JArr []),
   (''source'', JArr [
    JStr ''plt.imshow(block_reduce(ccd.data, 20))''
   ])
  ],
  JObj [
   (''cell_type'', JStr ''code''),
   (''execution_count'', JNull),
   (''metadata'', JObj []),
   (''outputs'', JArr []),
   (''source'', JArr [
    JStr ''plt.imshow(block_replicate(ccd.data[:10, :10], 3))''
   ])
  ],
  JObj [
   (''cell_type'', JStr ''markdown''),
   (''metadata'', JObj []),
   (''source'', JArr [
    JStr ''For now, this does not properly support NDData objects or scaling the WCS information (see [astropy/astropy#4796](https://github.com/astropy/astropy/issues/4796) for an example of as astropy feature request!).''
   ])
  ],
  JObj [
   (''cell_type'', JStr ''markdown''),
   (''metadata'', JObj []),
   (''source'', JArr [
    JStr ''<center><i>This notebook was written by <a href="https://aperiosoftware.com/">Aperio Software Ltd.</a> &copy; 2019, and is licensed under a <a href="https://creativecommons.org/licenses/by/4.0/">Creative Commons Attribution 4.0 International License (CC BY 4.0)</a></i></center>\<newline>'',
    JStr ''\<newline>'',
    JStr ''![cc](https://mirrors.creativecommons.org/presskit/buttons/88x31/svg/by.svg)''
   ])
  ]
 ]),
 (''metadata'', JObj [
  (''kernelspec'', JObj [
   (''display_name'', JStr ''Python 3''),
   (''language'', JStr ''python''),
   (''name'', JStr ''python3'')
  ]),
  (''language_info'', JObj [
   (''codemirror_mode'', JObj [
    (''name'', JStr ''ipython''),
    (''version'', JNum 3)
   ]),
   (''file_extension'', JStr ''.py''),
   (''mimetype'', JStr ''text/x-python''),
   (''name'', JStr ''python''),
   (''nbconvert_exporter'', JStr ''python''),
   (''pygments_lexer'', JStr ''ipython3''),
   (''version'', JStr ''3.7.4'')
  ])
 ]),
 (''nbformat'', JNum 4),
 (''nbformat_minor'', JNum 1)
]\<close>

section \<open>The README\<close>


section \<open>Reading a notebook\<close>

fun field :: "string \<Rightarrow> json \<Rightarrow> json option" where
  "field k (JObj kvs) = map_of kvs k"
| "field k _ = None"

fun elements :: "json option \<Rightarrow> json list" where
  "elements (Some (JArr xs)) = xs"
| "elements _ = []"

fun text_of :: "json \<Rightarrow> string list" where
  "text_of (JStr s) = [s]"
| "text_of _ = []"

definition cells :: "json \<Rightarrow> json list" where
  "cells nb = elements (field ''cells'' nb)"

definition cell_type :: "json \<Rightarrow> json option" where
  "cell_type c = field ''cell_type'' c"

definition is_code :: "json \<Rightarrow> bool" where
  "is_code c \<longleftrightarrow> cell_type c = Some (JStr ''code'')"


definition source_lines :: "json \<Rightarrow> string list" where
  "source_lines c = concat (map text_of (elements (field ''source'' c)))"

text \<open>The code of a notebook: the source lines of each code cell, with the position of the
  cell in the \<open>cells\<close> array (from 0).\<close>

definition code_of :: "json \<Rightarrow> (nat \<times> string list) list" where
  "code_of nb =
     map (\<lambda>(i, c). (i, source_lines c)) (filter (\<lambda>(i, c). is_code c) (enumerate 0 (cells nb)))"

text \<open>The notebooks of the repository.\<close>

definition notebooks :: "json list" where
  "notebooks = [wcsaxes_instructor, photometry_instructor, healpix_instructor,
     timeseries_instructor, distributions_instructor, astroquery_instructor, part_002]"

section \<open>The Python of the code cells\<close>

subsection \<open>Tokens\<close>

text \<open>
  A code cell is read as Python's tokenizer reads it: names (keywords included), numbers,
  string and bytes literals, operators, comments, and the end of a line. The cells contain no
  backslash and no triple-quoted string, so that a literal never runs over the end of its
  line and each line is read on its own.
\<close>

datatype token =
    NAME string
  | NUMBER string
  | STRING string
  | BYTES string
  | OP string
  | COMMENT string
  | NEWLINE

datatype lexmode =
    Idle
  | InName string
  | InNumber string
  | InString char bool string
  | InOp char
  | InComment string

text \<open>A character between two others, in the order of their codes.\<close>

definition in_range :: "char \<Rightarrow> char \<Rightarrow> char \<Rightarrow> bool" where
  "in_range lo hi c \<longleftrightarrow> lo \<le> c \<and> c \<le> hi"

definition is_digit :: "char \<Rightarrow> bool" where
  "is_digit c \<longleftrightarrow> in_range (CHR ''0'') (CHR ''9'') c"

text \<open>A name starts with a letter or an underscore, and goes on with letters, underscores
  and digits.\<close>

definition is_name_start :: "char \<Rightarrow> bool" where
  "is_name_start c \<longleftrightarrow>
     c = CHR ''_'' \<or> in_range (CHR ''a'') (CHR ''z'') c \<or> in_range (CHR ''A'') (CHR ''Z'') c"

definition is_quote :: "char \<Rightarrow> bool" where
  "is_quote c \<longleftrightarrow> c = CHR 0x27 \<or> c = CHR 0x22"

definition two_char_ops :: "string list" where
  "two_char_ops = [''=='', ''!='', ''<='', ''>='', ''+='', ''-='', ''*='', ''/='', ''%='',
     ''&='', ''|='', ''^='', ''@='', ''**'', ''//'', ''<<'', ''>>'', ''->'', '':='']"

text \<open>The token that is complete when the tokenizer leaves a mode.\<close>

fun flush :: "lexmode \<Rightarrow> token list" where
  "flush Idle = []"
| "flush (InName w) = [NAME (rev w)]"
| "flush (InNumber w) = [NUMBER (rev w)]"
| "flush (InString q b w) = [if b then BYTES (rev w) else STRING (rev w)]"
| "flush (InOp c) = [OP [c]]"
| "flush (InComment w) = [COMMENT (rev w)]"

definition start :: "char \<Rightarrow> token list \<times> lexmode" where
  "start c =
     (if c = CHR 0x0A then ([NEWLINE], Idle)
      else if c = CHR '' '' then ([], Idle)
      else if c = CHR ''#'' then ([], InComment [])
      else if is_quote c then ([], InString c False [])
      else if is_name_start c then ([], InName [c])
      else if is_digit c then ([], InNumber [c])
      else ([], InOp c))"

definition leave :: "lexmode \<Rightarrow> char \<Rightarrow> token list \<times> lexmode" where
  "leave m c = (case start c of (out, m') \<Rightarrow> (flush m @ out, m'))"

fun step :: "lexmode \<Rightarrow> char \<Rightarrow> token list \<times> lexmode" where
  "step Idle c = start c"
| "step (InName w) c =
     (if is_name_start c \<or> is_digit c then ([], InName (c # w))
      else if is_quote c \<and> (w = ''b'' \<or> w = ''B'') then ([], InString c True [])
      else leave (InName w) c)"
| "step (InNumber w) c =
     (if is_digit c \<or> is_name_start c \<or> c = CHR ''.'' then ([], InNumber (c # w))
      else leave (InNumber w) c)"
| "step (InString q b w) c =
     (if c = q then (flush (InString q b w), Idle) else ([], InString q b (c # w)))"
| "step (InOp c) c' =
     (if [c, c'] \<in> set two_char_ops then ([OP [c, c']], Idle) else leave (InOp c) c')"
| "step (InComment w) c =
     (if c = CHR 0x0A then leave (InComment w) c else ([], InComment (c # w)))"

fun lex :: "lexmode \<Rightarrow> string \<Rightarrow> token list" where
  "lex m [] = flush m"
| "lex m (c # cs) = (case step m c of (out, m') \<Rightarrow> out @ lex m' cs)"

definition cell_tokens :: "string list \<Rightarrow> token list" where
  "cell_tokens ls = concat (map (lex Idle) ls)"

subsection \<open>Statements\<close>

text \<open>
  A logical line ends at a \<open>NEWLINE\<close> outside brackets; comments and empty lines are
  dropped. Indentation is not recorded: a statement in the body of a compound statement is a
  logical line like any other, after the line of its header.
\<close>

fun nesting :: "nat \<Rightarrow> token \<Rightarrow> nat" where
  "nesting d (OP s) =
     (if s \<in> set [''('', ''['', ''{''] then Suc d
      else if s \<in> set ['')'', '']'', ''}''] then d - 1
      else d)"
| "nesting d _ = d"

fun logical_lines :: "nat \<Rightarrow> token list \<Rightarrow> token list \<Rightarrow> token list list" where
  "logical_lines d cur [] = (if cur = [] then [] else [rev cur])"
| "logical_lines d cur (NEWLINE # ts) =
     (if 0 < d then logical_lines d cur ts
      else if cur = [] then logical_lines 0 [] ts
      else rev cur # logical_lines 0 [] ts)"
| "logical_lines d cur (COMMENT s # ts) = logical_lines d cur ts"
| "logical_lines d cur (t # ts) = logical_lines (nesting d t) (t # cur) ts"

definition statements :: "string list \<Rightarrow> token list list" where
  "statements ls = logical_lines 0 [] (cell_tokens ls)"

text \<open>The keywords of Python 3.7 (\<open>keyword.kwlist\<close>).\<close>

definition kwlist :: "string list" where
  "kwlist = [''False'', ''None'', ''True'', ''and'', ''as'', ''assert'', ''async'', ''await'',
     ''break'', ''class'', ''continue'', ''def'', ''del'', ''elif'', ''else'', ''except'',
     ''finally'', ''for'', ''from'', ''global'', ''if'', ''import'', ''in'', ''is'', ''lambda'',
     ''nonlocal'', ''not'', ''or'', ''pass'', ''raise'', ''return'', ''try'', ''while'', ''with'',
     ''yield'']"

definition is_keyword :: "string \<Rightarrow> bool" where
  "is_keyword n \<longleftrightarrow> n \<in> set kwlist"

text \<open>The keywords that open a statement, other than \<open>import\<close>, \<open>from\<close> and \<open>with\<close>.\<close>

definition statement_keywords :: "string list" where
  "statement_keywords = [''assert'', ''async'', ''break'', ''class'', ''continue'', ''def'',
     ''del'', ''elif'', ''else'', ''except'', ''finally'', ''for'', ''global'', ''if'',
     ''nonlocal'', ''pass'', ''raise'', ''return'', ''try'', ''while'']"

definition augmented_ops :: "string list" where
  "augmented_ops = [''+='', ''-='', ''*='', ''/='', ''%='', ''&='', ''|='', ''^='', ''@='']"

text \<open>The tokens of a statement that stand outside every bracket.\<close>

fun outer :: "nat \<Rightarrow> token list \<Rightarrow> token list" where
  "outer d [] = []"
| "outer d (t # ts) =
     (if d = 0 \<and> nesting d t = 0 then t # outer 0 ts else outer (nesting d t) ts)"

datatype kind =
    Magic
  | Import
  | ImportFrom
  | With
  | Assign
  | AugAssign
  | Expr
  | Other string

text \<open>A statement with an assignment sign outside brackets is an assignment; any other is an
  expression.\<close>

fun first_assign :: "token list \<Rightarrow> kind" where
  "first_assign [] = Expr"
| "first_assign (OP s # ts) =
     (if s = ''='' then Assign
      else if s \<in> set augmented_ops then AugAssign
      else first_assign ts)"
| "first_assign (t # ts) = first_assign ts"

definition simple_kind :: "token list \<Rightarrow> kind" where
  "simple_kind ts = first_assign (outer 0 ts)"

text \<open>
  A line that starts with \<open>%\<close> is a line magic of IPython, not Python. The one the
  notebooks use, \<open>%matplotlib inline\<close>, selects how figures are shown; it reads no name
  and binds none.
\<close>

fun kind_of :: "token list \<Rightarrow> kind" where
  "kind_of (OP s # ts) = (if s = ''%'' then Magic else simple_kind (OP s # ts))"
| "kind_of (NAME k # ts) =
     (if k = ''import'' then Import
      else if k = ''from'' then ImportFrom
      else if k = ''with'' then With
      else if k \<in> set statement_keywords then Other k
      else simple_kind (NAME k # ts))"
| "kind_of ts = simple_kind ts"





subsection \<open>Names bound and names read\<close>

text \<open>Where a name comes from: Python itself, an imported module, a member imported from a
  module, or a statement of the notebook.\<close>

datatype origin =
    Builtin
  | Module string
  | Member string string
  | Assigned

type_synonym binding = "string \<times> origin"

text \<open>Splitting a statement at the separators that stand outside every bracket.\<close>

fun split_outer :: "token list \<Rightarrow> nat \<Rightarrow> token list \<Rightarrow> token list \<Rightarrow> token list list" where
  "split_outer seps d cur [] = [rev cur]"
| "split_outer seps d cur (t # ts) =
     (if d = 0 \<and> t \<in> set seps then rev cur # split_outer seps 0 [] ts
      else split_outer seps (nesting d t) (t # cur) ts)"

text \<open>The dotted name at the head of a token list, and what follows it.\<close>

fun dotted :: "token list \<Rightarrow> string \<times> token list" where
  "dotted (NAME a # OP s # NAME b # ts) =
     (if s = ''.'' then (case dotted (NAME b # ts) of (d, r) \<Rightarrow> (a @ ''.'' @ d, r))
      else (a, OP s # NAME b # ts))"
| "dotted (NAME a # ts) = (a, ts)"
| "dotted ts = ([], ts)"

definition package :: "string \<Rightarrow> string" where
  "package m = takeWhile (\<lambda>c. c \<noteq> CHR ''.'') m"

text \<open>\<open>import a.b.c\<close> binds \<open>a\<close>; \<open>import a.b.c as x\<close> binds \<open>x\<close> to the module
  \<open>a.b.c\<close>.\<close>

fun import_clause :: "string \<times> token list \<Rightarrow> binding list" where
  "import_clause (m, []) = [(package m, Module (package m))]"
| "import_clause (m, [NAME a, NAME x]) = (if a = ''as'' then [(x, Module m)] else [])"
| "import_clause (m, ts) = []"

text \<open>\<open>from m import n\<close> binds \<open>n\<close>; \<open>from m import n as x\<close> binds \<open>x\<close>.\<close>

fun member_clause :: "string \<Rightarrow> token list \<Rightarrow> binding list" where
  "member_clause m [NAME n] = [(n, Member m n)]"
| "member_clause m [NAME n, NAME a, NAME x] = (if a = ''as'' then [(x, Member m n)] else [])"
| "member_clause m ts = []"

fun from_import :: "string \<times> token list \<Rightarrow> binding list" where
  "from_import (m, NAME i # ts) =
     (if i = ''import'' then concat (map (member_clause m) (split_outer [OP '',''] 0 [] ts))
      else [])"
| "from_import (m, ts) = []"

text \<open>
  The names an expression reads: every name that is not a keyword, not an attribute (after a
  dot) and not the name of a keyword argument (before \<open>=\<close>; a statement is split at its
  assignment signs before its parts are read), except the variables of a comprehension
  (between \<open>for\<close> and \<open>in\<close>), which the comprehension binds itself.
\<close>

fun names_in :: "token \<Rightarrow> token list \<Rightarrow> string list" where
  "names_in prev [] = []"
| "names_in prev (NAME n # ts) =
     (if prev = OP ''.'' \<or> is_keyword n \<or> (case ts of t # _ \<Rightarrow> t = OP ''='' | [] \<Rightarrow> False)
      then names_in (NAME n) ts
      else n # names_in (NAME n) ts)"
| "names_in prev (t # ts) = names_in t ts"

fun comprehension_vars :: "bool \<Rightarrow> token list \<Rightarrow> string list" where
  "comprehension_vars b [] = []"
| "comprehension_vars b (NAME n # ts) =
     (if n = ''for'' then comprehension_vars True ts
      else if n = ''in'' then comprehension_vars False ts
      else if b then n # comprehension_vars b ts
      else comprehension_vars b ts)"
| "comprehension_vars b (t # ts) = comprehension_vars b ts"

definition reads :: "token list \<Rightarrow> string list" where
  "reads ts = filter (\<lambda>n. n \<notin> set (comprehension_vars False ts)) (names_in NEWLINE ts)"

text \<open>
  An assignment target that is a name, or names separated by commas, binds them; any other
  target (a subscript, an attribute) reads its names and binds none.
\<close>

fun target_token :: "token \<Rightarrow> bool" where
  "target_token (NAME n) = (\<not> is_keyword n)"
| "target_token (OP s) = (s \<in> set ['','', ''('', '')''])"
| "target_token _ = False"

fun names_of :: "token list \<Rightarrow> string list" where
  "names_of [] = []"
| "names_of (NAME n # ts) = n # names_of ts"
| "names_of (t # ts) = names_of ts"

definition target_binds :: "token list \<Rightarrow> binding list" where
  "target_binds seg = (if list_all target_token seg then map (\<lambda>n. (n, Assigned)) (names_of seg) else [])"

definition target_reads :: "token list \<Rightarrow> string list" where
  "target_reads seg = (if list_all target_token seg then [] else reads seg)"

text \<open>\<open>with e as x:\<close> reads \<open>e\<close> and binds \<open>x\<close>.\<close>

definition with_item :: "token list \<Rightarrow> string list \<times> binding list" where
  "with_item ts =
     (let item = takeWhile (\<lambda>t. t \<noteq> OP '':'') (tl ts)
      in (reads (takeWhile (\<lambda>t. t \<noteq> NAME ''as'') item),
          map (\<lambda>n. (n, Assigned)) (names_of (drop 1 (dropWhile (\<lambda>t. t \<noteq> NAME ''as'') item)))))"

text \<open>
  What a statement does to the names: the names it reads, in the order Python evaluates them
  (the value of an assignment before its targets), and the names it binds.
\<close>

definition assignment :: "token list list \<Rightarrow> string list \<times> binding list" where
  "assignment segs =
     (reads (last segs) @ concat (map target_reads (butlast segs)),
      concat (map target_binds (butlast segs)))"

definition augmented :: "token list list \<Rightarrow> string list \<times> binding list" where
  "augmented segs = (concat (map reads segs), concat (map target_binds (butlast segs)))"

definition effect :: "token list \<Rightarrow> string list \<times> binding list" where
  "effect ts =
     (case kind_of ts of
        Magic \<Rightarrow> ([], [])
      | Import \<Rightarrow> ([], concat (map (import_clause \<circ> dotted) (split_outer [OP '',''] 0 [] (tl ts))))
      | ImportFrom \<Rightarrow> ([], from_import (dotted (tl ts)))
      | With \<Rightarrow> with_item ts
      | Assign \<Rightarrow> assignment (split_outer [OP ''=''] 0 [] ts)
      | AugAssign \<Rightarrow> augmented (split_outer (map OP augmented_ops) 0 [] ts)
      | Expr \<Rightarrow> (reads ts, [])
      | Other k \<Rightarrow> (reads ts, []))"

definition cell_bindings :: "string list \<Rightarrow> binding list" where
  "cell_bindings ls = concat (map (snd \<circ> effect) (statements ls))"

fun imported_module :: "binding \<Rightarrow> string list" where
  "imported_module (n, Module m) = [m]"
| "imported_module (n, Member m x) = [m]"
| "imported_module (n, _) = []"

text \<open>The modules a notebook imports, and the packages they belong to.\<close>

definition imported_modules :: "json \<Rightarrow> string list" where
  "imported_modules nb =
     remdups (concat (map (\<lambda>(i, ls). concat (map imported_module (cell_bindings ls))) (code_of nb)))"

definition imported_packages :: "json \<Rightarrow> string list" where
  "imported_packages nb = remdups (map package (imported_modules nb))"

subsection \<open>Running the cells\<close>

text \<open>The built-in functions of Python 3.7.\<close>

definition builtins :: "string list" where
  "builtins = [''abs'', ''all'', ''any'', ''ascii'', ''bin'', ''bool'', ''breakpoint'',
     ''bytearray'', ''bytes'', ''callable'', ''chr'', ''classmethod'', ''compile'', ''complex'',
     ''delattr'', ''dict'', ''dir'', ''divmod'', ''enumerate'', ''eval'', ''exec'', ''filter'',
     ''float'', ''format'', ''frozenset'', ''getattr'', ''globals'', ''hasattr'', ''hash'',
     ''help'', ''hex'', ''id'', ''input'', ''int'', ''isinstance'', ''issubclass'', ''iter'',
     ''len'', ''list'', ''locals'', ''map'', ''max'', ''memoryview'', ''min'', ''next'',
     ''object'', ''oct'', ''open'', ''ord'', ''pow'', ''print'', ''property'', ''range'',
     ''repr'', ''reversed'', ''round'', ''set'', ''setattr'', ''slice'', ''sorted'',
     ''staticmethod'', ''str'', ''sum'', ''super'', ''tuple'', ''type'', ''vars'', ''zip'',
     ''__import__'']"

type_synonym env = "binding list"

definition initial_env :: env where
  "initial_env = map (\<lambda>n. (n, Builtin)) builtins"

datatype error = NameError string

text \<open>
  A statement that reads a name with no binding raises \<open>NameError\<close>, and the rest of the cell
  is not run; otherwise its bindings are added, the last one first.
\<close>

fun exec :: "env \<Rightarrow> token list list \<Rightarrow> error + env" where
  "exec env [] = Inr env"
| "exec env (s # ss) =
     (case effect s of (rs, bs) \<Rightarrow>
        (case filter (\<lambda>n. map_of env n = None) rs of
           n # ns \<Rightarrow> Inl (NameError n)
         | [] \<Rightarrow> exec (rev bs @ env) ss))"

text \<open>
  Running the code cells once each, in file order, in one namespace (\<open>Run All\<close>): the run
  stops at the first cell that raises, and returns its position in the \<open>cells\<close> array.
\<close>

fun run_cells :: "env \<Rightarrow> (nat \<times> string list) list \<Rightarrow> (nat \<times> error) + env" where
  "run_cells env [] = Inr env"
| "run_cells env ((i, ls) # cs) =
     (case exec env (statements ls) of
        Inl e \<Rightarrow> Inl (i, e)
      | Inr env' \<Rightarrow> run_cells env' cs)"

definition run_all :: "json \<Rightarrow> (nat \<times> error) + env" where
  "run_all nb = run_cells initial_env (code_of nb)"

text \<open>
  What happens to the names of a given list, cell by cell in file order: each place where one
  is read, with the binding it has there (\<open>None\<close> if it has none), and each place where
  one is bound. Every occurrence of a name that is not an attribute or a keyword argument is
  one or the other.
\<close>

datatype event =
    Reads string "origin option"
  | Binds string origin

fun trace :: "string list \<Rightarrow> env \<Rightarrow> token list list \<Rightarrow> event list \<times> env" where
  "trace ns env [] = ([], env)"
| "trace ns env (s # ss) =
     (case effect s of (rs, bs) \<Rightarrow>
        (case trace ns (rev bs @ env) ss of (es, env') \<Rightarrow>
           (map (\<lambda>n. Reads n (map_of env n)) (filter (\<lambda>n. n \<in> set ns) rs) @
            map (\<lambda>(n, b). Binds n b) (filter (\<lambda>(n, b). n \<in> set ns) bs) @ es, env')))"

fun trace_cells :: "string list \<Rightarrow> env \<Rightarrow> (nat \<times> string list) list \<Rightarrow> (nat \<times> event) list" where
  "trace_cells ns env [] = []"
| "trace_cells ns env ((i, ls) # cs) =
     (case trace ns env (statements ls) of (es, env') \<Rightarrow>
        map (\<lambda>e. (i, e)) es @ trace_cells ns env' cs)"

definition events :: "string list \<Rightarrow> json \<Rightarrow> (nat \<times> event) list" where
  "events ns nb = trace_cells ns initial_env (code_of nb)"

subsection \<open>Calls and literals\<close>














section \<open>The README's requirements\<close>


definition lower :: "char \<Rightarrow> char" where
  "lower c = (if in_range (CHR ''A'') (CHR ''Z'') c then char_of (of_char c + (32 :: nat)) else c)"

definition import_name :: "string \<Rightarrow> string" where
  "import_name d = map (\<lambda>c. if c = CHR ''-'' then CHR ''_'' else lower c) d"

text \<open>The libraries the specification names.\<close>

definition spec_libraries :: "string list" where
  "spec_libraries = [''astropy'', ''astropy-healpix'', ''photutils'', ''reproject'',
     ''astroquery'', ''PyVO'', ''matplotlib'', ''scipy'', ''numpy'']"

section \<open>The cells of a notebook\<close>





text \<open>A code cell that has not been run has no execution count and no outputs.\<close>

definition unexecuted :: "json \<Rightarrow> bool" where
  "unexecuted c \<longleftrightarrow>
     field ''execution_count'' c = Some JNull \<and> field ''outputs'' c = Some (JArr [])"

section \<open>What the claims name\<close>










section \<open>Evaluation\<close>

text \<open>
  The properties below are settled by running the definitions on the notebooks. These
  equations say the same as the definitions and run faster: the classes of characters by the
  bits of the character, the keywords by their first letter.
\<close>

lemma is_digit_bits [code]:
  "is_digit (Char b0 b1 b2 b3 b4 b5 b6 b7) \<longleftrightarrow>
     b4 \<and> b5 \<and> \<not> b6 \<and> \<not> b7 \<and> \<not> (b3 \<and> (b1 \<or> b2))"
  by (cases b0; cases b1; cases b2; cases b3; cases b4; cases b5; cases b6; cases b7;
      simp add: is_digit_def in_range_def less_eq_char_def)

lemma is_name_start_bits [code]:
  "is_name_start (Char b0 b1 b2 b3 b4 b5 b6 b7) \<longleftrightarrow>
     \<not> b7 \<and> b6 \<and>
     ((b0 \<or> b1 \<or> b2 \<or> b3 \<or> b4) \<and> \<not> (b4 \<and> b3 \<and> (b2 \<or> b1 \<and> b0))
      \<or> \<not> b5 \<and> b0 \<and> b1 \<and> b2 \<and> b3 \<and> b4)"
  by (cases b0; cases b1; cases b2; cases b3; cases b4; cases b5; cases b6; cases b7;
      simp add: is_name_start_def in_range_def less_eq_char_def)

lemma is_keyword_first [code]:
  "is_keyword [] = False"
  "is_keyword (c # cs) =
     (if c = CHR ''a'' then cs \<in> set [''nd'', ''s'', ''ssert'', ''sync'', ''wait'']
      else if c = CHR ''i'' then cs \<in> set [''f'', ''mport'', ''n'', ''s'']
      else if c = CHR ''f'' then cs \<in> set [''inally'', ''or'', ''rom'']
      else if c = CHR ''e'' then cs \<in> set [''lif'', ''lse'', ''xcept'']
      else if c = CHR ''c'' then cs \<in> set [''lass'', ''ontinue'']
      else if c = CHR ''d'' then cs \<in> set [''ef'', ''el'']
      else if c = CHR ''n'' then cs \<in> set [''onlocal'', ''ot'']
      else if c = CHR ''r'' then cs \<in> set [''aise'', ''eturn'']
      else if c = CHR ''w'' then cs \<in> set [''hile'', ''ith'']
      else if c = CHR ''b'' then cs = ''reak''
      else if c = CHR ''g'' then cs = ''lobal''
      else if c = CHR ''l'' then cs = ''ambda''
      else if c = CHR ''o'' then cs = ''r''
      else if c = CHR ''p'' then cs = ''ass''
      else if c = CHR ''t'' then cs = ''ry''
      else if c = CHR ''y'' then cs = ''ield''
      else if c = CHR ''F'' then cs = ''alse''
      else if c = CHR ''N'' then cs = ''one''
      else if c = CHR ''T'' then cs = ''rue''
      else False)"
  by (auto simp add: is_keyword_def kwlist_def)

section \<open>The code cells\<close>

text \<open>The code of each notebook, read off its file.\<close>

lemma code_wcsaxes:
\<open>code_of wcsaxes_instructor = [
 (3, [
    ''%matplotlib inline\<newline>'',
    ''import matplotlib.pyplot as plt\<newline>'',
    ''plt.rc('image', origin='lower')\<newline>'',
    ''plt.rc('figure', figsize=(10, 6))'']),
 (5, [
    ''from astropy.io import fits\<newline>'',
    ''hdulist = fits.open('data/LMCDensFits1k.fits')'']),
 (7, [
    ''from astropy.wcs import WCS\<newline>'',
    ''wcs = WCS(hdulist[0].header)'']),
 (9, [
    ''ax = plt.subplot(projection=wcs)\<newline>'',
    ''ax.imshow(hdulist[0].data)\<newline>'',
    ''ax.grid()'']),
 (11, [
    ''lon = ax.coords[0]\<newline>'',
    ''lat = ax.coords[1]'']),
 (13, [
    ''lon = ax.coords['glon']\<newline>'',
    ''lat = ax.coords['glat']'']),
 (15, [
    ''lon.set_axislabel('Galactic Longitude')\<newline>'',
    ''lat.set_axislabel('Galactic Latitude')\<newline>'',
    ''ax.figure'']),
 (17, [
    ''lon.set_major_formatter('dd:mm:ss.s')\<newline>'',
    ''lat.set_major_formatter('dd:mm')\<newline>'',
    ''ax.figure'']),
 (19, [
    ''from astropy import units as u\<newline>'',
    ''lon.set_ticks(spacing=4. * u.deg)\<newline>'',
    ''lat.set_ticks(number=10)\<newline>'',
    ''ax.figure'']),
 (21, [
    ''lon.set_ticks_position('bt')\<newline>'',
    ''lon.set_ticklabel_position('bt')\<newline>'',
    ''lon.set_axislabel_position('bt')\<newline>'',
    ''lat.set_ticks_position('lr')\<newline>'',
    ''lat.set_ticklabel_position('lr')\<newline>'',
    ''lat.set_axislabel_position('lr')\<newline>'',
    ''ax.figure'']),
 (23, [
    ''ax = plt.subplot(projection=wcs)\<newline>'',
    ''ax.imshow(hdulist[0].data)'']),
 (24, [
    ''ax.plot([300, 350, 400], [200, 250, 300], 'wo')\<newline>'',
    ''ax.figure'']),
 (26, [
    ''ax.plot([279, 278, 277], [-30, -31, -32], 'o', color='orange', transform=ax.get_transform('world'))\<newline>'',
    ''ax.figure'']),
 (28, [
    ''hdulist_iras = fits.open('data/ISSA_100_LMC.fits')\<newline>'',
    ''wcs_iras = WCS(hdulist_iras[0].header)'']),
 (29, [
    ''ax = plt.subplot(projection=wcs)\<newline>'',
    ''ax.imshow(hdulist[0].data)\<newline>'',
    ''ax.contour(hdulist_iras[0].data, transform=ax.get_transform(wcs_iras),\<newline>'',
    ''           colors='white', levels=[50, 100, 250, 500])'']),
 (31, [
    ''ax = plt.subplot(projection=wcs)\<newline>'',
    ''ax.imshow(hdulist[0].data)\<newline>'',
    ''\<newline>'',
    ''lon, lat = ax.coords\<newline>'',
    ''lon.set_axislabel('Galactic Longitude')\<newline>'',
    ''lat.set_axislabel('Galactic Longitude')\<newline>'',
    ''\<newline>'',
    ''ra, dec = ax.get_coords_overlay('icrs')\<newline>'',
    ''\<newline>'',
    ''dec.set_axislabel('Declination')\<newline>'',
    ''dec.set_ticks_position('t')\<newline>'',
    ''dec.set_ticklabel_position('t')\<newline>'',
    ''dec.set_axislabel_position('t')\<newline>'',
    ''\<newline>'',
    ''ra.set_axislabel('Right Ascension')\<newline>'',
    ''ra.set_ticks_position('r')\<newline>'',
    ''ra.set_ticklabel_position('r')\<newline>'',
    ''ra.set_axislabel_position('r')\<newline>'',
    ''\<newline>'',
    ''lon.grid(color='white')\<newline>'',
    ''lat.grid(color='yellow')\<newline>'',
    ''ra.grid(color='green')\<newline>'',
    ''dec.grid(color='cyan')'']),
 (33, [
    ''from astropy.visualization import simple_norm'']),
 (34, [
    ''sqrt_norm = simple_norm(hdulist[0].data, stretch='sqrt', percent=99.5)'']),
 (35, [
    ''plt.imshow(hdulist[0].data, norm=sqrt_norm)'']),
 (37, [
    ''#1\<newline>'',
    ''from scipy.ndimage import gaussian_filter\<newline>'',
    ''ax = plt.subplot(projection=wcs_iras)\<newline>'',
    ''ax.imshow(hdulist_iras[0].data, vmax=100)\<newline>'',
    ''ax.contour(gaussian_filter(hdulist[0].data, 3), transform=ax.get_transform(wcs),\<newline>'',
    ''           colors='white')\<newline>'',
    ''ax.set_xlim(-0.5, 499.5)\<newline>'',
    ''ax.set_ylim(-0.5, 499.5)\<newline>'',
    ''\<newline>'',
    ''#2\<newline>'',
    ''from astropy.table import Table\<newline>'',
    ''psc = Table.read('data/gaia_lmc_psc.fits')\<newline>'',
    ''ax.plot(psc['ra'], psc['dec'], 'w.', transform=ax.get_transform('icrs'), alpha=0.3)'']),
 (39, [
    ''import aplpy\<newline>'',
    ''fig = aplpy.FITSFigure('data/ISSA_100_LMC.fits')\<newline>'',
    ''fig.show_colorscale()\<newline>'',
    ''fig.show_contour('data/LMCDensFits1k.fits', smooth=3, colors='white')'']),
 (41, [
    ''fig.ax''])]\<close>
  by code_simp

lemma code_photometry:
\<open>code_of photometry_instructor = [
 (3, [
    ''%matplotlib inline\<newline>'',
    ''import matplotlib.pyplot as plt\<newline>'',
    ''plt.rc('image', origin='lower')\<newline>'',
    ''plt.rc('figure', figsize=(10, 6))'']),
 (5, [
    ''from photutils.datasets import load_star_image\<newline>'',
    ''star_image = load_star_image()\<newline>'',
    ''star_image'']),
 (7, [
    ''plt.imshow(star_image.data)'']),
 (9, [
    ''_ = plt.hist(star_image.data.ravel(), bins=100)'']),
 (11, [
    ''from astropy.stats import SigmaClip\<newline>'',
    ''from photutils import Background2D, MedianBackground'']),
 (12, [
    ''sigma_clip = SigmaClip(sigma=3.)\<newline>'',
    ''bkg_estimator = MedianBackground()'']),
 (13, [
    ''bkg = Background2D(star_image.data, (265, 265),\<newline>'',
    ''                   sigma_clip=sigma_clip,\<newline>'',
    ''                   bkg_estimator=bkg_estimator)'']),
 (14, [
    ''plt.imshow(bkg.background)'']),
 (15, [
    ''star_image_nobkg = star_image.data - bkg.background'']),
 (16, [
    ''plt.imshow(star_image_nobkg, vmin=-1000, vmax=2000)'']),
 (17, [
    ''_ = plt.hist(star_image_nobkg.ravel(), bins=100)'']),
 (19, [
    ''from astropy.stats import sigma_clipped_stats\<newline>'',
    ''mean, median, std = sigma_clipped_stats(star_image_nobkg, sigma=3.0)\<newline>'',
    ''print(mean, median, std)'']),
 (21, [
    ''from photutils import DAOStarFinder\<newline>'',
    ''daofind = DAOStarFinder(fwhm=5.0, threshold=10.*std) \<newline>'',
    ''sources = daofind(star_image_nobkg) '']),
 (23, [
    ''sources'']),
 (24, [
    ''subset = star_image_nobkg.copy()\<newline>'',
    ''subset[subset < 30 * std] = 0'']),
 (25, [
    ''plt.imshow(star_image_nobkg)\<newline>'',
    ''plt.plot(sources['xcentroid'], sources['ycentroid'], 'o', mfc='none', mec='white')\<newline>'',
    ''plt.xlim(200, 600)\<newline>'',
    ''plt.ylim(200, 600)'']),
 (27, [
    ''from photutils import CircularAperture\<newline>'',
    ''apertures = CircularAperture(list(zip(sources['xcentroid'], sources['ycentroid'])), r=3.)'']),
 (29, [
    ''from photutils import aperture_photometry\<newline>'',
    ''apphot_table = aperture_photometry(star_image_nobkg, apertures)\<newline>'',
    ''apphot_table'']),
 (30, [
    ''plt.scatter(apphot_table['xcenter'], apphot_table['ycenter'], s=apphot_table['aperture_sum'] / 10000)'']),
 (33, [
    ''#1\<newline>'',
    ''apertures_5 = CircularAperture(list(zip(sources['xcentroid'], sources['ycentroid'])), r=5.)\<newline>'',
    ''apphot_table_5 = aperture_photometry(star_image_nobkg, apertures_5)\<newline>'',
    ''apertures_10 = CircularAperture(list(zip(sources['xcentroid'], sources['ycentroid'])), r=10.)\<newline>'',
    ''apphot_table_10 = aperture_photometry(star_image_nobkg, apertures_10)\<newline>'',
    ''plt.loglog(apphot_table_5['aperture_sum'], apphot_table_10['aperture_sum'], '.')\<newline>'',
    ''plt.plot([1e3, 1e7], [1e3, 1e7])'']),
 (34, [
    ''#2\<newline>'',
    ''frac = apphot_table_5['aperture_sum'] / apphot_table_10['aperture_sum']\<newline>'',
    ''agree = (frac < 2) & (frac > 0.5)\<newline>'',
    ''subtable = sources[agree]\<newline>'',
    ''subtable''])]\<close>
  by code_simp

lemma code_healpix:
\<open>code_of healpix_instructor = [
 (3, [
    ''%matplotlib inline\<newline>'',
    ''import matplotlib.pyplot as plt\<newline>'',
    ''plt.rc('image', origin='lower')\<newline>'',
    ''plt.rc('figure', figsize=(10, 6))'']),
 (6, [
    ''from astropy.io import fits\<newline>'',
    ''hdulist = fits.open('data/HFI_SkyMap_857_2048_R1.10_nominal_ZodiCorrected_lowres.fits')\<newline>'',
    ''hdulist.info()'']),
 (8, [
    ''hdulist[1].header['NSIDE']'']),
 (9, [
    ''hdulist[1].header['ORDERING']'']),
 (10, [
    ''hdulist[1].header['COORDSYS']'']),
 (12, [
    ''from astropy_healpix import HEALPix\<newline>'',
    ''from astropy.coordinates import Galactic'']),
 (13, [
    ''hp = HEALPix(nside=hdulist[1].header['NSIDE'],\<newline>'',
    ''             order=hdulist[1].header['ORDERING'],\<newline>'',
    ''             frame=Galactic())  '']),
 (15, [
    ''hp.healpix_to_skycoord([13322, 2231, 66432])'']),
 (17, [
    ''from astropy.coordinates import SkyCoord\<newline>'',
    ''hp.skycoord_to_healpix(SkyCoord.from_name('M31'))'']),
 (19, [
    ''edge = hp.boundaries_skycoord(649476, step=100)\<newline>'',
    ''edge'']),
 (21, [
    ''plt.plot(edge[0].l.deg, edge[0].b.deg)'']),
 (23, [
    ''from astropy import units as u\<newline>'',
    ''hp.cone_search_skycoord(SkyCoord.from_name('M31'), radius=1 * u.deg)'']),
 (25, [
    ''hp.interpolate_bilinear_skycoord(SkyCoord.from_name('M31'), hdulist[1].data['I_STOKES'])'']),
 (27, [
    ''#1\<newline>'',
    ''import numpy as np\<newline>'',
    ''M42 = SkyCoord.from_name('M42')\<newline>'',
    ''m42_pixels = hp.cone_search_skycoord(M42, radius=2 * u.deg)\<newline>'',
    ''print(np.mean(hdulist[1].data['I_STOKES'][m42_pixels]))'']),
 (28, [
    ''#2\<newline>'',
    ''m42_cone_search_coords = hp.healpix_to_skycoord(m42_pixels)\<newline>'',
    ''separation = m42_cone_search_coords.separation(M42).degree\<newline>'',
    ''_ = plt.hist(separation, bins=50)'']),
 (30, [
    ''from astropy.wcs import WCS\<newline>'',
    ''wcs = WCS(naxis=2)\<newline>'',
    ''wcs.wcs.ctype = 'GLON-CAR', 'GLAT-CAR'\<newline>'',
    ''wcs.wcs.crval = 0, 0\<newline>'',
    ''wcs.wcs.crpix = 180.5, 90.5\<newline>'',
    ''wcs.wcs.cdelt = -1, 1'']),
 (32, [
    ''from reproject import reproject_from_healpix'']),
 (33, [
    ''array, footprint = reproject_from_healpix('data/HFI_SkyMap_857_2048_R1.10_nominal_ZodiCorrected_lowres.fits',\<newline>'',
    ''                                          wcs, shape_out=(180, 360))'']),
 (34, [
    ''plt.imshow(array, vmax=100)'']),
 (37, [
    ''#1\<newline>'',
    ''header_gaia = fits.getheader('data/LMCDensFits1k.fits')\<newline>'',
    ''header_irsa = fits.getheader('data/ISSA_100_LMC.fits')\<newline>'',
    ''\<newline>'',
    ''array_gaia, _ = reproject_from_healpix('data/HFI_SkyMap_857_2048_R1.10_nominal_ZodiCorrected_lowres.fits',\<newline>'',
    ''                                       header_gaia)\<newline>'',
    ''array_irsa, _ = reproject_from_healpix('data/HFI_SkyMap_857_2048_R1.10_nominal_ZodiCorrected_lowres.fits',\<newline>'',
    ''                                       header_irsa)'']),
 (38, [
    ''#2\<newline>'',
    ''from astropy.visualization import simple_norm\<newline>'',
    ''ax = plt.subplot(projection=WCS(header_gaia))\<newline>'',
    ''im =ax.imshow(array_gaia, cmap='plasma',\<newline>'',
    ''              norm=simple_norm(array_gaia, stretch='sqrt', percent=99.5))\<newline>'',
    ''plt.colorbar(im)\<newline>'',
    ''ax.grid()\<newline>'',
    ''ax.set_xlabel('Galactic Longitude')\<newline>'',
    ''ax.set_ylabel('Galactic Latitude')''])]\<close>
  by code_simp

lemma code_timeseries:
\<open>code_of timeseries_instructor = [
 (3, [
    ''%matplotlib inline\<newline>'',
    ''import matplotlib.pyplot as plt\<newline>'',
    ''plt.rc('image', origin='lower')\<newline>'',
    ''plt.rc('figure', figsize=(10, 6))'']),
 (5, [
    ''from astropy.timeseries import TimeSeries'']),
 (7, [
    ''from astropy import units as u\<newline>'',
    ''ts1 = TimeSeries(time_start='2016-03-22T12:30:31',\<newline>'',
    ''                 time_delta=3 * u.s,\<newline>'',
    ''                 n_samples=5)\<newline>'',
    ''ts1'']),
 (9, [
    ''ts2 = TimeSeries(time=['2016-03-22T12:30:31',\<newline>'',
    ''                       '2016-03-22T12:30:38',\<newline>'',
    ''                       '2016-03-22T12:34:40'])\<newline>'',
    ''ts2'']),
 (11, [
    ''import numpy as np\<newline>'',
    ''from astropy.time import Time\<newline>'',
    ''time = Time(np.linspace(50000, 51000, 6), format='mjd', scale='tdb')\<newline>'',
    ''ts3 = TimeSeries(time=time)\<newline>'',
    ''ts3'']),
 (13, [
    ''ts3['flux'] = [1, 4, 3, 2, 1, 3] * u.mJy\<newline>'',
    ''ts3['error'] = [0.1, 0.2, 0.2, 0.1, 0.1, 0.2] * u.mJy\<newline>'',
    ''ts3'']),
 (15, [
    ''ts3['time']'']),
 (16, [
    ''ts3['flux']'']),
 (17, [
    ''ts3['time', 'flux']'']),
 (18, [
    ''ts3[0]'']),
 (19, [
    ''ts3[0:3]'']),
 (20, [
    ''ts3[0]['flux']'']),
 (22, [
    ''ts3.time'']),
 (24, [
    ''ts3.time.tai'']),
 (25, [
    ''ts3.time.isot'']),
 (27, [
    (''ts3.time.format = 'isot'' @ [CHR 0x27])]),
 (28, [
    ''ts3'']),
 (30, [
    ''from astropy.time import TimeDelta\<newline>'',
    ''ts4 = TimeSeries(time=TimeDelta([1, 3, 4] * u.s))\<newline>'',
    ''ts4'']),
 (32, [
    ''ts5 = TimeSeries(time=ts3.time - ts3.time[0], data=ts3['flux', 'error'])\<newline>'',
    ''ts5'']),
 (34, [
    ''from astropy.table import Table\<newline>'',
    ''\<newline>'',
    ''ts_a = TimeSeries(time_start='2016-03-22T12:30:31',\<newline>'',
    ''                  time_delta=3 * u.s,\<newline>'',
    ''                  data={'flux': [1, 4, 5, 3, 2] * u.mJy})\<newline>'',
    ''\<newline>'',
    ''ts_b = TimeSeries(time_start='2016-03-22T12:50:31',\<newline>'',
    ''                  time_delta=3 * u.s,\<newline>'',
    ''                  data={'flux': [4, 3, 1, 2, 3] * u.mJy})\<newline>'',
    ''\<newline>'',
    ''data = Table(data={'temperature': [40., 41., 40., 39., 30.] * u.K})'']),
 (36, [
    ''from astropy.table import hstack'']),
 (37, [
    ''tsh = hstack([ts_a, data])\<newline>'',
    ''tsh'']),
 (39, [
    ''from astropy.table import vstack'']),
 (40, [
    ''tsv = vstack([ts_a, ts_b])\<newline>'',
    ''tsv'']),
 (42, [
    ''tsv.sort('flux')\<newline>'',
    ''tsv'']),
 (44, [
    ''ts_synth = TimeSeries(time_start='2019-01-01T00:00:00',\<newline>'',
    ''                      time_delta=np.random.uniform(0, 10, 1000) * u.min)\<newline>'',
    ''ts_synth['flux'] = np.cos(2 * np.pi * (ts_synth.time.mjd / 0.49822))\<newline>'',
    ''ts_synth['flux'] += np.random.normal(0, 0.2, 1000)'']),
 (45, [
    ''plt.plot(ts_synth.time.mjd, ts_synth['flux'], 'o')'']),
 (47, [
    ''folded = ts_synth.fold(period=0.49822 * u.day)\<newline>'',
    ''folded'']),
 (48, [
    ''folded.time.to(u.day).value[:10]'']),
 (49, [
    ''plt.plot(folded.time.to(u.day).value, ts_synth['flux'], 'o')'']),
 (51, [
    ''from astropy.timeseries import LombScargle'']),
 (52, [
    ''ls = LombScargle.from_timeseries(ts_synth, 'flux')'']),
 (54, [
    ''frequency, power = ls.autopower()'']),
 (55, [
    ''frequency'']),
 (56, [
    ''power'']),
 (57, [
    ''plt.plot(frequency, power)'']),
 (59, [
    ''frequency, power = ls.autopower(minimum_frequency=0.01 / u.day,\<newline>'',
    ''                                maximum_frequency=10 / u.day)\<newline>'',
    ''plt.plot(frequency, power)'']),
 (61, [
    ''peak = np.argmax(power)\<newline>'',
    ''frequency[peak]'']),
 (62, [
    ''1 / frequency[peak]'']),
 (64, [
    ''ts_file = TimeSeries.read('data/sampled.csv', format='ascii.csv',\<newline>'',
    ''                          time_column='Date')\<newline>'',
    ''ts_file'']),
 (67, [
    ''#1\<newline>'',
    ''ts_51peg = TimeSeries.read('data/51peg.fits', time_column='BJD',\<newline>'',
    ''                           time_format='jd', time_scale='tdb')'']),
 (68, [
    ''#2\<newline>'',
    ''plt.plot(ts_51peg.time.jd, ts_51peg['RV'], 'o')'']),
 (69, [
    ''#3\<newline>'',
    ''ts_51peg['RV'][ts_51peg['Set'] == 'Lick13'] -= 21.70 * u.m / u.s\<newline>'',
    ''ts_51peg['RV'][ts_51peg['Set'] == 'Lick8 ']-= 4.52 * u.m / u.s\<newline>'',
    ''ts_51peg['RV'][ts_51peg['Set'] == 'Lick6 '] -= 14.64 * u.m / u.s\<newline>'',
    ''ts_51peg['RV'][ts_51peg['Set'] == 'ELODIE'] += 33251.59 * u.m / u.s\<newline>'',
    ''ts_51peg['RV'][ts_51peg['Set'] == 'HIRES '] += 2.24 * u.m / u.s\<newline>'',
    ''ts_51peg['RV'][ts_51peg['Set'] == 'HARPS '] += 33152.54 * u.m / u.s\<newline>'',
    ''plt.plot(ts_51peg.time.jd, ts_51peg['RV'], 'o')'']),
 (70, [
    ''#4\<newline>'',
    ''ls = LombScargle.from_timeseries(ts_51peg, 'RV')\<newline>'',
    ''frequency, power = ls.autopower(minimum_frequency=0.2 / u.day, maximum_frequency=0.3 / u.day)\<newline>'',
    ''plt.plot(frequency, power)\<newline>'',
    ''period = 1 / frequency[np.argmax(power)]\<newline>'',
    ''print(period)'']),
 (71, [
    ''#5\<newline>'',
    ''ts_51peg_folded = ts_51peg.fold(period=period)\<newline>'',
    ''plt.plot(ts_51peg_folded.time.to(u.s), ts_51peg_folded['RV'], 'o')'']),
 (73, [
    ''#6\<newline>'',
    ''from astropy.modeling import models, fitting\<newline>'',
    ''fitter = fitting.LevMarLSQFitter()\<newline>'',
    ''model_init = models.Sine1D(frequency=1/10 / u.day)\<newline>'',
    ''x = ts_51peg_folded.time.to(u.day)\<newline>'',
    ''y = ts_51peg_folded['RV']\<newline>'',
    ''model_fit = fitter(model_init, x, y)\<newline>'',
    ''plt.plot(x, y, 'o')\<newline>'',
    ''plt.plot(x, model_fit(x), 'o')\<newline>'',
    ''amplitude = model_fit.amplitude\<newline>'',
    ''print(amplitude)'']),
 (74, [
    ''#7\<newline>'',
    ''amplitude_err = fitter.fit_info['param_cov'][0,0] ** 0.5 * u.m / u.s\<newline>'',
    ''amplitude_err''])]\<close>
  by code_simp

lemma code_distributions:
\<open>code_of distributions_instructor = [
 (3, [
    ''%matplotlib inline\<newline>'',
    ''import matplotlib.pyplot as plt\<newline>'',
    ''plt.rc('image', origin='lower')\<newline>'',
    ''plt.rc('figure', figsize=(10, 6))'']),
 (5, [
    ''from astropy import units as u\<newline>'',
    ''from astropy import uncertainty as unc'']),
 (6, [
    ''distance = unc.normal(4 * u.kpc, std=0.5 * u.kpc, n_samples=10000)\<newline>'',
    ''distance'']),
 (7, [
    ''velocity = unc.uniform(center=5 * u.km / u.s, width=2 * u.km / u.s, n_samples=10000) \<newline>'',
    ''velocity'']),
 (10, [
    ''from astropy.visualization import quantity_support\<newline>'',
    ''quantity_support()'']),
 (11, [
    ''hist(distance.distribution, bins='knuth')'']),
 (13, [
    ''distance.unit'']),
 (14, [
    ''distance.n_samples'']),
 (15, [
    ''distance.pdf_mean'']),
 (16, [
    ''distance.pdf_std'']),
 (17, [
    ''distance.pdf_smad'']),
 (18, [
    ''distance.pdf_percentiles([10, 50, 90])'']),
 (20, [
    ''velocity_fixed_time = distance / (2 * u.Myr)\<newline>'',
    ''velocity_fixed_time'']),
 (21, [
    ''hist(velocity_fixed_time.distribution, bins='knuth')'']),
 (23, [
    ''time = distance / velocity\<newline>'',
    ''time'']),
 (24, [
    ''hist(time.distribution, bins='knuth')'']),
 (26, [
    ''import numpy as np\<newline>'',
    ''time = distance * np.sqrt(velocity) / (velocity ** 1.5)'']),
 (27, [
    ''hist(time.distribution, bins='knuth')'']),
 (30, [
    ''# Carried over from Part 1\<newline>'',
    ''period = 4.230714677881777 * u.day\<newline>'',
    ''amplitude = 56.51713380953932 * u.m / u.s\<newline>'',
    ''amplitude_err = 0.5256065130548112 * u.m / u.s'']),
 (31, [
    ''#8\<newline>'',
    ''from astropy.constants import G\<newline>'',
    ''from astropy import uncertainty as unc\<newline>'',
    ''from astropy.visualization import quantity_support, hist\<newline>'',
    ''N = 1000000\<newline>'',
    ''mstar = unc.uniform(lower=1.0 * u.M_sun, upper=1.2 * u.M_sun, n_samples=N)\<newline>'',
    ''r = ((G * mstar * period ** 2 / (4 * np.pi ** 2)) ** (1/3))\<newline>'',
    ''with quantity_support():\<newline>'',
    ''    hist(r.distribution.to(u.au), bins='knuth')'']),
 (32, [
    ''#9\<newline>'',
    ''cosi = unc.uniform(lower=-1, upper=+1, n_samples=N)\<newline>'',
    ''sini = np.sqrt(1 - cosi ** 2)\<newline>'',
    ''vobs = unc.normal(amplitude, std=amplitude_err, n_samples=N)\<newline>'',
    ''mp = vobs / sini * np.sqrt(r * mstar / G)\<newline>'',
    ''_ = hist(mp.distribution.to(u.M_jup).value, bins=100, range=[0, 10])'']),
 (33, [
    ''#10\<newline>'',
    ''mp.pdf_percentiles([68.27, 95.45, 99.73]).to(u.M_jup)''])]\<close>
  by code_simp

lemma code_astroquery:
\<open>code_of astroquery_instructor = [
 (3, [
    ''%matplotlib inline\<newline>'',
    ''import matplotlib.pyplot as plt\<newline>'',
    ''plt.rc('image', origin='lower')\<newline>'',
    ''plt.rc('figure', figsize=(10, 6))'']),
 (5, [
    ''from astroquery.simbad import Simbad'']),
 (7, [
    ''result = Simbad.query_object("m1")\<newline>'',
    ''result'']),
 (9, [
    ''import astropy.units as u\<newline>'',
    ''from astropy.coordinates import SkyCoord'']),
 (10, [
    ''c = SkyCoord(5 * u.hourangle, 30 * u.deg, frame='icrs')\<newline>'',
    ''r = 15 * u.arcminute'']),
 (11, [
    ''result = Simbad.query_region(c, radius=r)\<newline>'',
    ''result'']),
 (13, [
    ''from astroquery.esasky import ESASky'']),
 (15, [
    ''ESASky.list_catalogs()'']),
 (16, [
    ''ESASky.list_maps()'']),
 (18, [
    ''from astroquery.esasky import ESASky\<newline>'',
    ''result = ESASky.query_object_catalogs("M51", "2MASS")\<newline>'',
    ''result[0]'']),
 (19, [
    ''result = ESASky.query_region_catalogs("M51", 10 * u.arcmin, "2MASS")\<newline>'',
    ''result[0]'']),
 (21, [
    ''images = ESASky.get_images("m51", radius=5 * u.arcmin,\<newline>'',
    ''                           missions=['Herschel'])'']),
 (22, [
    ''images['HERSCHEL'][0]['160'].info()'']),
 (23, [
    ''plt.imshow(images['HERSCHEL'][0]['160']['image'].data)'']),
 (25, [
    ''from astroquery.irsa import Irsa\<newline>'',
    ''Irsa.list_catalogs()  # shows that catalog name is allwise_p3as_psd\<newline>'',
    ''table = Irsa.query_region("M31", catalog="allwise_p3as_psd", radius=5 * u.arcmin)\<newline>'',
    ''table'']),
 (27, [
    ''from pyvo.dal import imagesearch'']),
 (28, [
    ''M17 = SkyCoord.from_name('M17')\<newline>'',
    ''table = imagesearch('https://irsa.ipac.caltech.edu/cgi-bin/2MASS/IM/nph-im_sia?type=at&ds=asky&',\<newline>'',
    ''                    M17, size=0.25).to_table()\<newline>'',
    ''table'']),
 (29, [
    ''subtable = table[(table['band'] == b'K') & (table['format'] == b'image/fits')]\<newline>'',
    ''subtable'']),
 (30, [
    ''from astropy.io import fits\<newline>'',
    ''hdus = [fits.open(row['download'].decode('ascii')) for row in subtable]'']),
 (31, [
    ''plt.imshow(hdus[0][0].data, vmin=500, vmax=1000)''])]\<close>
  by code_simp

lemma code_part_002:
\<open>code_of part_002 = [
 (3, [
    ''%matplotlib inline\<newline>'',
    ''import matplotlib.pyplot as plt\<newline>'',
    ''plt.rc('image', origin='lower')\<newline>'',
    ''plt.rc('figure', figsize=(10, 6))'']),
 (5, [
    ''from astropy.nddata import NDData'']),
 (7, [
    ''import numpy as np\<newline>'',
    ''data = np.random.random((16, 16, 16))'']),
 (8, [
    ''ndd1 = NDData(data)'']),
 (9, [
    ''ndd1.data'']),
 (11, [
    ''from astropy import units as u\<newline>'',
    ''from astropy.wcs import WCS\<newline>'',
    ''wcs = WCS(naxis=3)\<newline>'',
    ''mask = data > 0.5'']),
 (12, [
    ''ndd2 = NDData(data, mask=mask, unit=u.Jy, wcs=wcs)'']),
 (13, [
    ''ndd2.wcs'']),
 (15, [
    ''from astropy.nddata import StdDevUncertainty\<newline>'',
    ''uncertainty = StdDevUncertainty(data / 10)\<newline>'',
    ''ndd3 = NDData(data, uncertainty=uncertainty)'']),
 (18, [
    ''from astropy.nddata import CCDData'']),
 (20, [
    ''ccd = CCDData.read('data/gc_2mass_k.fits', unit='count')\<newline>'',
    ''ccd'']),
 (21, [
    ''plt.subplot(projection=ccd.wcs)\<newline>'',
    ''plt.imshow(ccd.data, vmax=800)\<newline>'',
    ''plt.grid()'']),
 (23, [
    ''subccd = ccd[100:300, 200:400]'']),
 (24, [
    ''plt.subplot(projection=subccd.wcs)\<newline>'',
    ''plt.imshow(subccd.data, vmax=800)\<newline>'',
    ''plt.grid()'']),
 (26, [
    ''ccd1 = CCDData([1, 2, 3], unit='count',\<newline>'',
    ''               uncertainty=StdDevUncertainty([1, 1.2, 1.5]))\<newline>'',
    ''ccd2 = CCDData([0.5, 0.5, 0.5], unit='count',\<newline>'',
    ''               uncertainty=StdDevUncertainty([0.2, 0.1, 0.3]))'']),
 (27, [
    ''ccd_sub = ccd1.subtract(ccd2)'']),
 (28, [
    ''ccd_sub.data'']),
 (29, [
    ''ccd_sub.uncertainty'']),
 (31, [
    ''ccd1.divide(ccd1).uncertainty'']),
 (33, [
    ''from astropy.nddata import Cutout2D'']),
 (35, [
    ''from astropy.coordinates import SkyCoord\<newline>'',
    ''galcen = SkyCoord(0 * u.deg, 0 * u.deg, frame='galactic')'']),
 (36, [
    ''cutout = Cutout2D(ccd.data, galcen, 20 * u.arcmin, wcs=ccd.wcs)'']),
 (37, [
    ''plt.subplot(projection=cutout.wcs)\<newline>'',
    ''plt.imshow(cutout.data, vmin=300, vmax=1000) '']),
 (39, [
    ''plt.subplot(projection=cutout.wcs)\<newline>'',
    ''plt.imshow(ccd.data, vmin=300, vmax=1000) \<newline>'',
    ''cutout.plot_on_original(color='white') '']),
 (41, [
    ''cutout.to_original_position((20, 30))'']),
 (43, [
    ''from astropy.nddata import block_reduce, block_replicate'']),
 (44, [
    ''plt.imshow(block_reduce(ccd.data, 20))'']),
 (45, [
    ''plt.imshow(block_replicate(ccd.data[:10, :10], 3))''])]\<close>
  by code_simp

section \<open>What the notebooks hold\<close>

text \<open>Each fact below is computed from the notebook, by the definitions above.\<close>


text \<open>In each notebook the code cells have not been run, and no other cell has outputs.\<close>

lemma cells_unexecuted:
  "list_all (\<lambda>c. if is_code c then unexecuted c else field ''outputs'' c = None) (cells wcsaxes_instructor)"
  "list_all (\<lambda>c. if is_code c then unexecuted c else field ''outputs'' c = None) (cells photometry_instructor)"
  "list_all (\<lambda>c. if is_code c then unexecuted c else field ''outputs'' c = None) (cells healpix_instructor)"
  "list_all (\<lambda>c. if is_code c then unexecuted c else field ''outputs'' c = None) (cells timeseries_instructor)"
  "list_all (\<lambda>c. if is_code c then unexecuted c else field ''outputs'' c = None) (cells distributions_instructor)"
  "list_all (\<lambda>c. if is_code c then unexecuted c else field ''outputs'' c = None) (cells astroquery_instructor)"
  "list_all (\<lambda>c. if is_code c then unexecuted c else field ''outputs'' c = None) (cells part_002)"
  by code_simp+




text \<open>The modules each notebook imports.\<close>

lemma modules_imported:
  "imported_modules wcsaxes_instructor =
     [''matplotlib.pyplot'', ''astropy.io'', ''astropy.wcs'', ''astropy'',
      ''astropy.visualization'', ''scipy.ndimage'', ''astropy.table'', ''aplpy'']"
  "imported_modules photometry_instructor =
     [''matplotlib.pyplot'', ''photutils.datasets'', ''astropy.stats'', ''photutils'']"
  "imported_modules healpix_instructor =
     [''matplotlib.pyplot'', ''astropy.io'', ''astropy_healpix'', ''astropy.coordinates'',
      ''astropy'', ''numpy'', ''astropy.wcs'', ''reproject'', ''astropy.visualization'']"
  "imported_modules timeseries_instructor =
     [''matplotlib.pyplot'', ''astropy'', ''numpy'', ''astropy.time'', ''astropy.table'',
      ''astropy.timeseries'', ''astropy.modeling'']"
  "imported_modules distributions_instructor =
     [''matplotlib.pyplot'', ''numpy'', ''astropy.constants'', ''astropy'',
      ''astropy.visualization'']"
  "imported_modules astroquery_instructor =
     [''matplotlib.pyplot'', ''astroquery.simbad'', ''astropy.units'', ''astropy.coordinates'',
      ''astroquery.esasky'', ''astroquery.irsa'', ''pyvo.dal'', ''astropy.io'']"
  "imported_modules part_002 =
     [''matplotlib.pyplot'', ''numpy'', ''astropy'', ''astropy.wcs'', ''astropy.coordinates'',
      ''astropy.nddata'']"
  unfolding imported_modules_def code_wcsaxes code_photometry code_healpix code_timeseries
    code_distributions code_astroquery code_part_002
  by code_simp+






text \<open>Six notebooks run from top to bottom without a \<open>NameError\<close>.\<close>

lemma runs_without_name_error:
  "\<not> isl (run_all wcsaxes_instructor)"
  "\<not> isl (run_all photometry_instructor)"
  "\<not> isl (run_all healpix_instructor)"
  "\<not> isl (run_all timeseries_instructor)"
  "\<not> isl (run_all astroquery_instructor)"
  "\<not> isl (run_all part_002)"
  unfolding run_all_def code_wcsaxes code_photometry code_healpix code_timeseries
    code_astroquery code_part_002
  by code_simp+

section \<open>The claims\<close>

text \<open>A property of every notebook is checked on each of the seven.\<close>

lemma each_notebook:
  assumes "nb \<in> set notebooks"
    and "P wcsaxes_instructor" and "P photometry_instructor" and "P healpix_instructor"
    and "P timeseries_instructor" and "P distributions_instructor"
    and "P astroquery_instructor" and "P part_002"
  shows "P nb"
  using assms by (auto simp add: notebooks_def)

subsection \<open>Cells\<close>






text \<open>
  C9. Every notebook is distributed unexecuted: every code cell has the execution count
  \<open>null\<close> and an empty list of outputs, and no other cell has outputs at all.
\<close>

theorem notebooks_unexecuted:
  "\<forall>nb\<in>set notebooks. \<forall>c\<in>set (cells nb).
     (is_code c \<longrightarrow>
        field ''execution_count'' c = Some JNull \<and> field ''outputs'' c = Some (JArr [])) \<and>
     (\<not> is_code c \<longrightarrow> field ''outputs'' c = None)"
proof
  fix nb
  assume "nb \<in> set notebooks"
  then have "list_all (\<lambda>c. if is_code c then unexecuted c else field ''outputs'' c = None) (cells nb)"
    by (rule each_notebook) (fact cells_unexecuted)+
  then show "\<forall>c\<in>set (cells nb).
     (is_code c \<longrightarrow>
        field ''execution_count'' c = Some JNull \<and> field ''outputs'' c = Some (JArr [])) \<and>
     (\<not> is_code c \<longrightarrow> field ''outputs'' c = None)"
    by (auto simp add: list_all_iff unexecuted_def split: if_splits)
qed

text \<open>The first code cell of the astroquery notebook is its cell 3.\<close>

lemma astroquery_first_code:
  "cells astroquery_instructor ! 3 \<in> set (cells astroquery_instructor)"
  "is_code (cells astroquery_instructor ! 3)"
  by code_simp+

theorem notebooks_unexecuted_witness:
  "astroquery_instructor \<in> set notebooks \<and>
   cells astroquery_instructor ! 3 \<in> set (cells astroquery_instructor) \<and>
   is_code (cells astroquery_instructor ! 3) \<and>
   field ''execution_count'' (cells astroquery_instructor ! 3) = Some JNull \<and>
   field ''outputs'' (cells astroquery_instructor ! 3) = Some (JArr [])"
proof -
  have nb: "astroquery_instructor \<in> set notebooks"
    by (simp add: notebooks_def)
  with notebooks_unexecuted astroquery_first_code show ?thesis
    by blast
qed

subsection \<open>Statements\<close>





subsection \<open>Imports\<close>

text \<open>The packages each notebook imports, and the names under which the libraries of the
  README and of the specification are imported.\<close>

lemma packages_imported:
  "imported_packages wcsaxes_instructor = [''matplotlib'', ''scipy'', ''astropy'', ''aplpy'']"
  "imported_packages photometry_instructor = [''matplotlib'', ''astropy'', ''photutils'']"
  "imported_packages healpix_instructor =
     [''matplotlib'', ''astropy_healpix'', ''numpy'', ''reproject'', ''astropy'']"
  "imported_packages timeseries_instructor = [''matplotlib'', ''numpy'', ''astropy'']"
  "imported_packages distributions_instructor = [''matplotlib'', ''numpy'', ''astropy'']"
  "imported_packages astroquery_instructor = [''matplotlib'', ''astroquery'', ''pyvo'', ''astropy'']"
  "imported_packages part_002 = [''matplotlib'', ''numpy'', ''astropy'']"
  unfolding imported_packages_def modules_imported
  by code_simp+


lemma spec_library_names:
  "map import_name spec_libraries =
     [''astropy'', ''astropy_healpix'', ''photutils'', ''reproject'', ''astroquery'', ''pyvo'',
      ''matplotlib'', ''scipy'', ''numpy'']"
  by code_simp

text \<open>
  C2, as the specification states it, fails: the first notebook imports \<open>aplpy\<close>, which is
  not one of the nine libraries the specification names.
\<close>

theorem aplpy_not_a_spec_library:
  "''aplpy'' \<in> set (imported_packages wcsaxes_instructor) \<and>
   ''aplpy'' \<notin> set (map import_name spec_libraries)"
  by (simp add: packages_imported spec_library_names)

text \<open>
  C2, amended. Every package imported by a code cell of a notebook is one of the nine
  libraries the specification names, or \<open>aplpy\<close>. (No module of the standard library is
  imported.)
\<close>

theorem imports_spec_libraries_or_aplpy:
  "\<forall>nb\<in>set notebooks. \<forall>p\<in>set (imported_packages nb).
     p \<in> set (map import_name spec_libraries) \<or> p = ''aplpy''"
proof
  fix nb
  assume "nb \<in> set notebooks"
  then show "\<forall>p\<in>set (imported_packages nb).
     p \<in> set (map import_name spec_libraries) \<or> p = ''aplpy''"
    by (rule each_notebook) (simp_all add: packages_imported spec_library_names)
qed

theorem imports_spec_libraries_or_aplpy_witness:
  "astroquery_instructor \<in> set notebooks \<and>
   ''pyvo'' \<in> set (imported_packages astroquery_instructor) \<and>
   (''pyvo'' \<in> set (map import_name spec_libraries) \<or> ''pyvo'' = ''aplpy'')"
proof -
  have nb: "astroquery_instructor \<in> set notebooks"
    by (simp add: notebooks_def)
  have p: "''pyvo'' \<in> set (imported_packages astroquery_instructor)"
    by (simp add: packages_imported)
  from imports_spec_libraries_or_aplpy nb p show ?thesis
    by blast
qed



subsection \<open>Names\<close>


text \<open>
  The notebook reads \<open>hist\<close> in its cells 11, 21, 24 and 27, and imports it from
  \<open>astropy.visualization\<close> only in its cell 31, where cell 10 had imported
  \<open>quantity_support\<close> alone.
\<close>

lemma hist_events:
  "events [''hist''] distributions_instructor =
     [(11, Reads ''hist'' None), (21, Reads ''hist'' None), (24, Reads ''hist'' None),
      (27, Reads ''hist'' None),
      (31, Binds ''hist'' (Member ''astropy.visualization'' ''hist'')),
      (31, Reads ''hist'' (Some (Member ''astropy.visualization'' ''hist''))),
      (32, Reads ''hist'' (Some (Member ''astropy.visualization'' ''hist'')))]"
  unfolding events_def code_distributions
  by code_simp





subsection \<open>Files\<close>





end
